theory Spec2Isabelle
  imports Main "HOL-Library.Sublist" "HOL-Library.Monad_Syntax"
begin

section \<open>Strings\<close>

text \<open>
  A string of the script is modelled by the bytes of its UTF-8 encoding: the text that
  reaches the terminal and the files. The operations the script applies to strings
  search for ASCII patterns only, so they act on the bytes as they act on the
  JavaScript string.
\<close>

definition nl :: string where
  "nl = [CHR 0x0A]"

definition cr :: string where
  "cr = [CHR 0x0D]"

text \<open>\<^verbatim>\<open>s.includes(p)\<close>: \<open>p\<close> occurs in \<open>s\<close>.\<close>

fun str_includes :: "string \<Rightarrow> string \<Rightarrow> bool" where
  "str_includes [] p = (p = [])"
| "str_includes (c # s) p = (prefix p (c # s) \<or> str_includes s p)"

text \<open>
  \<^verbatim>\<open>s.replace(p, r)\<close> with a string pattern: the first occurrence of \<open>p\<close> is
  replaced (the replacement texts of the script contain no \<open>$\<close>, so they are taken
  literally).
\<close>

fun replace :: "string \<Rightarrow> string \<Rightarrow> string \<Rightarrow> string" where
  "replace [] p r = (if p = [] then r else [])"
| "replace (c # s) p r =
     (if prefix p (c # s) then r @ drop (length p) (c # s) else c # replace s p r)"

text \<open>
  White space as \<^verbatim>\<open>String.prototype.trim\<close> knows it (WhiteSpace and LineTerminator
  of ECMAScript), in UTF-8: TAB, LF, VT, FF, CR, SP, U+00A0, U+1680, U+2000 to U+200A,
  U+2028, U+2029, U+202F, U+205F, U+3000 and U+FEFF.
\<close>

definition white_space :: "string list" where
  "white_space =
     [[CHR 0x09], [CHR 0x0A], [CHR 0x0B], [CHR 0x0C], [CHR 0x0D], [CHR 0x20],
      [CHR 0xC2, CHR 0xA0],
      [CHR 0xE1, CHR 0x9A, CHR 0x80],
      [CHR 0xE2, CHR 0x80, CHR 0x80], [CHR 0xE2, CHR 0x80, CHR 0x81],
      [CHR 0xE2, CHR 0x80, CHR 0x82], [CHR 0xE2, CHR 0x80, CHR 0x83],
      [CHR 0xE2, CHR 0x80, CHR 0x84], [CHR 0xE2, CHR 0x80, CHR 0x85],
      [CHR 0xE2, CHR 0x80, CHR 0x86], [CHR 0xE2, CHR 0x80, CHR 0x87],
      [CHR 0xE2, CHR 0x80, CHR 0x88], [CHR 0xE2, CHR 0x80, CHR 0x89],
      [CHR 0xE2, CHR 0x80, CHR 0x8A],
      [CHR 0xE2, CHR 0x80, CHR 0xA8], [CHR 0xE2, CHR 0x80, CHR 0xA9],
      [CHR 0xE2, CHR 0x80, CHR 0xAF],
      [CHR 0xE2, CHR 0x81, CHR 0x9F],
      [CHR 0xE3, CHR 0x80, CHR 0x80],
      [CHR 0xEF, CHR 0xBB, CHR 0xBF]]"

text \<open>The length of the white space character \<open>s\<close> starts with; 0 when it starts with none.\<close>

definition ws_len :: "string list \<Rightarrow> string \<Rightarrow> nat" where
  "ws_len pats s = (case find (\<lambda>p. prefix p s) pats of None \<Rightarrow> 0 | Some p \<Rightarrow> length p)"

function strip :: "string list \<Rightarrow> string \<Rightarrow> string" where
  "strip pats s = (if ws_len pats s = 0 then s else strip pats (drop (ws_len pats s) s))"
  by pat_completeness auto
termination
proof (relation "measure (\<lambda>(pats, s). length s)")
  show "wf (measure (\<lambda>(pats, s). length s))" by simp
next
  fix pats :: "string list" and s :: string
  assume pos: "ws_len pats s \<noteq> 0"
  then obtain p where "find (\<lambda>p. prefix p s) pats = Some p" and "length p = ws_len pats s"
    by (auto simp: ws_len_def split: option.splits)
  then have "prefix p s" by (auto simp: find_Some_iff)
  then have "s \<noteq> []" using pos \<open>length p = ws_len pats s\<close> by auto
  then show "((pats, drop (ws_len pats s) s), (pats, s)) \<in> measure (\<lambda>(pats, s). length s)"
    using pos by simp
qed

declare strip.simps [simp del]

definition trimStart :: "string \<Rightarrow> string" where
  "trimStart s = strip white_space s"

definition trimEnd :: "string \<Rightarrow> string" where
  "trimEnd s = rev (strip (map rev white_space) (rev s))"

definition trim :: "string \<Rightarrow> string" where
  "trim s = trimEnd (trimStart s)"

text \<open>The decimal digits of a natural number, as \<^verbatim>\<open>"" + n\<close> writes it.\<close>

fun digits_of :: "nat \<Rightarrow> string" where
  "digits_of n =
     (if n < 10 then [char_of (48 + n)] else digits_of (n div 10) @ [char_of (48 + n mod 10)])"

declare digits_of.simps [simp del]

subsection \<open>parseInt\<close>

text \<open>
  \<^verbatim>\<open>parseInt(s)\<close> without a radix: leading white space is skipped, a sign is read, a
  prefix \<^verbatim>\<open>0x\<close> or \<^verbatim>\<open>0X\<close> selects radix 16, and the longest run of digits of the radix
  is the value; no digit gives NaN, here \<open>None\<close>. The value is kept exact; the script only
  compares it with 1 and the length of an array, and a double that is not exact lies far
  above every array length.
\<close>

definition digit_value :: "nat \<Rightarrow> char \<Rightarrow> nat option" where
  "digit_value radix c =
     (let n = of_char c :: nat;
          v = (if 48 \<le> n \<and> n \<le> 57 then Some (n - 48)
               else if 97 \<le> n \<and> n \<le> 122 then Some (n - 87)
               else if 65 \<le> n \<and> n \<le> 90 then Some (n - 55)
               else None)
      in case v of None \<Rightarrow> None | Some d \<Rightarrow> if d < radix then Some d else None)"

definition digits_value :: "nat \<Rightarrow> string \<Rightarrow> nat" where
  "digits_value radix ds = foldl (\<lambda>acc c. acc * radix + (case digit_value radix c of Some d \<Rightarrow> d | None \<Rightarrow> 0)) 0 ds"

definition parseInt :: "string \<Rightarrow> int option" where
  "parseInt s =
     (let s1 = trimStart s;
          neg = (take 1 s1 = ''-'');
          s2 = (if take 1 s1 = ''-'' \<or> take 1 s1 = ''+'' then drop 1 s1 else s1);
          hex = (take 2 s2 = ''0x'' \<or> take 2 s2 = ''0X'');
          radix = (if hex then 16 else 10);
          s3 = (if hex then drop 2 s2 else s2);
          ds = takeWhile (\<lambda>c. digit_value radix c \<noteq> None) s3
      in if ds = [] then None
         else Some ((if neg then - 1 else 1) * int (digits_value radix ds)))"

section \<open>The world the script runs in\<close>

datatype error =
    ShellError "string list"
  | FsError string string
  | ReferenceError string
  | SyntaxError
  | TypeError

text \<open>
  What the script does that can be observed from outside, in the order it happens: a line
  on the console, an answer read from standard input, a call of the file system, an
  external command, and the entry and exit of a setup step.
\<close>

datatype event =
    Print string
  | PrintError error
  | Answered string
  | ReadFile string bool
  | WriteFile string string bool
  | Mkdir string bool
  | Run "string list" bool
  | Enter string
  | Leave string

datatype json =
    JNull
  | JBool bool
  | JNumber string
  | JString string
  | JArray "json list"
  | JObject "(string \<times> json) list"

text \<open>
  A theme of the store, as \<open>getShopifyThemes\<close> declares the elements of its result;
  each field is the text that it gives in a template literal.
\<close>

record theme =
  theme_id :: string
  theme_name :: string
  theme_role :: string

text \<open>
  What \<^verbatim>\<open>JSON.parse\<close> can make of the output of \<^verbatim>\<open>shopify theme list --json\<close>, as far
  as \<open>askQuestions\<close> tells the values apart, since nothing checks the declared type
  when the script runs: an array of themes; \<^verbatim>\<open>null\<close>, whose \<^verbatim>\<open>length\<close> cannot be
  read; a value that is no array and whose \<^verbatim>\<open>length\<close> is not a number above 0 (a number,
  a boolean, an empty string, an object without such a property); and a value with a
  \<^verbatim>\<open>length\<close> above 0 on which \<^verbatim>\<open>themes.map(...)\<close> throws (a string, an object with
  such a property, an array with \<^verbatim>\<open>null\<close> among its elements).
\<close>

datatype themes_value =
    ThemeArray "theme list"
  | NoLength
  | NotPositive
  | NoMap

text \<open>
  \<open>stdin\<close> holds the chunks that \<^verbatim>\<open>read()\<close> is still to deliver, decoded; after the
  last one the stream is done. \<open>files\<close> are the files of the working directory.
  The rest is the environment, which the script does not change: \<open>fault k\<close> says
  that a file system call made as the \<open>k\<close>-th observable action fails for a reason
  outside the script (permissions, a missing directory, a full disk); \<open>shell k argv fs\<close>
  is what the external command \<open>argv\<close> run at that moment does to the files, with its
  standard output, or \<open>None\<close> when it exits with a failure; \<open>json_parse\<close> is
  \<^verbatim>\<open>JSON.parse\<close>, \<open>None\<close> for a syntax error, and \<open>json_themes\<close> is \<^verbatim>\<open>JSON.parse\<close>
  on the output of \<^verbatim>\<open>shopify theme list --json\<close>.
\<close>

record world =
  stdin :: "string list"
  files :: "string \<rightharpoonup> string"
  journal :: "event list"
  fault :: "nat \<Rightarrow> bool"
  shell :: "nat \<Rightarrow> string list \<Rightarrow> (string \<rightharpoonup> string) \<Rightarrow> (string \<rightharpoonup> string) \<times> string option"
  json_parse :: "string \<Rightarrow> json option"
  json_themes :: "string \<Rightarrow> themes_value option"

text \<open>
  How a call ends: it returns a value, it throws, or the process exits inside it with a
  code. A call that never ends has no result (\<open>None\<close> of the functions below that can
  loop).
\<close>

datatype 'a result =
    Ok 'a world
  | Throw error world
  | Exit int world

definition record_event :: "event \<Rightarrow> world \<Rightarrow> world" where
  "record_event e w = w\<lparr>journal := journal w @ [e]\<rparr>"

definition console :: "world \<Rightarrow> string list" where
  "console w = concat (map (\<lambda>e. case e of Print s \<Rightarrow> [s] | _ \<Rightarrow> []) (journal w))"

subsection \<open>Console output\<close>

definition esc :: string where
  "esc = [CHR 0x1B]"

definition reset :: string where "reset = esc @ ''[0m''"
definition bright :: string where "bright = esc @ ''[1m''"
definition cyan :: string where "cyan = esc @ ''[36m''"
definition green :: string where "green = esc @ ''[32m''"
definition yellow :: string where "yellow = esc @ ''[33m''"
definition red :: string where "red = esc @ ''[31m''"
definition blue :: string where "blue = esc @ ''[34m''"
definition magenta :: string where "magenta = esc @ ''[35m''"

text \<open>\<^verbatim>\<open>console.log(s)\<close> and \<^verbatim>\<open>console.error(error)\<close>.\<close>

definition console_log :: "string \<Rightarrow> world \<Rightarrow> world" where
  "console_log s w = record_event (Print s) w"

definition console_error :: "error \<Rightarrow> world \<Rightarrow> world" where
  "console_error e w = record_event (PrintError e) w"

definition log :: "string \<Rightarrow> string \<Rightarrow> world \<Rightarrow> world" where
  "log message color w = console_log (color @ message @ reset) w"

definition repeat :: "string \<Rightarrow> nat \<Rightarrow> string" where
  "repeat s n = concat (replicate n s)"

definition header :: "string \<Rightarrow> world \<Rightarrow> world" where
  "header message w =
     (let w1 = console_log (nl @ repeat ''='' 60) w;
          w2 = log message (bright @ cyan) w1
      in console_log (repeat ''='' 60 @ nl) w2)"

subsection \<open>prompt and select\<close>

text \<open>
  The loop of \<open>prompt\<close>: chunks are appended to \<open>result\<close> until one contains a line
  feed or the stream is done. From the chunk with the line feed, the first line feed and
  then the first carriage return are removed.
\<close>

fun read_line :: "string list \<Rightarrow> string \<Rightarrow> string \<times> string list" where
  "read_line [] result = (result, [])"
| "read_line (text # input) result =
     (if str_includes text nl then (result @ replace (replace text nl []) cr [], input)
      else read_line input (result @ text))"

definition prompt :: "string \<Rightarrow> world \<Rightarrow> string \<times> world" where
  "prompt question w =
     (let w1 = log question yellow w;
          (result, input) = read_line (stdin w1) []
      in (trim result, record_event (Answered (trim result)) (w1\<lparr>stdin := input\<rparr>)))"

definition show_options :: "string list \<Rightarrow> world \<Rightarrow> world" where
  "show_options options w =
     foldl (\<lambda>w (index, option). log (''  '' @ digits_of (index + 1) @ ''. '' @ option) cyan w)
       w (enumerate 0 options)"

partial_function (option) select :: "string \<Rightarrow> string list \<Rightarrow> world \<Rightarrow> (nat \<times> world) option" where
  "select question options w =
     (let w1 = log question yellow w;
          w2 = show_options options w1;
          (answer, w3) = prompt (''Enter your choice (1-'' @ digits_of (length options) @ ''):'') w2
      in case parseInt answer of
           Some choice \<Rightarrow>
             if choice \<ge> 1 \<and> choice \<le> int (length options) then Some (nat (choice - 1), w3)
             else select question options (log ''Invalid choice. Please try again.'' red w3)
         | None \<Rightarrow> select question options (log ''Invalid choice. Please try again.'' red w3))"

declare select.simps [code]

text \<open>An answer that \<open>select\<close> accepts: it parses to an integer from 1 to the number of options.\<close>

definition valid_choice :: "string list \<Rightarrow> string \<Rightarrow> bool" where
  "valid_choice options answer =
     (case parseInt answer of
        Some choice \<Rightarrow> 1 \<le> choice \<and> choice \<le> int (length options)
      | None \<Rightarrow> False)"

text \<open>What one round of \<open>select\<close> that reads \<open>answer\<close> shows on the console and reads.\<close>

definition asking :: "string \<Rightarrow> string list \<Rightarrow> string \<Rightarrow> event list" where
  "asking question options answer =
     [Print (yellow @ question @ reset)] @
     map (\<lambda>(index, option). Print (cyan @ ''  '' @ digits_of (index + 1) @ ''. '' @ option @ reset))
       (enumerate 0 options) @
     [Print (yellow @ ''Enter your choice (1-'' @ digits_of (length options) @ ''):'' @ reset),
      Answered answer]"

definition rejecting :: "string \<Rightarrow> string list \<Rightarrow> string \<Rightarrow> event list" where
  "rejecting question options answer =
     asking question options answer @ [Print (red @ ''Invalid choice. Please try again.'' @ reset)]"

text \<open>The call of \<open>prompt\<close> in a round of \<open>select\<close>, after the question and the options.\<close>

definition select_prompt :: "string \<Rightarrow> string list \<Rightarrow> world \<Rightarrow> string \<times> world" where
  "select_prompt question options w =
     prompt (''Enter your choice (1-'' @ digits_of (length options) @ ''):'')
       (show_options options (log question yellow w))"

text \<open>The answers that successive calls of \<open>prompt\<close> read from an input, counted from 0.\<close>

fun answer_at :: "string list \<Rightarrow> nat \<Rightarrow> string" where
  "answer_at input 0 = trim (fst (read_line input []))"
| "answer_at input (Suc k) = answer_at (snd (read_line input [])) k"

text \<open>The number of answers read so far.\<close>

definition asked :: "world \<Rightarrow> nat" where
  "asked w = length (filter (\<lambda>e. case e of Answered a \<Rightarrow> True | _ \<Rightarrow> False) (journal w))"

section \<open>The setup configuration\<close>

text \<open>
  The choices of \<open>SetupConfig\<close>. A field that \<open>askQuestions\<close> reads from a table by
  the index of the choice is an option: \<open>None\<close> is JavaScript's \<open>undefined\<close>, what
  an index outside the table gives. \<open>themeId\<close> is \<open>None\<close> for \<open>null\<close>.
\<close>

datatype stylingApproach = Css | Scss | Postcss | Tailwind

datatype jsApproach = Vanilla | Typescript

datatype packageManager = Bun | Npm | Pnpm | Yarn

datatype tomlApproach = TomlFile | TomlCli | TomlSkip

datatype lintingSetup = EslintPrettier | ThemeCheck | LintSkip

record SetupConfig =
  projectName :: string
  stylingApproach :: "stylingApproach option"
  jsApproach :: jsApproach
  packageManager :: "packageManager option"
  shopifyEnvironment :: string
  themeId :: "string option"
  enableTunnel :: bool
  projectType :: "string option"
  projectDescription :: string
  tomlApproach :: "tomlApproach option"
  storeUrl :: string
  lintingSetup :: "lintingSetup option"
  gitHooks :: bool

text \<open>The text of a choice, as a template literal writes it.\<close>

fun styling_text :: "stylingApproach option \<Rightarrow> string" where
  "styling_text (Some Css) = ''css''"
| "styling_text (Some Scss) = ''scss''"
| "styling_text (Some Postcss) = ''postcss''"
| "styling_text (Some Tailwind) = ''tailwind''"
| "styling_text None = ''undefined''"

fun js_text :: "jsApproach \<Rightarrow> string" where
  "js_text Vanilla = ''vanilla''"
| "js_text Typescript = ''typescript''"

fun pm_text :: "packageManager option \<Rightarrow> string" where
  "pm_text (Some Bun) = ''bun''"
| "pm_text (Some Npm) = ''npm''"
| "pm_text (Some Pnpm) = ''pnpm''"
| "pm_text (Some Yarn) = ''yarn''"
| "pm_text None = ''undefined''"

text \<open>\<^verbatim>\<open>xs[i]\<close> of JavaScript.\<close>

definition at_index :: "'a list \<Rightarrow> nat \<Rightarrow> 'a option" where
  "at_index xs i = (if i < length xs then Some (xs ! i) else None)"

text \<open>\<^verbatim>\<open>s || d\<close> for a string \<open>s\<close>: the empty string is falsy.\<close>

definition or_default :: "string \<Rightarrow> string \<Rightarrow> string" where
  "or_default s d = (if s = [] then d else s)"

text \<open>Each line of a text, closed by a line feed.\<close>

definition unlines :: "string list \<Rightarrow> string" where
  "unlines ls = concat (map (\<lambda>l. l @ nl) ls)"

text \<open>\<^verbatim>\<open>s.replace(/-/g, "")\<close>.\<close>

definition remove_hyphens :: "string \<Rightarrow> string" where
  "remove_hyphens s = filter (\<lambda>c. c \<noteq> CHR ''-'') s"

text \<open>
  \<^verbatim>\<open>s.toLowerCase()\<close> on the letters A to Z. The script compares the result with
  \<^verbatim>\<open>"y"\<close> and \<^verbatim>\<open>"yes"\<close> only, and no character outside ASCII has y, e or s as its
  lower case.
\<close>

definition toLowerCase :: "string \<Rightarrow> string" where
  "toLowerCase s =
     map (\<lambda>c. if 65 \<le> (of_char c :: nat) \<and> (of_char c :: nat) \<le> 90
              then char_of ((of_char c :: nat) + 32) else c) s"

section \<open>Calls that can fail\<close>

definition and_then :: "'a result \<Rightarrow> ('a \<Rightarrow> world \<Rightarrow> 'b result) \<Rightarrow> 'b result" where
  "and_then r f = (case r of Ok x w \<Rightarrow> f x w | Throw e w \<Rightarrow> Throw e w | Exit n w \<Rightarrow> Exit n w)"

text \<open>\<^verbatim>\<open>try { r } catch (error) { handler }\<close>.\<close>

definition try_catch :: "'a result \<Rightarrow> (error \<Rightarrow> world \<Rightarrow> 'a result) \<Rightarrow> 'a result" where
  "try_catch r handler = (case r of Throw e w \<Rightarrow> handler e w | Ok x w \<Rightarrow> Ok x w | Exit n w \<Rightarrow> Exit n w)"

text \<open>
  The file system. A call fails when the environment says so at that moment;
  \<open>readFile\<close> fails also when the file is not there. Directories are not tracked: a
  write into a missing directory is one of the failures of the environment.
\<close>

definition writeFile :: "string \<Rightarrow> string \<Rightarrow> world \<Rightarrow> unit result" where
  "writeFile path content w =
     (if fault w (length (journal w))
      then Throw (FsError ''writeFile'' path) (record_event (WriteFile path content False) w)
      else Ok () (record_event (WriteFile path content True) (w\<lparr>files := (files w)(path \<mapsto> content)\<rparr>)))"

definition readFile :: "string \<Rightarrow> world \<Rightarrow> string result" where
  "readFile path w =
     (case files w path of
        None \<Rightarrow> Throw (FsError ''readFile'' path) (record_event (ReadFile path False) w)
      | Some content \<Rightarrow>
          if fault w (length (journal w))
          then Throw (FsError ''readFile'' path) (record_event (ReadFile path False) w)
          else Ok content (record_event (ReadFile path True) w))"

definition mkdir :: "string \<Rightarrow> world \<Rightarrow> unit result" where
  "mkdir path w =
     (if fault w (length (journal w))
      then Throw (FsError ''mkdir'' path) (record_event (Mkdir path False) w)
      else Ok () (record_event (Mkdir path True) w))"

text \<open>\<^verbatim>\<open>join(dir, file)\<close> for the relative paths of the script, which need no normalisation.\<close>

definition join :: "string \<Rightarrow> string \<Rightarrow> string" where
  "join dir file = dir @ ''/'' @ file"

text \<open>
  An external command, \<^verbatim>\<open>await $`...`\<close>: it returns the standard output of the
  command, or throws when the command fails.
\<close>

definition sh :: "string list \<Rightarrow> world \<Rightarrow> string result" where
  "sh argv w =
     (case shell w (length (journal w)) argv (files w) of
        (fs, None) \<Rightarrow> Throw (ShellError argv) (record_event (Run argv False) (w\<lparr>files := fs\<rparr>))
      | (fs, Some out) \<Rightarrow> Ok out (record_event (Run argv True) (w\<lparr>files := fs\<rparr>)))"

text \<open>
  The command that adds development dependencies with the chosen package manager; the
  script writes this chain of comparisons out in \<open>installDependencies\<close>,
  \<open>setupLinting\<close> and \<open>setupGitHooks\<close>.
\<close>

definition add_dev :: "packageManager option \<Rightarrow> string list \<Rightarrow> string list" where
  "add_dev pm deps =
     (if pm = Some Bun then [''bun'', ''add'', ''-d''] @ deps
      else if pm = Some Npm then [''npm'', ''install'', ''--save-dev''] @ deps
      else if pm = Some Pnpm then [''pnpm'', ''add'', ''-D''] @ deps
      else [''yarn'', ''add'', ''-D''] @ deps)"

subsection \<open>JSON.stringify\<close>

text \<open>
  \<^verbatim>\<open>JSON.stringify(value, null, 2)\<close>. A number carries the text that is written for it.
\<close>

definition hex_digit :: "nat \<Rightarrow> char" where
  "hex_digit n = (if n < 10 then char_of (48 + n) else char_of (87 + n))"

definition json_escape :: "char \<Rightarrow> string" where
  "json_escape c =
     (let n = of_char c :: nat in
      if c = CHR 0x22 then [CHR 0x5C, CHR 0x22]
      else if c = CHR 0x5C then [CHR 0x5C, CHR 0x5C]
      else if c = CHR 0x08 then [CHR 0x5C, CHR ''b'']
      else if c = CHR 0x0C then [CHR 0x5C, CHR ''f'']
      else if c = CHR 0x0A then [CHR 0x5C, CHR ''n'']
      else if c = CHR 0x0D then [CHR 0x5C, CHR ''r'']
      else if c = CHR 0x09 then [CHR 0x5C, CHR ''t'']
      else if n < 32 then [CHR 0x5C, CHR ''u'', CHR ''0'', CHR ''0'', hex_digit (n div 16), hex_digit (n mod 16)]
      else [c])"

definition json_quote :: "string \<Rightarrow> string" where
  "json_quote s = [CHR 0x22] @ concat (map json_escape s) @ [CHR 0x22]"

definition pad :: "nat \<Rightarrow> string" where
  "pad n = replicate (2 * n) (CHR '' '')"

fun join_with :: "string \<Rightarrow> string list \<Rightarrow> string" where
  "join_with sep [] = []"
| "join_with sep [x] = x"
| "join_with sep (x # y # ys) = x @ sep @ join_with sep (y # ys)"

fun stringify_at :: "nat \<Rightarrow> json \<Rightarrow> string" where
  "stringify_at n JNull = ''null''"
| "stringify_at n (JBool b) = (if b then ''true'' else ''false'')"
| "stringify_at n (JNumber text) = text"
| "stringify_at n (JString s) = json_quote s"
| "stringify_at n (JArray xs) =
     (if xs = [] then ''[]''
      else ''['' @ nl @ pad (Suc n) @
           join_with ('','' @ nl @ pad (Suc n)) (map (stringify_at (Suc n)) xs) @
           nl @ pad n @ '']'')"
| "stringify_at n (JObject ps) =
     (if ps = [] then ''{}''
      else ''{'' @ nl @ pad (Suc n) @
           join_with ('','' @ nl @ pad (Suc n))
             (map (\<lambda>p. json_quote (fst p) @ '': '' @ stringify_at (Suc n) (snd p)) ps) @
           nl @ pad n @ ''}'')"

definition JSON_stringify :: "json \<Rightarrow> string" where
  "JSON_stringify v = stringify_at 0 v"

text \<open>
  \<^verbatim>\<open>object[key] = v\<close> on the properties of an object: a key that is there keeps its
  place, a new key goes to the end.
\<close>

fun set_property :: "(string \<times> json) list \<Rightarrow> string \<Rightarrow> json \<Rightarrow> (string \<times> json) list" where
  "set_property [] key v = [(key, v)]"
| "set_property ((k, x) # ps) key v =
     (if k = key then (k, v) # ps else (k, x) # set_property ps key v)"

definition truthy :: "json \<Rightarrow> bool" where
  "truthy v =
     (case v of
        JNull \<Rightarrow> False
      | JBool b \<Rightarrow> b
      | JNumber text \<Rightarrow> text \<noteq> ''0''
      | JString s \<Rightarrow> s \<noteq> []
      | JArray xs \<Rightarrow> True
      | JObject ps \<Rightarrow> True)"

section \<open>The questions\<close>

text \<open>
  \<open>getShopifyThemes\<close> returns what \<^verbatim>\<open>JSON.parse\<close> gives, whatever it is; when the
  command fails or its output is no JSON, it reports that and returns the empty array.
\<close>

definition getShopifyThemes :: "world \<Rightarrow> themes_value \<times> world" where
  "getShopifyThemes w =
     (case sh [''shopify'', ''theme'', ''list'', ''--json''] w of
        Ok result w \<Rightarrow>
          (case json_themes w result of
             Some themes \<Rightarrow> (themes, w)
           | None \<Rightarrow> (ThemeArray [], log (''Error fetching Shopify themes. Make sure you're authenticated with Shopify CLI.'') red w))
      | Throw error w \<Rightarrow> (ThemeArray [], log (''Error fetching Shopify themes. Make sure you're authenticated with Shopify CLI.'') red w)
      | Exit n w \<Rightarrow> (ThemeArray [], w))"

text \<open>
  \<open>askQuestions\<close>, question by question. Each part returns what it has asked for and
  the world after it; a part with a \<open>select\<close> has no result when the \<open>select\<close>
  never resolves.
\<close>

text \<open>Question 2: Styling Approach\<close>

definition ask_styling :: "world \<Rightarrow> (stylingApproach option \<times> world) option" where
  "ask_styling w =
     (let w = log (nl @ repeat ([CHR 0xE2, CHR 0x94, CHR 0x80]) 60) bright w;
          w = log ([CHR 0xF0, CHR 0x9F, CHR 0x8E, CHR 0xA8] @ '' CSS Setup'') (bright @ cyan) w;
          w = log (repeat ([CHR 0xE2, CHR 0x94, CHR 0x80]) 60) bright w;
          w = log (''Choose your styling approach. We recommend plain CSS with CSS variables for most Shopify themes.'') yellow w;
          w = log (''Note: This template enforces semantic class names (NO Tailwind-style utility classes).'' @ nl) yellow w
      in do {
        (stylingChoice, w) \<leftarrow> select ''Which styling approach will you use?''
          [''Plain CSS (Recommended - simple, semantic, mobile-first)'',
           ''SCSS/SASS (For variables, mixins, and nesting)'',
           ''PostCSS with plugins (For advanced CSS processing)'',
           ''Tailwind CSS (Utility-first - requires custom configuration)''] w;
        let stylingMap = [Css, Scss, Postcss, Tailwind];
        let stylingApproach' = at_index stylingMap stylingChoice;
        let w = (if stylingApproach' = Some Tailwind
                 then (let w = log (nl @ [CHR 0xE2, CHR 0x9A, CHR 0xA0, CHR 0xEF, CHR 0xB8, CHR 0x8F] @ ''  Note: While Tailwind is supported, this template's guidelines emphasize semantic class names.'') yellow w
                       in log (''You'll need to adapt the CLAUDE.md guidelines if you choose to use utility classes.'' @ nl) yellow w)
                 else w);
        Some (stylingApproach', w)
      })"

text \<open>Question 3: JavaScript Approach\<close>

definition ask_js :: "world \<Rightarrow> (jsApproach \<times> world) option" where
  "ask_js w =
     (let w = log (nl @ repeat ([CHR 0xE2, CHR 0x94, CHR 0x80]) 60) bright w;
          w = log ([CHR 0xE2, CHR 0x9A, CHR 0x99, CHR 0xEF, CHR 0xB8, CHR 0x8F] @ ''  JavaScript Setup'') (bright @ cyan) w;
          w = log (repeat ([CHR 0xE2, CHR 0x94, CHR 0x80]) 60) bright w;
          w = log (''Choose between vanilla JavaScript or TypeScript. Vanilla JS is simpler for most Shopify themes.'' @ nl) yellow w
      in do {
        (jsChoice, w) \<leftarrow> select ''Which JavaScript approach will you use?''
          [''Vanilla JavaScript (Recommended - simple, fast, perfect for Shopify)'',
           ''TypeScript (For type safety, better IDE support, and larger projects)''] w;
        let jsApproach' = (if jsChoice = 0 then Vanilla else Typescript);
        Some (jsApproach', w)
      })"

text \<open>Question 4: Package Manager\<close>

definition ask_package_manager :: "world \<Rightarrow> (packageManager option \<times> world) option" where
  "ask_package_manager w =
     (let w = log (nl @ repeat ([CHR 0xE2, CHR 0x94, CHR 0x80]) 60) bright w;
          w = log ([CHR 0xF0, CHR 0x9F, CHR 0x93, CHR 0xA6] @ '' Package Manager'') (bright @ cyan) w;
          w = log (repeat ([CHR 0xE2, CHR 0x94, CHR 0x80]) 60) bright w;
          w = log (''We strongly recommend Bun - it's 3-10x faster than npm/yarn and has built-in TypeScript support.'' @ nl) yellow w
      in do {
        (pmChoice, w) \<leftarrow> select ''Which package manager will you use?''
          [''Bun (Recommended - 3-10x faster, modern, built-in TypeScript)'',
           ''npm (Standard Node.js package manager)'',
           ''pnpm (Efficient disk usage with hard links)'',
           ''yarn (Reliable alternative to npm)''] w;
        let pmMap = [Bun, Npm, Pnpm, Yarn];
        let packageManager' = at_index pmMap pmChoice;
        Some (packageManager', w)
      })"

text \<open>Question 5: Theme Editor Development Setup\<close>

definition ask_tunnel :: "world \<Rightarrow> (bool \<times> world) option" where
  "ask_tunnel w =
     (let w = log (nl @ repeat ([CHR 0xE2, CHR 0x94, CHR 0x80]) 60) bright w;
          w = log ([CHR 0xF0, CHR 0x9F, CHR 0x94, CHR 0xA7] @ '' Development Environment'') (bright @ cyan) w;
          w = log (repeat ([CHR 0xE2, CHR 0x94, CHR 0x80]) 60) bright w;
          w = log (''For Shopify theme editor development, we recommend using Cloudflare tunnel to avoid CORS issues.'') yellow w;
          w = log (''This requires cloudflared to be installed (brew install cloudflared).'' @ nl) yellow w
      in do {
        (tunnelChoice, w) \<leftarrow> select ''Do you want to enable Cloudflare tunnel for theme editor development?''
          [''Yes (Recommended - enables HTTPS tunnel for theme editor)'',
           (''No (I'll configure HTTPS with mkcert or work without theme editor)'')] w;
        let enableTunnel' = (tunnelChoice = 0);
        let w = (if enableTunnel'
                 then (let w = log (nl @ [CHR 0xE2, CHR 0x9C, CHR 0x93] @ '' Cloudflare tunnel will be enabled in vite.config.js'') green w;
                           w = log ([CHR 0xE2, CHR 0x9C, CHR 0x93] @ '' Vite will be locked to version 6.0.8 (required for tunnel support)'') green w
                       in log (''Make sure to install cloudflared: brew install cloudflared'' @ nl) yellow w)
                 else w);
        Some (enableTunnel', w)
      })"

text \<open>
  Question 6: Shopify Theme Configuration (TOML). \<open>normalize_store_url\<close> is what the
  script does to the store URL it has read: \<^verbatim>\<open>replace(/\.myshopify\.com$/, "")\<close> removes
  the suffix when the string ends with it.
\<close>

definition remove_suffix :: "string \<Rightarrow> string \<Rightarrow> string" where
  "remove_suffix p s = (if suffix p s then take (length s - length p) s else s)"

definition normalize_store_url :: "string \<Rightarrow> string" where
  "normalize_store_url storeUrl' =
     (if storeUrl' \<noteq> [] \<and> \<not> str_includes storeUrl' ''.myshopify.com''
      then remove_suffix ''.myshopify.com'' storeUrl' @ ''.myshopify.com''
      else storeUrl')"

definition ask_toml :: "world \<Rightarrow> ((tomlApproach option \<times> string) \<times> world) option" where
  "ask_toml w =
     (let w = log (nl @ repeat ([CHR 0xE2, CHR 0x94, CHR 0x80]) 60) bright w;
          w = log ([CHR 0xF0, CHR 0x9F, CHR 0x93, CHR 0x84] @ '' Shopify Theme Configuration'') (bright @ cyan) w;
          w = log (repeat ([CHR 0xE2, CHR 0x94, CHR 0x80]) 60) bright w;
          w = log (''The shopify.theme.toml file stores your store URL and theme IDs for different environments.'') yellow w;
          w = log (''This file will be added to .gitignore at the end of setup to protect your credentials.'' @ nl) yellow w
      in do {
        (tomlChoice, w) \<leftarrow> select ''How would you like to configure Shopify store access?''
          [''Create shopify.theme.toml file (Recommended - stores environment configs)'',
           ''Use Shopify CLI login only (No .toml file, authenticate via CLI each time)'',
           ''Skip for now (Configure manually later)''] w;
        let tomlMap = [TomlFile, TomlCli, TomlSkip];
        let tomlApproach' = at_index tomlMap tomlChoice;
        let storeUrl' = [];
        Some (if tomlApproach' = Some TomlFile
              then (let (storeUrl', w) = prompt (nl @ [CHR 0xF0, CHR 0x9F, CHR 0x8F, CHR 0xAA] @ '' Enter your Shopify store URL (e.g., your-store.myshopify.com):'') w;
                        storeUrl' = normalize_store_url storeUrl';
                        w = log ([CHR 0xE2, CHR 0x9C, CHR 0x93] @ '' Store URL: '' @ or_default storeUrl' ''(will be configured later)'') green w
                    in ((tomlApproach', storeUrl'), w))
              else if tomlApproach' = Some TomlCli
              then (let w = log (nl @ [CHR 0xE2, CHR 0x9C, CHR 0x93] @ '' You'll use Shopify CLI authentication'') green w;
                        w = log (''  Run 'shopify auth login' to authenticate before development'') yellow w
                    in ((tomlApproach', storeUrl'), w))
              else ((tomlApproach', storeUrl'), log (nl @ [CHR 0xE2, CHR 0x8F, CHR 0xAD, CHR 0xEF, CHR 0xB8, CHR 0x8F] @ ''  Skipping store configuration. You can set this up later.'') yellow w))
      })"

text \<open>Question 7: Linting Setup\<close>

definition ask_linting :: "world \<Rightarrow> (lintingSetup option \<times> world) option" where
  "ask_linting w =
     (let w = log (nl @ repeat ([CHR 0xE2, CHR 0x94, CHR 0x80]) 60) bright w;
          w = log ([CHR 0xF0, CHR 0x9F, CHR 0x94, CHR 0x8D] @ '' Code Quality Tools'') (bright @ cyan) w;
          w = log (repeat ([CHR 0xE2, CHR 0x94, CHR 0x80]) 60) bright w;
          w = log (''Linting helps catch errors and enforce consistent code style.'' @ nl) yellow w
      in do {
        (lintChoice, w) \<leftarrow> select ''Which linting setup would you like?''
          [''ESLint + Prettier (Recommended - Full JavaScript/TypeScript linting + formatting)'',
           ''Theme Check only (Shopify Liquid linting)'',
           ''Skip for now (Configure manually later)''] w;
        let lintMap = [EslintPrettier, ThemeCheck, LintSkip];
        let lintingSetup' = at_index lintMap lintChoice;
        let w = (if lintingSetup' = Some EslintPrettier
                 then (let w = log (nl @ [CHR 0xE2, CHR 0x9C, CHR 0x93] @ '' ESLint + Prettier will be configured'') green w
                       in log (''  Format on save and pre-commit checks included'') cyan w)
                 else if lintingSetup' = Some ThemeCheck
                 then log (nl @ [CHR 0xE2, CHR 0x9C, CHR 0x93] @ '' Theme Check will be configured for Liquid linting'') green w
                 else w);
        Some (lintingSetup', w)
      })"

text \<open>Question 8: Git Hooks\<close>

definition ask_git_hooks :: "world \<Rightarrow> (bool \<times> world) option" where
  "ask_git_hooks w =
     (let w = log (nl @ repeat ([CHR 0xE2, CHR 0x94, CHR 0x80]) 60) bright w;
          w = log ([CHR 0xF0, CHR 0x9F, CHR 0xAA, CHR 0x9D] @ '' Git Hooks'') (bright @ cyan) w;
          w = log (repeat ([CHR 0xE2, CHR 0x94, CHR 0x80]) 60) bright w;
          w = log (''Git hooks run checks before commits to catch issues early.'' @ nl) yellow w
      in do {
        (hooksChoice, w) \<leftarrow> select ''Would you like to set up Git hooks (husky + lint-staged)?''
          [''Yes (Recommended - Run linting/formatting on staged files before commit)'',
           ''No (Skip Git hooks setup)''] w;
        let gitHooks' = (hooksChoice = 0);
        let w = (if gitHooks'
                 then (let w = log (nl @ [CHR 0xE2, CHR 0x9C, CHR 0x93] @ '' Husky + lint-staged will be configured'') green w
                       in log (''  Pre-commit hooks will format and lint staged files'') cyan w)
                 else w);
        Some (gitHooks', w)
      })"

text \<open>Question 9: Shopify Store Connection\<close>

text \<open>The branch of \<^verbatim>\<open>themes.length > 0\<close> that is taken when the condition is false.\<close>

definition no_themes_found :: "world \<Rightarrow> world" where
  "no_themes_found w =
     (let w = log (nl @ [CHR 0xE2, CHR 0x9A, CHR 0xA0, CHR 0xEF, CHR 0xB8, CHR 0x8F] @ ''  No themes found or Shopify CLI not authenticated.'') yellow w;
          w = log (''Make sure you've run 'shopify auth login' before running this setup.'') yellow w
      in log (''You can pull a theme later using 'shopify theme pull'' @ [CHR 0x27] @ nl) yellow w)"

text \<open>
  The question itself. On \<^verbatim>\<open>null\<close> the condition \<^verbatim>\<open>themes.length > 0\<close> throws a
  TypeError; on a value with a length above 0 that cannot be mapped, \<^verbatim>\<open>themes.map\<close>
  throws one after the line that announces the themes. Nothing in \<open>askQuestions\<close>
  catches them.
\<close>

definition ask_theme :: "world \<Rightarrow> (string \<times> string option) result option" where
  "ask_theme w =
     (let w = log (nl @ repeat ([CHR 0xE2, CHR 0x94, CHR 0x80]) 60) bright w;
          w = log ([CHR 0xF0, CHR 0x9F, CHR 0x9B, CHR 0x8D, CHR 0xEF, CHR 0xB8, CHR 0x8F] @ ''  Shopify Store Connection'') (bright @ cyan) w;
          w = log (repeat ([CHR 0xE2, CHR 0x94, CHR 0x80]) 60) bright w;
          w = log (''Now let's connect to your Shopify store and select a base theme.'' @ nl) yellow w;
          w = log (''Authenticating with Shopify CLI and fetching available themes...'') cyan w;
          (themes, w) = getShopifyThemes w;
          shopifyEnvironment' = ''development'';
          themeId' = None
      in case themes of
           NoLength \<Rightarrow> Some (Throw TypeError w)
         | NotPositive \<Rightarrow> Some (Ok (shopifyEnvironment', themeId') (no_themes_found w))
         | NoMap \<Rightarrow> Some (Throw TypeError (log (nl @ [CHR 0xE2, CHR 0x9C, CHR 0x93] @ '' Successfully fetched themes from your store!'' @ nl) green w))
         | ThemeArray themes \<Rightarrow>
             if length themes > 0
             then (let w = log (nl @ [CHR 0xE2, CHR 0x9C, CHR 0x93] @ '' Successfully fetched themes from your store!'' @ nl) green w;
                       themeOptions =
                         map (\<lambda>t. theme_name t @ '' ('' @ theme_role t @ '') - ID: '' @ theme_id t) themes
                         @ [(''Skip - I'll configure this later'')]
                   in do {
                     (themeChoice, w) \<leftarrow> select ''Which theme would you like to use as a base?'' themeOptions w;
                     Some (if themeChoice < length themes
                           then (let themeId' = Some (theme_id (themes ! themeChoice));
                                     w = log (nl @ [CHR 0xE2, CHR 0x9C, CHR 0x93] @ '' Selected theme: '' @ theme_name (themes ! themeChoice)) green w;
                                     (envName, w) = prompt (nl @ ''What would you like to name this environment? (e.g., 'development', 'staging', 'production'):'') w;
                                     shopifyEnvironment' = or_default (trim envName) ''development'';
                                     w = log ([CHR 0xE2, CHR 0x9C, CHR 0x93] @ '' Environment will be named: '' @ shopifyEnvironment') green w
                                 in Ok (shopifyEnvironment', themeId') w)
                           else Ok (shopifyEnvironment', themeId') (log (nl @ [CHR 0xE2, CHR 0x8F, CHR 0xAD, CHR 0xEF, CHR 0xB8, CHR 0x8F] @ ''  Skipping theme selection. You can pull a theme later using 'shopify theme pull'' @ [CHR 0x27]) yellow w))
                   })
             else Some (Ok (shopifyEnvironment', themeId') (no_themes_found w)))"

text \<open>Question 7: Project Context for CLAUDE.md\<close>

definition ask_project_context :: "world \<Rightarrow> ((string option \<times> string) \<times> world) option" where
  "ask_project_context w =
     (let w = log (nl @ repeat ([CHR 0xE2, CHR 0x94, CHR 0x80]) 60) bright w;
          w = log ([CHR 0xF0, CHR 0x9F, CHR 0xA4, CHR 0x96] @ '' AI Assistant Configuration'') (bright @ cyan) w;
          w = log (repeat ([CHR 0xE2, CHR 0x94, CHR 0x80]) 60) bright w;
          w = log (''Help AI assistants (like Claude) understand your project better by providing context.'' @ nl) yellow w
      in do {
        (projectType, w) \<leftarrow> select ''What type of Shopify store is this?''
          [''E-commerce (Standard online store)'',
           ''Headless (API-driven, custom frontend)'',
           ''B2B (Wholesale, bulk ordering)'',
           ''Subscription (Recurring products)'',
           ''Other/Custom''] w;
        let projectTypeMap = [''e-commerce'', ''headless'', ''b2b'', ''subscription'', ''custom''];
        let selectedProjectType = at_index projectTypeMap projectType;
        let (projectDescription', w) = prompt (nl @ [CHR 0xF0, CHR 0x9F, CHR 0x93, CHR 0x9D] @ '' Brief description of this project (optional, press Enter to skip):'') w;
        Some ((selectedProjectType, projectDescription'), w)
      })"

text \<open>
  \<open>askQuestions\<close>. With an empty project name the process exits with code 1 inside
  it; an exception of the question about the store leaves it.
\<close>

definition askQuestions :: "world \<Rightarrow> SetupConfig result option" where
  "askQuestions w =
     (let w = header (''Shopify Theme Development Environment Setup'') w;
          w = log (''Welcome! This script will help you set up a modern Shopify theme development environment.'') green w;
          w = log (''This setup includes Vite for fast development, Bun for package management, and CI/CD workflows.'' @ nl) green w;
          w = log (''Let's start with some basic information about your project.'' @ nl) cyan w;
          (projectName', w) = prompt ([CHR 0xF0, CHR 0x9F, CHR 0x93, CHR 0xA6] @ '' What is your project/store name? (e.g., 'acme-store', 'my-boutique'):'') w
      in if projectName' = [] \<or> trim projectName' = []
         then Some (Exit 1 (log ([CHR 0xE2, CHR 0x9A, CHR 0xA0, CHR 0xEF, CHR 0xB8, CHR 0x8F] @ ''  Project name is required. Please try again.'') red w))
         else do {
           (stylingApproach', w) \<leftarrow> ask_styling w;
           (jsApproach', w) \<leftarrow> ask_js w;
           (packageManager', w) \<leftarrow> ask_package_manager w;
           (enableTunnel', w) \<leftarrow> ask_tunnel w;
           ((tomlApproach', storeUrl'), w) \<leftarrow> ask_toml w;
           (lintingSetup', w) \<leftarrow> ask_linting w;
           (gitHooks', w) \<leftarrow> ask_git_hooks w;
           store \<leftarrow> ask_theme w;
           (case store of
              Throw error w \<Rightarrow> Some (Throw error w)
            | Exit n w \<Rightarrow> Some (Exit n w)
            | Ok (shopifyEnvironment', themeId') w \<Rightarrow>
                do {
                  ((selectedProjectType, projectDescription'), w) \<leftarrow> ask_project_context w;
                  Some (Ok \<lparr>projectName = projectName',
                            stylingApproach = stylingApproach',
                            jsApproach = jsApproach',
                            packageManager = packageManager',
                            shopifyEnvironment = shopifyEnvironment',
                            themeId = themeId',
                            enableTunnel = enableTunnel',
                            projectType = selectedProjectType,
                            projectDescription = or_default (trim projectDescription') [],
                            tomlApproach = tomlApproach',
                            storeUrl = or_default (trim storeUrl') [],
                            lintingSetup = lintingSetup',
                            gitHooks = gitHooks'\<rparr> w)
                })
         })"

section \<open>The setup steps\<close>

subsection \<open>createDirectoryStructure\<close>

fun make_dirs :: "string list \<Rightarrow> world \<Rightarrow> unit result" where
  "make_dirs [] w = Ok () w"
| "make_dirs (dir # dirs) w =
     and_then
       (try_catch
          (and_then (mkdir dir w) (\<lambda>_ w. Ok () (log ([CHR 0xE2, CHR 0x9C, CHR 0x93] @ '' Created: '' @ dir) green w)))
          (\<lambda>error w. Ok () (log ([CHR 0xE2, CHR 0x9C, CHR 0x97] @ '' Failed to create: '' @ dir) red w)))
       (\<lambda>_ w. make_dirs dirs w)"

fun write_gitkeeps :: "string list \<Rightarrow> world \<Rightarrow> unit result" where
  "write_gitkeeps [] w = Ok () w"
| "write_gitkeeps (dir # dirs) w =
     and_then (writeFile (join dir ''.gitkeep'') [] w) (\<lambda>_ w. write_gitkeeps dirs w)"

definition createDirectoryStructure :: "world \<Rightarrow> unit result" where
  "createDirectoryStructure w =
     (let w = header (''Creating Directory Structure'') w;
          dirs =
            [''frontend/entrypoints'',
             ''frontend/scripts/components'',
             ''frontend/scripts/sections'',
             ''frontend/scripts/hooks/core'',
             ''frontend/styles'',
             ''frontend/images'',
             ''frontend/fonts'',
             ''.github/workflows''];
          gitkeepDirs =
            [''frontend/scripts/sections'',
             ''frontend/styles'',
             ''frontend/images'',
             ''frontend/fonts'']
      in and_then (make_dirs dirs w) (\<lambda>_ w. write_gitkeeps gitkeepDirs w))"

subsection \<open>installDependencies\<close>

definition installDependencies :: "SetupConfig \<Rightarrow> world \<Rightarrow> unit result" where
  "installDependencies config w =
     (let w = header (''Installing Dependencies'') w;
          baseDeps =
            [if enableTunnel config then ''vite@6.0.8'' else ''vite'',
             ''vite-plugin-shopify'',
             ''postcss'',
             ''autoprefixer'',
             ''npm-run-all'',
             ''@shopify/theme-check-node''];
          baseDeps = (if stylingApproach config = Some Scss then baseDeps @ [''sass'']
                      else if stylingApproach config = Some Tailwind then baseDeps @ [''tailwindcss'']
                      else baseDeps);
          baseDeps = (if jsApproach config = Typescript
                      then baseDeps @ [''typescript'', ''@types/node'']
                      else baseDeps);
          w = log (''Installing dependencies with '' @ pm_text (packageManager config) @ ''...'') cyan w;
          w = (if enableTunnel config
               then log (''  '' @ [CHR 0xE2, CHR 0x9A, CHR 0xA1] @ '' Installing Vite 6.0.8 (required for tunnel compatibility)'') yellow w
               else w)
      in try_catch
           (and_then (sh (add_dev (packageManager config) baseDeps) w)
              (\<lambda>_ w. Ok () (log ([CHR 0xE2, CHR 0x9C, CHR 0x93] @ '' Dependencies installed successfully'') green w)))
           (\<lambda>error w. Ok () (console_error error (log ([CHR 0xE2, CHR 0x9C, CHR 0x97] @ '' Error installing dependencies'') red w))))"

subsection \<open>createPackageJson\<close>

definition createPackageJson :: "SetupConfig \<Rightarrow> world \<Rightarrow> unit result" where
  "createPackageJson config w =
     (let w = header (''Creating package.json'') w;
          packageJson =
            JObject
              ([(''name'', JString (projectName config @ ''-shopify'')),
                (''version'', JString ''1.0.0''),
                (''type'', JString ''module'')]
               @ (if packageManager config = Some Bun
                  then [(''packageManager'', JString ''bun@1.3.0'')]
                  else [])
               @ [(''scripts'',
                   JObject
                     [(''dev'', JString ''run-p -sr \"shopify:dev -- {@}\" \"vite:dev\" --''),
                      (''dev:staging'', JString ''run-p -sr \"shopify:dev:staging -- {@}\" \"vite:dev\" --''),
                      (''dev:production'', JString ''run-p -sr \"shopify:dev:production -- {@}\" \"vite:dev\" --''),
                      (''build'', JString (pm_text (packageManager config) @ '' vite:build'')),
                      (''preview'', JString ''vite preview''),
                      (''deploy'', JString ''run-s \"vite:build\" \"shopify:push -- {@}\" --''),
                      (''deploy:staging'', JString ''run-s \"vite:build\" \"shopify:push:staging -- {@}\" --''),
                      (''deploy:production'', JString ''run-s \"vite:build\" \"shopify:push:production -- {@}\" --''),
                      (''shopify:dev'', JString ''shopify theme dev --environment development''),
                      (''shopify:dev:staging'', JString ''shopify theme dev --environment staging''),
                      (''shopify:dev:production'', JString ''shopify theme dev --environment production''),
                      (''shopify:push'', JString ''shopify theme push --environment development''),
                      (''shopify:push:staging'', JString ''shopify theme push --environment staging''),
                      (''shopify:push:production'', JString ''shopify theme push --environment production''),
                      (''vite:dev'', JString ''vite''),
                      (''vite:build'', JString ''vite build''),
                      (''clean'', JString ''rm -rf dist assets/storefront.js assets/custom_styling.css'')])])
      in and_then (writeFile ''package.json'' (JSON_stringify packageJson) w)
           (\<lambda>_ w. Ok () (log ([CHR 0xE2, CHR 0x9C, CHR 0x93] @ '' package.json created'') green w)))"

subsection \<open>createViteConfig\<close>

definition viteConfig :: "SetupConfig \<Rightarrow> string" where
  "viteConfig config =
     unlines
     [''import { fileURLToPath, URL } from 'node:url';'',
      ''import { defineConfig } from 'vite';'',
      ''import shopify from 'vite-plugin-shopify';'',
      [],
      ''export default defineConfig(() => ({'',
      ''  plugins: ['',
      ''    shopify({'',
      ''      themeRoot: './','',
      ''      sourceCodeDir: 'frontend','',
      ''      entrypointsDir: 'frontend/entrypoints','',
      ''      additionalEntrypoints: [],'' @ (if enableTunnel config then nl @ ''      tunnel: true, // Enable Cloudflare tunnel for theme editor development'' else []),
      ''    }),'',
      ''  ],'',
      ''  resolve: {'',
      ''    alias: {'',
      ''      '~': fileURLToPath(new URL('./frontend', import.meta.url)),'',
      ''    },'',
      ''  },'',
      ''  build: {'',
      ''    emptyOutDir: false,'',
      ''    manifest: true,'',
      ''    rollupOptions: {'',
      ''      output: {'',
      ''        entryFileNames: '[name].js','',
      ''        assetFileNames: '[name][extname]','',
      ''        chunkFileNames: '[name].js','',
      ''      }'',
      ''    }'',
      ''  },'',
      ''  server: {'' @ (if enableTunnel config then nl @ ''    allowedHosts: 'all', // Required for Cloudflare tunnel'' else []),
      ''    headers: {'',
      ''      \"Cache-Control\": \"no-store, no-cache, must-revalidate, proxy-revalidate, max-age=0\",'',
      ''      \"Access-Control-Allow-Origin\": \"*\",'',
      ''      \"Access-Control-Allow-Methods\": \"GET, HEAD, PUT, POST, PATCH, DELETE\",'',
      ''      \"Access-Control-Allow-Headers\": \"Content-Type, Authorization\",'',
      ''      \"Access-Control-Allow-Credentials\": \"true\"'',
      ''    },'',
      ''    cors: {'',
      ''      origin: [\"*\"],'',
      ''      methods: [\"GET\", \"HEAD\", \"PUT\", \"POST, PATCH\", \"DELETE\"],'',
      ''      credentials: true,'',
      ''      allowedHeaders: [\"Content-Type\", \"Authorization\"]'',
      ''    }'',
      ''  },'',
      ''  css: {'',
      ''    devSourcemap: true,'',
      ''    modules: {'',
      ''      localsConvention: 'camelCase'' @ [CHR 0x27],
      ''    },'' @ (if stylingApproach config = Some Scss then nl @ ''    preprocessorOptions: {'' @ nl @ ''      scss: {'' @ nl @ ''        additionalData: '@use \"sass:math\"; @use \"sass:map\";','' @ nl @ ''        api: 'modern-compiler','' @ nl @ ''        quietDeps: true,'' @ nl @ ''        logger: {'' @ nl @ ''          warn: () => { }'' @ nl @ ''        }'' @ nl @ ''      }'' @ nl @ ''    }'' else []),
      ''  }'',
      ''}));'']"

definition createViteConfig :: "SetupConfig \<Rightarrow> world \<Rightarrow> unit result" where
  "createViteConfig config w =
     (let w = header (''Creating Vite Configuration'') w
      in and_then (writeFile ''vite.config.js'' (viteConfig config) w)
           (\<lambda>_ w.
              let w = log ([CHR 0xE2, CHR 0x9C, CHR 0x93] @ '' vite.config.js created'') green w
              in Ok () (if enableTunnel config
                        then log ([CHR 0xE2, CHR 0x9C, CHR 0x93] @ '' Vite version will be locked to 6.0.8 for tunnel compatibility'') green w
                        else w)))"

subsection \<open>createPostCSSConfig\<close>

definition createPostCSSConfig :: "SetupConfig \<Rightarrow> world \<Rightarrow> unit result" where
  "createPostCSSConfig config w =
     (let w = header (''Creating PostCSS Configuration'') w;
          postcssConfig =
            unlines
            [''export default {'',
             ''  plugins: {'',
             ''    autoprefixer: {},'',
             ''  },'',
             ''}''];
          postcssConfig =
            (if stylingApproach config = Some Tailwind
             then unlines
                  [''export default {'',
                   ''  plugins: {'',
                   ''    tailwindcss: {},'',
                   ''    autoprefixer: {},'',
                   ''  },'',
                   ''}'']
             else postcssConfig)
      in and_then (writeFile ''postcss.config.js'' postcssConfig w)
           (\<lambda>_ w. Ok () (log ([CHR 0xE2, CHR 0x9C, CHR 0x93] @ '' postcss.config.js created'') green w)))"

subsection \<open>createGitIgnore\<close>

definition gitignore :: string where
  "gitignore =
     unlines
     [''# Node.js dependencies'',
      ''node_modules/'',
      ''npm-debug.log*'',
      ''yarn-debug.log*'',
      ''yarn-error.log*'',
      ''pnpm-debug.log*'',
      ''lerna-debug.log*'',
      [],
      ''# Environment variables'',
      ''.env'',
      ''.env.local'',
      ''.env.*.local'',
      ''.env.development.local'',
      ''.env.test.local'',
      ''.env.production.local'',
      [],
      ''# Vite'',
      ''dist/'',
      ''dist-ssr/'',
      ''*.local'',
      ''.vite/'',
      [],
      ''# Editor directories and files'',
      ''.vscode/*'',
      ''!.vscode/extensions.json'',
      ''!.vscode/settings.json'',
      ''.idea/'',
      ''.DS_Store'',
      ''*.suo'',
      ''*.ntvs*'',
      ''*.njsproj'',
      ''*.sln'',
      ''*.sw?'',
      [],
      ''# OS files'',
      ''Thumbs.db'',
      ''.DS_Store'',
      ''*~'',
      ''.Spotlight-V100'',
      ''.Trashes'',
      [],
      ''# Shopify theme files'',
      ''config/settings_data.json'',
      [],
      ''# Build artifacts'',
      ''*.log'',
      ''*.tsbuildinfo'',
      [],
      ''# Lock files (keep only one)'',
      ''package-lock.json'',
      ''yarn.lock'',
      ''pnpm-lock.yaml'']"

definition createGitIgnore :: "world \<Rightarrow> unit result" where
  "createGitIgnore w =
     (let w = header (''Creating .gitignore'') w
      in and_then (writeFile ''.gitignore'' gitignore w)
           (\<lambda>_ w. Ok () (log ([CHR 0xE2, CHR 0x9C, CHR 0x93] @ '' .gitignore created'') green w)))"

subsection \<open>createShopifyIgnore\<close>

definition shopifyignore :: string where
  "shopifyignore =
     unlines
     [''# Shopify Ignore - Files to exclude from theme uploads'',
      [],
      ''# Node modules'',
      ''node_modules/'',
      [],
      ''# Source files (Vite will build these)'',
      ''frontend/'',
      [],
      ''# Config files'',
      ''vite.config.js'',
      ''postcss.config.js'',
      ''tailwind.config.js'',
      ''package.json'',
      ''bun.lockb'',
      ''package-lock.json'',
      ''yarn.lock'',
      ''pnpm-lock.yaml'',
      [],
      ''# Build configs'',
      ''.vite/'',
      ''tsconfig.json'',
      ''.eslintrc*'',
      ''.prettierrc*'',
      [],
      ''# Git files'',
      ''.git/'',
      ''.gitignore'',
      ''.gitattributes'',
      [],
      ''# CI/CD'',
      ''.github/'',
      [],
      ''# Documentation'',
      ''README.md'',
      ''CLAUDE.md'',
      ''project_setup.md'',
      ''*.md'',
      [],
      ''# Setup script'',
      ''setup.ts'',
      [],
      ''# Environment files'',
      ''.env*'',
      [],
      ''# Editor directories'',
      ''.vscode/'',
      ''.idea/'',
      ''*.swp'',
      ''*.swo'',
      [],
      ''# OS files'',
      ''.DS_Store'',
      ''Thumbs.db'']"

definition createShopifyIgnore :: "world \<Rightarrow> unit result" where
  "createShopifyIgnore w =
     (let w = header (''Creating .shopifyignore'') w
      in and_then (writeFile ''.shopifyignore'' shopifyignore w)
           (\<lambda>_ w. Ok () (log ([CHR 0xE2, CHR 0x9C, CHR 0x93] @ '' .shopifyignore created'') green w)))"

subsection \<open>createGitHubWorkflow\<close>

definition workflow :: "SetupConfig \<Rightarrow> string" where
  "workflow config =
     unlines
     [''name: Build Vite Assets'',
      [],
      ''on:'',
      ''  push:'',
      ''    branches: [main, develop]'',
      ''  pull_request:'',
      ''    branches: [main, develop]'',
      [],
      ''jobs:'',
      ''  build:'',
      ''    runs-on: ubuntu-latest'',
      [],
      ''    steps:'',
      ''      - name: Checkout code'',
      ''        uses: actions/checkout@v4'',
      [],
      ''      - name: Setup '' @ (if packageManager config = Some Bun then ''Bun'' else ''Node.js''),
      ''        uses: '' @ (if packageManager config = Some Bun then ''oven-sh/setup-bun@v1'' else ''actions/setup-node@v4'') @ (if packageManager config = Some Bun then nl @ ''        with:'' @ nl @ ''          bun-version: latest'' else []),
      [],
      ''      - name: Install dependencies'',
      ''        run: '' @ pm_text (packageManager config) @ '' install'',
      [],
      ''      - name: Build Vite assets'',
      ''        run: '' @ pm_text (packageManager config) @ '' run build'',
      [],
      ''      - name: Check for uncommitted changes in assets'',
      ''        run: |'',
      ''          git diff --exit-code assets/ || '' @ [CHR 0x5C],
      ''          (echo \"Error: Built assets are out of sync. Run '' @ [CHR 0x27] @ pm_text (packageManager config) @ '' run build' locally and commit the changes.\" && exit 1)'',
      [],
      ''      - name: Upload assets artifact'',
      ''        if: success()'',
      ''        uses: actions/upload-artifact@v4'',
      ''        with:'',
      ''          name: built-assets'',
      ''          path: assets/'',
      ''          retention-days: 7'']"

definition createGitHubWorkflow :: "SetupConfig \<Rightarrow> world \<Rightarrow> unit result" where
  "createGitHubWorkflow config w =
     (let w = header (''Creating GitHub Actions Workflow'') w
      in and_then (mkdir ''.github/workflows'' w)
           (\<lambda>_ w. and_then (writeFile ''.github/workflows/build.yml'' (workflow config) w)
              (\<lambda>_ w. Ok () (log ([CHR 0xE2, CHR 0x9C, CHR 0x93] @ '' GitHub Actions workflow created'') green w))))"

subsection \<open>createEntrypoints\<close>

text \<open>
  A template literal is evaluated from left to right: each part is a piece of text or the
  value of a substitution \<^verbatim>\<open>${...}\<close>, and the first substitution that throws ends the
  evaluation.
\<close>

fun template :: "(error + string) list \<Rightarrow> error + string" where
  "template [] = Inr []"
| "template (Inl error # parts) = Inl error"
| "template (Inr text # parts) =
     (case template parts of Inl error \<Rightarrow> Inl error | Inr rest \<Rightarrow> Inr (text @ rest))"

text \<open>
  The template literal of \<^verbatim>\<open>storefrontJs\<close>. Its line
  \<^verbatim>\<open>moneyFormat: window.theme?.moneyFormat || '${{amount}}',\<close> holds a substitution whose
  expression is the object literal \<^verbatim>\<open>{amount}\<close>, short for \<^verbatim>\<open>{amount: amount}\<close>. The
  script declares no \<^verbatim>\<open>amount\<close>, so this substitution throws a ReferenceError; the ones
  before it read \<^verbatim>\<open>config.projectName\<close>, which is a string.
\<close>

definition storefrontJs :: "SetupConfig \<Rightarrow> error + string" where
  "storefrontJs config =
     template
       [Inr (''/**'' @ nl
             @ '' * Storefront JavaScript Entrypoint'' @ nl
             @ '' */'' @ nl
             @ nl @ ''import 'vite/modulepreload-polyfill';'' @ nl
             @ ''import { consoleMessage, reportWebVitals, initGlobalEvents, handleUrlParams } from '~/scripts/utils';'' @ nl
             @ ''import { registerSectionLifecycles } from '~/scripts/hooks/core/sectionRegistry';'' @ nl
             @ nl @ ''// Initialize global object'' @ nl
             @ ''window.''),
        Inr (remove_hyphens (projectName config)),
        Inr ('' = window.''),
        Inr (remove_hyphens (projectName config)),
        Inr ('' || {};'' @ nl
             @ nl @ ''window.''),
        Inr (remove_hyphens (projectName config)),
        Inr (''.settings = {'' @ nl
             @ ''  devMode: true,'' @ nl
             @ ''};'' @ nl
             @ nl @ ''window.''),
        Inr (remove_hyphens (projectName config)),
        Inr (''.theme = {'' @ nl
             @ ''  shopName: window.Shopify?.shop || '' @ [CHR 0x27]),
        Inr (projectName config),
        Inr (''','' @ nl
             @ ''  currency: window.Shopify?.currency?.active || 'USD','' @ nl
             @ ''  currencySymbol: '$','' @ nl
             @ ''  moneyFormat: window.theme?.moneyFormat || '' @ [CHR 0x27]),
        Inl (ReferenceError ''amount''),
        Inr (''','' @ nl
             @ ''};'' @ nl
             @ nl @ ''window.''),
        Inr (remove_hyphens (projectName config)),
        Inr (''.cart = {'' @ nl
             @ ''  count: window.Shopify?.cart?.item_count || 0,'' @ nl
             @ ''  total: window.Shopify?.cart?.total_price || 0,'' @ nl
             @ ''};'' @ nl
             @ nl @ ''window.''),
        Inr (remove_hyphens (projectName config)),
        Inr (''.events = window.''),
        Inr (remove_hyphens (projectName config)),
        Inr (''.events || new EventTarget();'' @ nl
             @ nl @ ''window.''),
        Inr (remove_hyphens (projectName config)),
        Inr (''.utils = {'' @ nl
             @ ''  consoleMessage,'' @ nl
             @ ''  handleUrlParams,'' @ nl
             @ ''};'' @ nl
             @ nl @ ''window.''),
        Inr (remove_hyphens (projectName config)),
        Inr (''.version = '1.0.0';'' @ nl
             @ nl @ ''consoleMessage('Store object initialized', 'info');'' @ nl
             @ nl @ ''const initializeApp = () => {'' @ nl
             @ ''  try {'' @ nl
             @ ''    consoleMessage('[InitializeApp] Starting application initialization', 'info');'' @ nl
             @ nl @ ''    initGlobalEvents();'' @ nl
             @ ''    consoleMessage('[InitializeApp] Global events initialized', 'info');'' @ nl
             @ nl @ ''    registerSectionLifecycles();'' @ nl
             @ ''    consoleMessage('[InitializeApp] Section lifecycles registered', 'info');'' @ nl
             @ nl @ ''    handleUrlParams();'' @ nl
             @ nl @ ''    if (window.Shopify?.cart) {'' @ nl
             @ ''      window.''),
        Inr (remove_hyphens (projectName config)),
        Inr (''.cart.count = window.Shopify.cart.item_count || 0;'' @ nl
             @ ''      window.''),
        Inr (remove_hyphens (projectName config)),
        Inr (''.cart.total = window.Shopify.cart.total_price || 0;'' @ nl
             @ ''    }'' @ nl
             @ nl @ ''    consoleMessage('[InitializeApp] Application initialization complete', 'info', {'' @ nl
             @ ''      version: window.''),
        Inr (remove_hyphens (projectName config)),
        Inr (''.version,'' @ nl
             @ ''      devMode: window.''),
        Inr (remove_hyphens (projectName config)),
        Inr (''.settings.devMode,'' @ nl
             @ ''      cartCount: window.''),
        Inr (remove_hyphens (projectName config)),
        Inr (''.cart.count'' @ nl
             @ ''    });'' @ nl
             @ ''  } catch (error) {'' @ nl
             @ ''    consoleMessage('[InitializeApp] Error during application initialization', 'error', error);'' @ nl
             @ ''  }'' @ nl
             @ ''};'' @ nl
             @ nl @ ''window.addEventListener('DOMContentLoaded', initializeApp);'' @ nl
             @ ''window.addEventListener('load', reportWebVitals);'' @ nl
             @ nl @ ''export default window.''),
        Inr (remove_hyphens (projectName config)),
        Inr ('';'' @ nl)]"

definition customStylesScss :: string where
  "customStylesScss =
     unlines
     [''/**'',
      '' * Custom Styling Entrypoint (SCSS)'',
      '' */'',
      [],
      ''// Design Tokens'',
      ''$colors: ('',
      ''  'primary': rgb(var(--color-button)),'',
      ''  'secondary': rgb(var(--color-accent)),'',
      ''  'text-primary': #1a1a1a,'',
      ''  'text-secondary': #666,'',
      ''  'surface': #ffffff,'',
      ''  'border': #e5e5e5,'',
      '');'',
      [],
      ''$spacing: ('',
      ''  'xs': 0.25rem,'',
      ''  'sm': 0.5rem,'',
      ''  'base': 1rem,'',
      ''  'lg': 2rem,'',
      ''  'xl': 4rem,'',
      '');'',
      [],
      ''$breakpoints: ('',
      ''  'sm': 640px,'',
      ''  'md': 768px,'',
      ''  'lg': 1024px,'',
      ''  'xl': 1280px,'',
      ''  '2xl': 1536px,'',
      '');'',
      [],
      ''$transitions: ('',
      ''  'fast': 150ms ease,'',
      ''  'base': 250ms ease,'',
      ''  'slow': 400ms ease,'',
      '');'',
      [],
      ''// Centralized Media Query Mixins'',
      ''@mixin respond-to($breakpoint) {'',
      ''  @if map-has-key($breakpoints, $breakpoint) {'',
      ''    @media (min-width: map-get($breakpoints, $breakpoint)) {'',
      ''      @content;'',
      ''    }'',
      ''  } @else {'',
      ''    @warn \"Breakpoint #{$breakpoint} not found in $breakpoints map.\";'',
      ''  }'',
      ''}'',
      [],
      ''// Helper functions'',
      ''@function color($key) {'',
      ''  @return map-get($colors, $key);'',
      ''}'',
      [],
      ''@function spacing($key) {'',
      ''  @return map-get($spacing, $key);'',
      ''}'',
      [],
      ''@function transition($key) {'',
      ''  @return map-get($transitions, $key);'',
      ''}'',
      [],
      ''// CSS Custom Properties for runtime theming'',
      '':root {'',
      ''  --color-primary: #{color('primary')};'',
      ''  --color-secondary: #{color('secondary')};'',
      ''  --spacing-base: #{spacing('base')};'',
      ''  --spacing-small: #{spacing('sm')};'',
      ''  --spacing-large: #{spacing('lg')};'',
      ''  --transition-base: #{transition('base')};'',
      ''  --border-radius: 4px;'',
      ''}'',
      [],
      ''// Utility Classes'',
      ''.visually-hidden {'',
      ''  position: absolute !important;'',
      ''  overflow: hidden;'',
      ''  width: 1px;'',
      ''  height: 1px;'',
      ''  margin: -1px;'',
      ''  padding: 0;'',
      ''  border: 0;'',
      ''  clip: rect(0 0 0 0);'',
      ''  word-wrap: normal !important;'',
      ''}'',
      [],
      ''// Import component styles'',
      ''// @import '../styles/product-card';'',
      ''// @import '../styles/cart-drawer';'']"

definition customStylesCss :: string where
  "customStylesCss =
     unlines
     [''/**'',
      '' * Custom Styling Entrypoint'',
      '' */'',
      [],
      ''/* Design Tokens - CSS Custom Properties */'',
      '':root {'',
      ''  /* Colors */'',
      ''  --color-primary: rgb(var(--color-button));'',
      ''  --color-secondary: rgb(var(--color-accent));'',
      ''  --color-text-primary: #1a1a1a;'',
      ''  --color-text-secondary: #666;'',
      ''  --color-surface: #ffffff;'',
      ''  --color-border: #e5e5e5;'',
      [],
      ''  /* Spacing */'',
      ''  --spacing-xs: 0.25rem;'',
      ''  --spacing-sm: 0.5rem;'',
      ''  --spacing-base: 1rem;'',
      ''  --spacing-lg: 2rem;'',
      ''  --spacing-xl: 4rem;'',
      [],
      ''  /* Transitions */'',
      ''  --transition-fast: 150ms ease;'',
      ''  --transition-base: 250ms ease;'',
      ''  --transition-slow: 400ms ease;'',
      [],
      ''  /* Borders */'',
      ''  --border-radius: 4px;'',
      ''  --border-width: 1px;'',
      [],
      ''  /* Breakpoints (for use with min-width media queries) */'',
      ''  --breakpoint-sm: 640px;'',
      ''  --breakpoint-md: 768px;'',
      ''  --breakpoint-lg: 1024px;'',
      ''  --breakpoint-xl: 1280px;'',
      ''  --breakpoint-2xl: 1536px;'',
      ''}'',
      [],
      ''/* Utility Classes */'',
      ''.visually-hidden {'',
      ''  position: absolute !important;'',
      ''  overflow: hidden;'',
      ''  width: 1px;'',
      ''  height: 1px;'',
      ''  margin: -1px;'',
      ''  padding: 0;'',
      ''  border: 0;'',
      ''  clip: rect(0 0 0 0);'',
      ''  word-wrap: normal !important;'',
      ''}'',
      [],
      ''/*'',
      ''  Centralized Media Query Guide'',
      ''  =============================='',
      ''  Always use mobile-first approach with min-width:'',
      [],
      ''  Mobile:   Base styles (no media query)'',
      ''  Tablet:   @media (min-width: 768px)  { }'',
      ''  Desktop:  @media (min-width: 1024px) { }'',
      ''  Wide:     @media (min-width: 1280px) { }'',
      [],
      ''  Example:'',
      ''  .my-component {'',
      ''    padding: var(--spacing-sm);        // Mobile'',
      [],
      ''    @media (min-width: 768px) {'',
      ''      padding: var(--spacing-base);    // Tablet+'',
      ''    }'',
      [],
      ''    @media (min-width: 1024px) {'',
      ''      padding: var(--spacing-lg);      // Desktop+'',
      ''    }'',
      ''  }'',
      ''*/'',
      [],
      ''/* Import component styles */'',
      ''/* @import './styles/product-card.css'; */'',
      ''/* @import './styles/cart-drawer.css'; */'']"

definition createEntrypoints :: "SetupConfig \<Rightarrow> world \<Rightarrow> unit result" where
  "createEntrypoints config w =
     (let w = header (''Creating Entry Point Files'') w
      in case storefrontJs config of
           Inl error \<Rightarrow> Throw error w
         | Inr storefrontJs' \<Rightarrow>
             and_then (writeFile ''frontend/entrypoints/storefront.js'' storefrontJs' w)
               (\<lambda>_ w.
                  let w = log ([CHR 0xE2, CHR 0x9C, CHR 0x93] @ '' storefront.js created'') green w;
                      fileExtension = (if stylingApproach config = Some Scss then ''scss'' else ''css'');
                      fileName = ''frontend/entrypoints/custom_styling.'' @ fileExtension;
                      customStyles = (if stylingApproach config = Some Scss
                                      then customStylesScss else customStylesCss)
                  in and_then (writeFile fileName customStyles w)
                       (\<lambda>_ w.
                          let w = log ([CHR 0xE2, CHR 0x9C, CHR 0x93] @ '' custom_styling.'' @ fileExtension @ '' created'') green w
                          in Ok () (if stylingApproach config = Some Scss
                                    then log (''  '' @ [CHR 0xE2, CHR 0x9C, CHR 0x93] @ '' SCSS tokens and mixins configured'') green w
                                    else log (''  '' @ [CHR 0xE2, CHR 0x9C, CHR 0x93] @ '' Centralized media query guide added'') green w))))"

subsection \<open>createShopifyThemeToml\<close>

definition exampleToml :: string where
  "exampleToml =
     unlines
     [''# Example Shopify Theme Configuration'',
      ''# Copy this file to shopify.theme.toml and update with your store details'',
      [],
      ''[environments.development]'',
      ''store = \"your-store.myshopify.com\"'',
      ''theme = \"your-theme-id\"'',
      ''ignore = [\".shopifyignore\"]'',
      [],
      ''# Additional environment examples:'',
      ''# [environments.staging]'',
      ''# store = \"your-store-staging.myshopify.com\"'',
      ''# theme = \"staging-theme-id\"'',
      [],
      ''# [environments.production]'',
      ''# store = \"your-store.myshopify.com\"'',
      ''# theme = \"live-theme-id\"'']"

definition themeToml :: "SetupConfig \<Rightarrow> string \<Rightarrow> string \<Rightarrow> string" where
  "themeToml config storeUrl' themeId' =
     unlines
     [''# Shopify Theme Configuration'',
      ''# This file contains your store credentials - it will be added to .gitignore'',
      [],
      ''[environments.'' @ shopifyEnvironment config @ '']'',
      ''store = \"'' @ storeUrl' @ ''\"'',
      ''theme = \"'' @ themeId' @ ''\"'',
      ''ignore = [\".shopifyignore\"]'',
      [],
      ''# Additional environment examples (uncomment and configure as needed):'',
      ''# [environments.staging]'',
      ''# store = \"'' @ storeUrl' @ ''\"'',
      ''# theme = \"staging-theme-id\"'',
      ''# ignore = [\".shopifyignore\"]'',
      [],
      ''# [environments.production]'',
      ''# store = \"'' @ storeUrl' @ ''\"'',
      ''# theme = \"live-theme-id\"'',
      ''# ignore = [\".shopifyignore\"]'']"

definition createShopifyThemeToml :: "SetupConfig \<Rightarrow> world \<Rightarrow> unit result" where
  "createShopifyThemeToml config w =
     (if tomlApproach config = Some TomlSkip \<or> tomlApproach config = Some TomlCli
      then (let w = header (''Creating example.shopify.theme.toml'') w
            in and_then (writeFile ''example.shopify.theme.toml'' exampleToml w)
                 (\<lambda>_ w.
                    let w = log ([CHR 0xE2, CHR 0x9C, CHR 0x93] @ '' example.shopify.theme.toml created for reference'') green w
                    in Ok () (if tomlApproach config = Some TomlCli
                              then log (''  Using CLI authentication - run 'shopify auth login' before development'') yellow w
                              else log (''  Copy this to shopify.theme.toml when ready to configure'') yellow w)))
      else (let w = header (''Creating shopify.theme.toml'') w;
                storeUrl' = or_default (storeUrl config) ''your-store.myshopify.com'';
                themeId' = (case themeId config of
                              None \<Rightarrow> ''your-theme-id''
                            | Some t \<Rightarrow> or_default t ''your-theme-id'')
            in and_then (writeFile ''shopify.theme.toml'' (themeToml config storeUrl' themeId') w)
                 (\<lambda>_ w.
                    let w = log ([CHR 0xE2, CHR 0x9C, CHR 0x93] @ '' shopify.theme.toml created'') green w;
                        w = log (''  Store: '' @ storeUrl') cyan w;
                        w = log (''  Theme: '' @ themeId') cyan w
                    in Ok () (log (''  Environment: '' @ shopifyEnvironment config) cyan w))))"

subsection \<open>setupLinting\<close>

definition eslintConfig :: "SetupConfig \<Rightarrow> string" where
  "eslintConfig config =
     (if jsApproach config = Typescript
      then unlines
           [''import js from \"@eslint/js\";'',
            ''import tseslint from \"@typescript-eslint/eslint-plugin\";'',
            ''import tsparser from \"@typescript-eslint/parser\";'',
            ''import prettier from \"eslint-plugin-prettier\";'',
            [],
            ''export default ['',
            ''  js.configs.recommended,'',
            ''  {'',
            ''    files: [\"frontend/**/*.{js,ts}\"],'',
            ''    languageOptions: {'',
            ''      parser: tsparser,'',
            ''      ecmaVersion: 2022,'',
            ''      sourceType: \"module\",'',
            ''    },'',
            ''    plugins: {'',
            ''      \"@typescript-eslint\": tseslint,'',
            ''      prettier,'',
            ''    },'',
            ''    rules: {'',
            ''      \"prettier/prettier\": \"error\",'',
            ''      \"no-unused-vars\": \"off\",'',
            ''      \"@typescript-eslint/no-unused-vars\": [\"error\", { argsIgnorePattern: \"^_\" }],'',
            ''      \"no-console\": [\"warn\", { allow: [\"warn\", \"error\"] }],'',
            ''    },'',
            ''  },'',
            ''  {'',
            ''    ignores: [\"assets/**\", \"node_modules/**\", \"*.config.js\"],'',
            ''  },'',
            ''];'']
      else unlines
           [''import js from \"@eslint/js\";'',
            ''import prettier from \"eslint-plugin-prettier\";'',
            [],
            ''export default ['',
            ''  js.configs.recommended,'',
            ''  {'',
            ''    files: [\"frontend/**/*.js\"],'',
            ''    languageOptions: {'',
            ''      ecmaVersion: 2022,'',
            ''      sourceType: \"module\",'',
            ''    },'',
            ''    plugins: {'',
            ''      prettier,'',
            ''    },'',
            ''    rules: {'',
            ''      \"prettier/prettier\": \"error\",'',
            ''      \"no-unused-vars\": [\"error\", { argsIgnorePattern: \"^_\" }],'',
            ''      \"no-console\": [\"warn\", { allow: [\"warn\", \"error\"] }],'',
            ''    },'',
            ''  },'',
            ''  {'',
            ''    ignores: [\"assets/**\", \"node_modules/**\", \"*.config.js\"],'',
            ''  },'',
            ''];''])"

definition prettierConfig :: string where
  "prettierConfig =
     unlines
     [''{'',
      ''  \"semi\": true,'',
      ''  \"singleQuote\": true,'',
      ''  \"tabWidth\": 2,'',
      ''  \"trailingComma\": \"es5\",'',
      ''  \"printWidth\": 100,'',
      ''  \"bracketSpacing\": true,'',
      ''  \"arrowParens\": \"always\"'',
      ''}'']"

definition prettierIgnore :: string where
  "prettierIgnore =
     unlines
     [''# Prettier ignore'',
      ''assets/'',
      ''node_modules/'',
      ''*.liquid'',
      ''*.json'',
      ''*.md'',
      ''bun.lockb'']"

definition themeCheckConfig :: string where
  "themeCheckConfig =
     unlines
     [''# Theme Check Configuration'',
      ''# https://shopify.dev/docs/themes/tools/theme-check'',
      [],
      ''root: .'',
      ''extends: :theme-app-extension'',
      [],
      ''# Ignore patterns'',
      ''ignore:'',
      ''  - node_modules/**'',
      ''  - frontend/**'',
      [],
      ''# Custom rules'',
      ''MatchingTranslations:'',
      ''  enabled: true'',
      [],
      ''RemoteAsset:'',
      ''  enabled: true'',
      ''  severity: suggestion'']"

definition setupLinting :: "SetupConfig \<Rightarrow> world \<Rightarrow> unit result" where
  "setupLinting config w =
     (if lintingSetup config = Some LintSkip
      then Ok () (log (nl @ ''Skipping linting setup'') yellow w)
      else
        (let w = header (''Setting Up Linting'') w
         in if lintingSetup config = Some EslintPrettier
            then
              (let deps =
                     [''eslint'',
                      ''prettier'',
                      ''eslint-config-prettier'',
                      ''eslint-plugin-prettier'',
                      ''@eslint/js''];
                   deps = (if jsApproach config = Typescript
                           then deps @ [''@typescript-eslint/eslint-plugin'', ''@typescript-eslint/parser'']
                           else deps);
                   w = log (''Installing ESLint and Prettier...'') cyan w
               in case sh (add_dev (packageManager config) deps) w of
                    Throw error w \<Rightarrow>
                      Ok () (console_error error (log ([CHR 0xE2, CHR 0x9C, CHR 0x97] @ '' Error installing linting dependencies'') red w))
                  | Exit n w \<Rightarrow> Exit n w
                  | Ok _ w \<Rightarrow>
                      (let w = log ([CHR 0xE2, CHR 0x9C, CHR 0x93] @ '' Linting dependencies installed'') green w
                       in and_then (writeFile ''eslint.config.js'' (eslintConfig config) w)
                            (\<lambda>_ w.
                               let w = log ([CHR 0xE2, CHR 0x9C, CHR 0x93] @ '' eslint.config.js created'') green w
                               in and_then (writeFile ''.prettierrc'' prettierConfig w)
                                    (\<lambda>_ w.
                                       let w = log ([CHR 0xE2, CHR 0x9C, CHR 0x93] @ '' .prettierrc created'') green w
                                       in and_then (writeFile ''.prettierignore'' prettierIgnore w)
                                            (\<lambda>_ w. Ok () (log ([CHR 0xE2, CHR 0x9C, CHR 0x93] @ '' .prettierignore created'') green w))))))
            else if lintingSetup config = Some ThemeCheck
            then
              (let w = log (''Theme Check is already included via @shopify/theme-check-node'') green w
               in and_then (writeFile ''.theme-check.yml'' themeCheckConfig w)
                    (\<lambda>_ w. Ok () (log ([CHR 0xE2, CHR 0x9C, CHR 0x93] @ '' .theme-check.yml created'') green w)))
            else Ok () w))"

subsection \<open>setupGitHooks\<close>

definition preCommitHook :: "SetupConfig \<Rightarrow> string" where
  "preCommitHook config =
     (if lintingSetup config = Some EslintPrettier
      then unlines
           [''#!/usr/bin/env sh'',
            ''. \"$(dirname -- \"$0\")/_/husky.sh\"'',
            [],
            ''npx lint-staged'']
      else unlines
           [''#!/usr/bin/env sh'',
            ''. \"$(dirname -- \"$0\")/_/husky.sh\"'',
            [],
            ''# Run theme check on liquid files'',
            ''npx shopify theme check --fail-level error''])"

definition lintStagedConfig :: string where
  "lintStagedConfig =
     unlines
     [''{'',
      ''  \"frontend/**/*.{js,ts}\": ['',
      ''    \"eslint --fix\",'',
      ''    \"prettier --write\"'',
      ''  ],'',
      ''  \"frontend/**/*.{css,scss}\": ['',
      ''    \"prettier --write\"'',
      ''  ]'',
      ''}'']"

text \<open>
  The scripts that \<open>setupGitHooks\<close> adds to the parsed \<^verbatim>\<open>package.json\<close>. The module is
  strict code: reading a property of \<^verbatim>\<open>null\<close> and writing a property of a value that is
  not an object throw a TypeError, here \<open>None\<close>. A property written to an array is not
  part of its JSON text.
\<close>

definition add_lint_scripts :: "SetupConfig \<Rightarrow> json \<Rightarrow> json option" where
  "add_lint_scripts config packageJson =
     (let lint = (if lintingSetup config = Some EslintPrettier
                  then ''eslint frontend/''
                  else ''shopify theme check'');
          lint_fix = (if lintingSetup config = Some EslintPrettier
                      then ''eslint frontend/ --fix''
                      else ''shopify theme check --auto-correct'');
          add = (\<lambda>scripts.
                   set_property
                     (set_property
                        (set_property
                           (set_property scripts ''lint'' (JString lint))
                           ''lint:fix'' (JString lint_fix))
                        ''format'' (JString ''prettier --write frontend/''))
                     ''prepare'' (JString ''husky''))
      in case packageJson of
           JObject ps \<Rightarrow>
             (case (case map_of ps ''scripts'' of
                      Some v \<Rightarrow> if truthy v then v else JObject []
                    | None \<Rightarrow> JObject []) of
                JObject scripts \<Rightarrow> Some (JObject (set_property ps ''scripts'' (JObject (add scripts))))
              | JArray xs \<Rightarrow> Some (JObject (set_property ps ''scripts'' (JArray xs)))
              | _ \<Rightarrow> None)
         | JArray xs \<Rightarrow> Some (JArray xs)
         | _ \<Rightarrow> None)"

definition setupGitHooks :: "SetupConfig \<Rightarrow> world \<Rightarrow> unit result" where
  "setupGitHooks config w =
     (if \<not> gitHooks config
      then Ok () (log (nl @ ''Skipping Git hooks setup'') yellow w)
      else
        (let w = header (''Setting Up Git Hooks'') w;
             deps = [''husky'', ''lint-staged''];
             w = log (''Installing husky and lint-staged...'') cyan w
         in case sh (add_dev (packageManager config) deps) w of
              Throw error w \<Rightarrow>
                Ok () (console_error error (log ([CHR 0xE2, CHR 0x9C, CHR 0x97] @ '' Error installing Git hooks dependencies'') red w))
            | Exit n w \<Rightarrow> Exit n w
            | Ok _ w \<Rightarrow>
                (let w = log ([CHR 0xE2, CHR 0x9C, CHR 0x93] @ '' Git hooks dependencies installed'') green w
                 in and_then
                      (try_catch
                         (and_then (sh [''npx'', ''husky'', ''init''] w)
                            (\<lambda>_ w. Ok () (log ([CHR 0xE2, CHR 0x9C, CHR 0x93] @ '' Husky initialized'') green w)))
                         (\<lambda>error w. Ok () (log ([CHR 0xE2, CHR 0x9A, CHR 0xA0, CHR 0xEF, CHR 0xB8, CHR 0x8F] @ '' Husky init skipped (may need git init first)'') yellow w)))
                      (\<lambda>_ w.
                         and_then
                           (try_catch
                              (and_then (mkdir ''.husky'' w)
                                 (\<lambda>_ w. and_then (writeFile ''.husky/pre-commit'' (preCommitHook config) w)
                                    (\<lambda>_ w. and_then (sh [''chmod'', ''+x'', ''.husky/pre-commit''] w)
                                       (\<lambda>_ w. Ok () (log ([CHR 0xE2, CHR 0x9C, CHR 0x93] @ '' Pre-commit hook created'') green w)))))
                              (\<lambda>error w. Ok () (log ([CHR 0xE2, CHR 0x9A, CHR 0xA0, CHR 0xEF, CHR 0xB8, CHR 0x8F] @ '' Pre-commit hook creation skipped'') yellow w)))
                           (\<lambda>_ w.
                              and_then
                                (if lintingSetup config = Some EslintPrettier
                                 then and_then (writeFile ''.lintstagedrc'' lintStagedConfig w)
                                        (\<lambda>_ w. Ok () (log ([CHR 0xE2, CHR 0x9C, CHR 0x93] @ '' .lintstagedrc created'') green w))
                                 else Ok () w)
                                (\<lambda>_ w.
                                   let w = log (''  Adding lint scripts to package.json...'') cyan w
                                   in try_catch
                                        (and_then (readFile ''package.json'' w)
                                           (\<lambda>packageJsonContent w.
                                              case json_parse w packageJsonContent of
                                                None \<Rightarrow> Throw SyntaxError w
                                              | Some packageJson \<Rightarrow>
                                                  (case add_lint_scripts config packageJson of
                                                     None \<Rightarrow> Throw TypeError w
                                                   | Some packageJson \<Rightarrow>
                                                       and_then (writeFile ''package.json'' (JSON_stringify packageJson) w)
                                                         (\<lambda>_ w. Ok () (log ([CHR 0xE2, CHR 0x9C, CHR 0x93] @ '' Lint scripts added to package.json'') green w)))))
                                        (\<lambda>error w. Ok () (log ([CHR 0xE2, CHR 0x9A, CHR 0xA0, CHR 0xEF, CHR 0xB8, CHR 0x8F] @ '' Could not update package.json scripts'') yellow w))))))))"

subsection \<open>addTomlToGitignore\<close>

definition addTomlToGitignore :: "world \<Rightarrow> unit result" where
  "addTomlToGitignore w =
     (let w = header (''Securing shopify.theme.toml'') w
      in try_catch
           (and_then (readFile ''.gitignore'' w)
              (\<lambda>gitignoreContent w.
                 if \<not> str_includes gitignoreContent ''shopify.theme.toml''
                 then (let gitignoreContent =
                             replace gitignoreContent
                               (''# Shopify theme files'' @ nl @ ''config/settings_data.json'')
                               (''# Shopify theme files'' @ nl @ ''config/settings_data.json'' @ nl @ ''shopify.theme.toml'')
                       in and_then (writeFile ''.gitignore'' gitignoreContent w)
                            (\<lambda>_ w.
                               let w = log ([CHR 0xE2, CHR 0x9C, CHR 0x93] @ '' shopify.theme.toml added to .gitignore'') green w
                               in Ok () (log (''  Your store credentials are now protected from being committed'') cyan w)))
                 else Ok () (log ([CHR 0xE2, CHR 0x9C, CHR 0x93] @ '' shopify.theme.toml already in .gitignore'') green w)))
           (\<lambda>error w. Ok () (console_error error (log ([CHR 0xE2, CHR 0x9C, CHR 0x97] @ '' Error updating .gitignore'') red w))))"

subsection \<open>createCoreFiles\<close>

definition utilsJs :: "string \<Rightarrow> string \<Rightarrow> string" where
  "utilsJs name1 name2 =
     unlines
     [''/**'',
      '' * Core Utility Functions'',
      '' */'',
      [],
      ''export function consoleMessage(message, type = 'log', data = null) {'',
      ''  if (!window.'' @ name1 @ '' || !window.'' @ name2 @ ''.settings?.devMode) return;'',
      [],
      ''  const prefix = '[Theme]';'',
      ''  const styles = {'',
      ''    log: 'color: #3b82f6','',
      ''    info: 'color: #10b981','',
      ''    warn: 'color: #f59e0b','',
      ''    error: 'color: #ef4444','',
      ''  };'',
      [],
      ''  console[type](`%c${prefix} ${message}`, styles[type] || styles.log, data || '' @ [CHR 0x27] @ ''');'',
      ''}'',
      [],
      ''export function reportWebVitals() {'',
      ''  if ('PerformanceObserver' in window) {'',
      ''    const observer = new PerformanceObserver((list) => {'',
      ''      for (const entry of list.getEntries()) {'',
      ''        consoleMessage(`Web Vital: ${entry.name} = ${entry.value.toFixed(2)}ms`, 'info');'',
      ''      }'',
      ''    });'',
      [],
      ''    observer.observe({ entryTypes: ['paint', 'largest-contentful-paint'] });'',
      ''  }'',
      ''}'',
      [],
      ''export function initGlobalEvents() {'',
      ''  // Add global event listeners here'',
      ''  document.addEventListener('click', (e) => {'',
      ''    // Handle global clicks'',
      ''  });'',
      ''}'',
      [],
      ''export function handleUrlParams() {'',
      ''  const params = new URLSearchParams(window.location.search);'',
      [],
      ''  // Handle specific URL parameters'',
      ''  if (params.has('cart_open')) {'',
      ''    // Open cart'',
      ''    consoleMessage('Opening cart from URL parameter', 'info');'',
      ''  }'',
      ''}'',
      [],
      ''export function debounce(func, wait) {'',
      ''  let timeout;'',
      ''  return function executedFunction(...args) {'',
      ''    const later = () => {'',
      ''      clearTimeout(timeout);'',
      ''      func(...args);'',
      ''    };'',
      ''    clearTimeout(timeout);'',
      ''    timeout = setTimeout(later, wait);'',
      ''  };'',
      ''}'']"

definition sectionRegistry :: string where
  "sectionRegistry =
     unlines
     [''/**'',
      '' * Section Registry'',
      '' * Manages section lifecycles for Shopify Theme Editor'',
      '' */'',
      [],
      ''const sectionInstances = new Map();'',
      [],
      ''export function registerSection(sectionId, callbacks) {'',
      ''  if (!sectionInstances.has(sectionId)) {'',
      ''    sectionInstances.set(sectionId, []);'',
      ''  }'',
      ''  sectionInstances.get(sectionId).push(callbacks);'',
      ''}'',
      [],
      ''export function registerSectionLifecycles() {'',
      ''  if (typeof window.Shopify !== 'undefined' && window.Shopify.designMode) {'',
      ''    document.addEventListener('shopify:section:load', (event) => {'',
      ''      const sectionId = event.target.dataset.sectionId;'',
      ''      const callbacks = sectionInstances.get(sectionId);'',
      ''      if (callbacks) {'',
      ''        callbacks.forEach(cb => cb.onLoad?.(event.target));'',
      ''      }'',
      ''    });'',
      [],
      ''    document.addEventListener('shopify:section:unload', (event) => {'',
      ''      const sectionId = event.target.dataset.sectionId;'',
      ''      const callbacks = sectionInstances.get(sectionId);'',
      ''      if (callbacks) {'',
      ''        callbacks.forEach(cb => cb.onUnload?.(event.target));'',
      ''      }'',
      ''    });'',
      ''  } else {'',
      ''    // Initial load'',
      ''    const sections = document.querySelectorAll('[data-section-id]');'',
      ''    sections.forEach(section => {'',
      ''      const sectionId = section.dataset.sectionId;'',
      ''      const callbacks = sectionInstances.get(sectionId);'',
      ''      if (callbacks) {'',
      ''        callbacks.forEach(cb => cb.onLoad?.(section));'',
      ''      }'',
      ''    });'',
      ''  }'',
      ''}'']"

text \<open>
  \<open>createCoreFiles\<close> takes no configuration. The template literal of \<^verbatim>\<open>utilsJs\<close> holds
  two substitutions \<^verbatim>\<open>${await prompt("Enter your project name again for utils:")}\<close>,
  evaluated in this order when the literal is.
\<close>

definition createCoreFiles :: "world \<Rightarrow> unit result" where
  "createCoreFiles w =
     (let w = header (''Creating Core Utility Files'') w;
          (name1, w) = prompt ''Enter your project name again for utils:'' w;
          (name2, w) = prompt ''Enter your project name again for utils:'' w
      in and_then (writeFile ''frontend/scripts/utils.js'' (utilsJs name1 name2) w)
           (\<lambda>_ w.
              let w = log ([CHR 0xE2, CHR 0x9C, CHR 0x93] @ '' utils.js created'') green w
              in and_then (writeFile ''frontend/scripts/hooks/core/sectionRegistry.js'' sectionRegistry w)
                   (\<lambda>_ w. Ok () (log ([CHR 0xE2, CHR 0x9C, CHR 0x93] @ '' sectionRegistry.js created'') green w))))"

subsection \<open>pullShopifyTheme\<close>

definition pullShopifyTheme :: "SetupConfig \<Rightarrow> world \<Rightarrow> unit result" where
  "pullShopifyTheme config w =
     (case themeId config of
        None \<Rightarrow> Ok () (log (nl @ ''Skipping theme pull - no theme selected'') yellow w)
      | Some themeId' \<Rightarrow>
          if themeId' = []
          then Ok () (log (nl @ ''Skipping theme pull - no theme selected'') yellow w)
          else
            (let w = header (''Pulling Shopify Theme'') w
             in try_catch
                  (let w = log (''Pulling theme '' @ themeId' @ '' to '' @ shopifyEnvironment config @ '' environment...'') cyan w
                   in and_then
                        (sh [''shopify'', ''theme'', ''pull'', ''--theme'', themeId',
                             ''--environment'', shopifyEnvironment config] w)
                        (\<lambda>_ w. Ok () (log ([CHR 0xE2, CHR 0x9C, CHR 0x93] @ '' Theme pulled successfully'') green w)))
                  (\<lambda>error w. Ok () (console_error error (log ([CHR 0xE2, CHR 0x9C, CHR 0x97] @ '' Error pulling theme'') red w)))))"

subsection \<open>initializeGit\<close>

definition initializeGit :: "world \<Rightarrow> unit result" where
  "initializeGit w =
     (let w = header (''Initializing Git Repository'') w
      in try_catch
           (case sh [''git'', ''rev-parse'', ''--git-dir''] w of
              Ok _ w \<Rightarrow> Ok () (log (''Git repository already initialized'') yellow w)
            | Exit n w \<Rightarrow> Exit n w
            | Throw _ w \<Rightarrow>
                and_then (sh [''git'', ''init''] w)
                  (\<lambda>_ w. and_then (sh [''git'', ''add'', ''.''] w)
                     (\<lambda>_ w. and_then (sh [''git'', ''commit'', ''-m'', ''Initial commit: Shopify theme setup''] w)
                        (\<lambda>_ w. Ok () (log ([CHR 0xE2, CHR 0x9C, CHR 0x93] @ '' Git repository initialized'') green w)))))
           (\<lambda>error w. Ok () (console_error error (log ([CHR 0xE2, CHR 0x9C, CHR 0x97] @ '' Error initializing git'') red w))))"

subsection \<open>runInitialBuild\<close>

definition runInitialBuild :: "SetupConfig \<Rightarrow> world \<Rightarrow> unit result" where
  "runInitialBuild config w =
     (let w = header (''Running Initial Build'') w
      in try_catch
           (let w = log (''Building Vite assets for the first time...'') cyan w
            in and_then
                 (if packageManager config = Some Bun then sh [''bun'', ''run'', ''build''] w
                  else if packageManager config = Some Npm then sh [''npm'', ''run'', ''build''] w
                  else if packageManager config = Some Pnpm then sh [''pnpm'', ''run'', ''build''] w
                  else sh [''yarn'', ''build''] w)
                 (\<lambda>_ w. Ok () (log ([CHR 0xE2, CHR 0x9C, CHR 0x93] @ '' Initial build completed successfully'') green w)))
           (\<lambda>error w. Ok () (console_error error (log ([CHR 0xE2, CHR 0x9C, CHR 0x97] @ '' Error during build'') red w))))"

subsection \<open>updateClaudeMd\<close>

definition projectContext :: "SetupConfig \<Rightarrow> string" where
  "projectContext config =
     unlines
     [[],
      [],
      ''---'',
      [],
      ''## Project-Specific Context'',
      [],
      ''**Project Name**: '' @ projectName config,
      ''**Store Type**: '' @ (case projectType config of None \<Rightarrow> ''e-commerce'' | Some t \<Rightarrow> or_default t ''e-commerce''),
      ''**Description**: '' @ or_default (projectDescription config) ''Shopify theme development project'',
      [],
      ''### Configuration'',
      [],
      ''- **Styling Approach**: '' @ styling_text (stylingApproach config),
      ''- **JavaScript**: '' @ (if jsApproach config = Vanilla then ''Vanilla JavaScript'' else ''TypeScript''),
      ''- **Package Manager**: '' @ pm_text (packageManager config),
      ''- **Theme Editor Setup**: '' @ (if enableTunnel config then ''Cloudflare tunnel enabled (Vite 6.0.8)'' else ''Manual HTTPS configuration required''),
      ''- **Environment**: '' @ shopifyEnvironment config,
      [],
      ''### Project-Specific Notes'',
      [],
      (if projectDescription config \<noteq> [] then ''This project is '' @ projectDescription config @ ''.'' else []),
      [],
      (if enableTunnel config then nl @ ''**Important**: This project uses Cloudflare tunnel for theme editor development. Make sure cloudflared is installed:'' @ nl @ ''```bash'' @ nl @ ''brew install cloudflared'' @ nl @ ''```'' @ nl @ nl @ ''When running `'' @ pm_text (packageManager config) @ '' run dev`, the tunnel will automatically create an HTTPS URL for testing in the Shopify theme editor.'' @ nl else []),
      [],
      (if stylingApproach config = Some Tailwind then nl @ ''**Note**: This project uses Tailwind CSS. While the default guidelines emphasize semantic class names, you may use utility classes if that's the project's chosen approach. Ensure mobile-first responsive design principles are still followed.'' @ nl else []),
      [],
      ''### Quick Start Commands'',
      [],
      ''```bash'',
      ''# Start development'',
      pm_text (packageManager config) @ '' run dev'',
      [],
      ''# Build assets'',
      pm_text (packageManager config) @ '' run build'',
      [],
      ''# Deploy to Shopify'',
      pm_text (packageManager config) @ '' run deploy'',
      ''```'',
      [],
      ''---'',
      [],
      ''*This project context section is auto-generated. Update it as the project evolves.*'']"

definition updateClaudeMd :: "SetupConfig \<Rightarrow> world \<Rightarrow> unit result" where
  "updateClaudeMd config w =
     (let w = header (''Updating CLAUDE.md with Project Context'') w
      in and_then (readFile ''CLAUDE.md'' w)
           (\<lambda>existingContent w.
              let updatedContent = existingContent @ projectContext config
              in and_then (writeFile ''CLAUDE.md'' updatedContent w)
                   (\<lambda>_ w. Ok () (log ([CHR 0xE2, CHR 0x9C, CHR 0x93] @ '' CLAUDE.md updated with project-specific context'') green w))))"

subsection \<open>displayNextSteps\<close>

definition displayNextSteps :: "SetupConfig \<Rightarrow> world \<Rightarrow> unit result" where
  "displayNextSteps config w =
     (let w = header (''Setup Complete!'') w;
          w = log (''Your Shopify theme development environment is ready!'') green w;
          w = log (nl @ ''Next steps:'' @ nl) bright w;
          w = (if enableTunnel config
               then (let w = log ([CHR 0xE2, CHR 0x9A, CHR 0xA0, CHR 0xEF, CHR 0xB8, CHR 0x8F] @ ''  IMPORTANT: Install cloudflared for tunnel support:'') yellow w
                     in log (''   brew install cloudflared'' @ nl) yellow w)
               else w);
          w = log (''1. Start the development server:'') cyan w;
          w = log (''   '' @ pm_text (packageManager config) @ '' run dev'') yellow w;
          w = (if enableTunnel config
               then log (''   (This will create a Cloudflare tunnel for theme editor testing)'') bright w
               else w);
          w = console_log [] w;
          w = log (''2. Build for production:'') cyan w;
          w = log (''   '' @ pm_text (packageManager config) @ '' run build'' @ nl) yellow w;
          w = log (''3. Deploy to Shopify:'') cyan w;
          w = log (''   '' @ pm_text (packageManager config) @ '' run deploy'' @ nl) yellow w;
          w = log (''4. Read the documentation:'') cyan w;
          w = log (''   - CLAUDE.md for project guidelines and AI assistant rules'') yellow w;
          w = log (''   - README.md for comprehensive documentation'' @ nl) yellow w;
          w = log (''5. Commit your changes:'') cyan w;
          w = log (''   git add .'') yellow w;
          w = log (''   git commit -m \"feat: Initial Shopify theme setup for '' @ projectName config @ ''\"'') yellow w;
          w = log (''   git push'' @ nl) yellow w
      in Ok () (log (''Happy coding! '' @ [CHR 0xF0, CHR 0x9F, CHR 0x9A, CHR 0x80]) (green @ bright) w))"

section \<open>main\<close>

text \<open>
  A sequence of awaited steps: each runs on the world the one before has left, and an
  exception or an exit ends the sequence. The journal notes where each step begins and
  where it returns.
\<close>

fun run_steps :: "(string \<times> (world \<Rightarrow> unit result)) list \<Rightarrow> world \<Rightarrow> unit result" where
  "run_steps [] w = Ok () w"
| "run_steps ((name, step) # steps) w =
     (case step (record_event (Enter name) w) of
        Ok _ w \<Rightarrow> run_steps steps (record_event (Leave name) w)
      | Throw error w \<Rightarrow> Throw error w
      | Exit n w \<Rightarrow> Exit n w)"

definition setup_steps :: "SetupConfig \<Rightarrow> (string \<times> (world \<Rightarrow> unit result)) list" where
  "setup_steps config =
     [(''createPackageJson'', createPackageJson config),
      (''installDependencies'', installDependencies config),
      (''createDirectoryStructure'', createDirectoryStructure),
      (''createViteConfig'', createViteConfig config),
      (''createPostCSSConfig'', createPostCSSConfig config),
      (''createGitIgnore'', createGitIgnore),
      (''createShopifyIgnore'', createShopifyIgnore),
      (''createGitHubWorkflow'', createGitHubWorkflow config),
      (''createEntrypoints'', createEntrypoints config),
      (''createCoreFiles'', createCoreFiles),
      (''createShopifyThemeToml'', createShopifyThemeToml config),
      (''setupLinting'', setupLinting config),
      (''setupGitHooks'', setupGitHooks config),
      (''pullShopifyTheme'', pullShopifyTheme config),
      (''runInitialBuild'', runInitialBuild config),
      (''updateClaudeMd'', updateClaudeMd config),
      (''initializeGit'', initializeGit),
      (''addTomlToGitignore'', addTomlToGitignore),
      (''displayNextSteps'', displayNextSteps config)]"

text \<open>The configuration summary and the confirmation.\<close>

definition configuration_summary :: "SetupConfig \<Rightarrow> world \<Rightarrow> world" where
  "configuration_summary config w =
     (let w = log (nl @ repeat ''='' 60) bright w;
          w = log (''Configuration Summary:'') (bright @ cyan) w;
          w = log (repeat ''='' 60) bright w;
          w = log (''Project Name: '' @ projectName config) cyan w;
          w = log (''Styling: '' @ styling_text (stylingApproach config)) cyan w;
          w = log (''JavaScript: '' @ js_text (jsApproach config)) cyan w;
          w = log (''Package Manager: '' @ pm_text (packageManager config)) cyan w;
          w = log (''Store Config: '' @ (if tomlApproach config = Some TomlFile then ''shopify.theme.toml'' else (if tomlApproach config = Some TomlCli then ''CLI authentication'' else ''Manual setup''))) cyan w;
          w = (if storeUrl config \<noteq> []
               then log (''Store URL: '' @ storeUrl config) cyan w
               else w);
          w = log (''Linting: '' @ (if lintingSetup config = Some EslintPrettier then ''ESLint + Prettier'' else (if lintingSetup config = Some ThemeCheck then ''Theme Check'' else ''None''))) cyan w;
          w = log (''Git Hooks: '' @ (if gitHooks config then ''Yes (husky + lint-staged)'' else ''No'')) cyan w;
          w = log (''Environment: '' @ shopifyEnvironment config) cyan w;
          w = (case themeId config of
                 None \<Rightarrow> w
               | Some themeId' \<Rightarrow>
                   if themeId' = [] then w
                   else log (''Theme ID: '' @ themeId') cyan w)
      in log (repeat ''='' 60 @ nl) bright w)"

text \<open>The body of the \<^verbatim>\<open>try\<close> of \<open>main\<close>.\<close>

definition main_try :: "world \<Rightarrow> unit result option" where
  "main_try w =
     do {
       r \<leftarrow> askQuestions w;
       Some (case r of
               Throw error w \<Rightarrow> Throw error w
             | Exit n w \<Rightarrow> Exit n w
             | Ok config w \<Rightarrow>
                 (let w = configuration_summary config w;
                      (confirm, w) = prompt ''Proceed with setup? (y/n):'' w
                  in if toLowerCase confirm \<noteq> ''y'' \<and> toLowerCase confirm \<noteq> ''yes''
                     then Exit 0 (log (''Setup cancelled.'') yellow w)
                     else run_steps (setup_steps config) w))
     }"

definition main :: "world \<Rightarrow> unit result option" where
  "main w =
     map_option
       (\<lambda>r. case r of
               Throw error w \<Rightarrow>
                 Exit 1 (console_error error (log (nl @ [CHR 0xE2, CHR 0x9C, CHR 0x97] @ '' Setup failed with error:'') red w))
             | Ok x w \<Rightarrow> Ok x w
             | Exit n w \<Rightarrow> Exit n w)
       (main_try w)"

text \<open>
  The exit code of the process: the argument of \<^verbatim>\<open>process.exit\<close>, or 0 when
  \<open>main\<close> returns and nothing is left to run.
\<close>

definition exit_code :: "unit result \<Rightarrow> int" where
  "exit_code r = (case r of Ok x w \<Rightarrow> 0 | Exit n w \<Rightarrow> n | Throw error w \<Rightarrow> 1)"

section \<open>Example environments\<close>

text \<open>
  A world with the given input, no file and an empty journal, in which no file system call
  fails for an outside reason; every external command fails in \<open>bare_world\<close> and
  succeeds without output or effect in \<open>calm_world\<close>.
\<close>

definition bare_world :: "string list \<Rightarrow> world" where
  "bare_world input =
     \<lparr>stdin = input, files = Map.empty, journal = [], fault = (\<lambda>k. False),
      shell = (\<lambda>k argv fs. (fs, None)), json_parse = (\<lambda>text. None),
      json_themes = (\<lambda>text. None)\<rparr>"

definition calm_world :: "string list \<Rightarrow> world" where
  "calm_world input =
     \<lparr>stdin = input, files = Map.empty, journal = [], fault = (\<lambda>k. False),
      shell = (\<lambda>k argv fs. (fs, Some [])), json_parse = (\<lambda>text. None),
      json_themes = (\<lambda>text. None)\<rparr>"

section \<open>Notions for the properties\<close>

text \<open>
  The lines of \<open>gitignore\<close> before and after the two lines of its section
  \<^verbatim>\<open># Shopify theme files\<close>.
\<close>

definition gitignore_before :: "string list" where
  "gitignore_before =
     [''# Node.js dependencies'',
      ''node_modules/'',
      ''npm-debug.log*'',
      ''yarn-debug.log*'',
      ''yarn-error.log*'',
      ''pnpm-debug.log*'',
      ''lerna-debug.log*'',
      [],
      ''# Environment variables'',
      ''.env'',
      ''.env.local'',
      ''.env.*.local'',
      ''.env.development.local'',
      ''.env.test.local'',
      ''.env.production.local'',
      [],
      ''# Vite'',
      ''dist/'',
      ''dist-ssr/'',
      ''*.local'',
      ''.vite/'',
      [],
      ''# Editor directories and files'',
      ''.vscode/*'',
      ''!.vscode/extensions.json'',
      ''!.vscode/settings.json'',
      ''.idea/'',
      ''.DS_Store'',
      ''*.suo'',
      ''*.ntvs*'',
      ''*.njsproj'',
      ''*.sln'',
      ''*.sw?'',
      [],
      ''# OS files'',
      ''Thumbs.db'',
      ''.DS_Store'',
      ''*~'',
      ''.Spotlight-V100'',
      ''.Trashes'',
      []]"

definition gitignore_after :: "string list" where
  "gitignore_after =
     [[],
      ''# Build artifacts'',
      ''*.log'',
      ''*.tsbuildinfo'',
      [],
      ''# Lock files (keep only one)'',
      ''package-lock.json'',
      ''yarn.lock'',
      ''pnpm-lock.yaml'']"

text \<open>The world a call ends in.\<close>

definition world_of :: "'a result \<Rightarrow> world" where
  "world_of r = (case r of Ok x w \<Rightarrow> w | Throw e w \<Rightarrow> w | Exit n w \<Rightarrow> w)"

text \<open>
  An action of the journal that failed, and a line of the console that reports a failure:
  a red line that starts with the cross, or a yellow one that starts with the warning sign.
\<close>

fun failed :: "event \<Rightarrow> bool" where
  "failed (Run argv ok) = (\<not> ok)"
| "failed (WriteFile path content ok) = (\<not> ok)"
| "failed (ReadFile path ok) = (\<not> ok)"
| "failed (Mkdir path ok) = (\<not> ok)"
| "failed e = False"

definition cross :: string where
  "cross = [CHR 0xE2, CHR 0x9C, CHR 0x97]"

definition warning_sign :: string where
  "warning_sign = [CHR 0xE2, CHR 0x9A, CHR 0xA0, CHR 0xEF, CHR 0xB8, CHR 0x8F]"

definition failure_line :: "string \<Rightarrow> bool" where
  "failure_line s = (prefix (red @ cross) s \<or> prefix (yellow @ warning_sign) s)"

text \<open>
  The probe of \<open>initializeGit\<close>: its failure says that there is no repository yet, and
  is not reported.
\<close>

definition git_probe :: "string list" where
  "git_probe = [''git'', ''rev-parse'', ''--git-dir'']"

text \<open>
  In a list of events, every failed action other than the probe is followed at once by a
  line that reports a failure.
\<close>

fun handled :: "event list \<Rightarrow> bool" where
  "handled [] = True"
| "handled (e # es) =
     ((if failed e \<and> e \<noteq> Run git_probe False
       then (case es of Print s # rest \<Rightarrow> failure_line s | _ \<Rightarrow> False)
       else True)
      \<and> handled es)"

text \<open>
  The events at the boundaries of the steps, and the events a step may leave in the journal:
  anything but a boundary and a write of the files of \<open>createEntrypoints\<close>.
\<close>

fun boundary :: "event \<Rightarrow> bool" where
  "boundary (Enter name) = True"
| "boundary (Leave name) = True"
| "boundary e = False"

definition entry_point_files :: "string list" where
  "entry_point_files =
     [''frontend/entrypoints/storefront.js'',
      ''frontend/entrypoints/custom_styling.css'',
      ''frontend/entrypoints/custom_styling.scss'']"

fun inner :: "event \<Rightarrow> bool" where
  "inner (Enter name) = False"
| "inner (Leave name) = False"
| "inner (WriteFile path content ok) = (path \<notin> set entry_point_files)"
| "inner e = True"

text \<open>
  How an exception that leaves a call stands in the events \<open>es\<close> of the call: a failed
  command or a failed call of the file system is the last event, and the failures before
  it are reported; the other exceptions leave no event of their own.
\<close>

definition pending :: "bool \<Rightarrow> error \<Rightarrow> event list \<Rightarrow> bool" where
  "pending commands error es =
     (case error of
        ShellError argv \<Rightarrow> commands \<and> (\<exists>es'. es = es' @ [Run argv False] \<and> handled es')
      | FsError call path \<Rightarrow>
          (\<exists>es' x. es = es' @ [x] \<and> handled es' \<and> failed x \<and> (\<forall>argv ok. x \<noteq> Run argv ok))
      | _ \<Rightarrow> handled es)"

text \<open>
  A call ends well from \<open>w\<close>: it does not exit the process; when it returns, the failures
  in its events are reported; when it throws, the exception is pending in its events, and
  is the failure of a command only where \<open>commands\<close> allows it.
\<close>

definition ends_well :: "bool \<Rightarrow> world \<Rightarrow> 'a result \<Rightarrow> bool" where
  "ends_well commands w r =
     (case r of
        Ok x w' \<Rightarrow> (\<exists>es. journal w' = journal w @ es \<and> handled es \<and> list_all inner es)
      | Throw error w' \<Rightarrow>
          (\<exists>es. journal w' = journal w @ es \<and> pending commands error es \<and> list_all inner es)
      | Exit n w' \<Rightarrow> False)"

definition sound :: "bool \<Rightarrow> (world \<Rightarrow> 'a result) \<Rightarrow> bool" where
  "sound commands f = (\<forall>w. ends_well commands w (f w))"

text \<open>A function that only writes on the console.\<close>

definition prints :: "(world \<Rightarrow> world) \<Rightarrow> bool" where
  "prints g =
     (\<forall>w. \<exists>es. journal (g w) = journal w @ es
               \<and> list_all (\<lambda>e. case e of Print s \<Rightarrow> True | PrintError error \<Rightarrow> True | _ \<Rightarrow> False) es)"

text \<open>A handler that reports the failure it has caught and returns.\<close>

definition reports :: "(world \<Rightarrow> 'a result) \<Rightarrow> bool" where
  "reports h =
     (\<forall>w. \<exists>x w' s es. h w = Ok x w' \<and> journal w' = journal w @ Print s # es \<and> failure_line s
               \<and> list_all (\<lambda>e. case e of Print s \<Rightarrow> True | PrintError error \<Rightarrow> True | _ \<Rightarrow> False) es)"

text \<open>The names of the steps in the order of \<open>main\<close>, and the boundaries of a list of steps.\<close>

definition step_names :: "string list" where
  "step_names =
     [''createPackageJson'', ''installDependencies'', ''createDirectoryStructure'',
      ''createViteConfig'', ''createPostCSSConfig'', ''createGitIgnore'', ''createShopifyIgnore'',
      ''createGitHubWorkflow'', ''createEntrypoints'', ''createCoreFiles'',
      ''createShopifyThemeToml'', ''setupLinting'', ''setupGitHooks'', ''pullShopifyTheme'',
      ''runInitialBuild'', ''updateClaudeMd'', ''initializeGit'', ''addTomlToGitignore'',
      ''displayNextSteps'']"

definition boundaries :: "string list \<Rightarrow> event list" where
  "boundaries names = concat (map (\<lambda>name. [Enter name, Leave name]) names)"

text \<open>
  The answers among a list of events, and the script going forward from \<open>w\<close> to
  \<open>w'\<close>: the journal of \<open>w'\<close> is the journal of \<open>w\<close> with more events, the answers
  among them are the next answers of the input of \<open>w\<close>, in order, and the input of
  \<open>w'\<close> is what is left after them.
\<close>

definition answers :: "event list \<Rightarrow> string list" where
  "answers es = concat (map (\<lambda>e. case e of Answered a \<Rightarrow> [a] | _ \<Rightarrow> []) es)"

definition forward_by :: "world \<Rightarrow> event list \<Rightarrow> world \<Rightarrow> bool" where
  "forward_by w es w' =
     (journal w' = journal w @ es
      \<and> answers es = map (answer_at (stdin w)) [0..<length (answers es)]
      \<and> (\<forall>k. answer_at (stdin w') k = answer_at (stdin w) (length (answers es) + k)))"

definition forward :: "world \<Rightarrow> world \<Rightarrow> bool" where
  "forward w w' = (\<exists>es. forward_by w es w')"

text \<open>The question about the store URL, as \<open>prompt\<close> prints it.\<close>

definition store_url_question :: string where
  "store_url_question =
     yellow @ (nl @ [CHR 0xF0, CHR 0x9F, CHR 0x8F, CHR 0xAA] @ '' Enter your Shopify store URL (e.g., your-store.myshopify.com):'') @ reset"

text \<open>What a question leaves as it is: the files and the environment.\<close>

definition surroundings ::
  "world \<Rightarrow> (string \<rightharpoonup> string) \<times> (nat \<Rightarrow> bool)
     \<times> (nat \<Rightarrow> string list \<Rightarrow> (string \<rightharpoonup> string) \<Rightarrow> (string \<rightharpoonup> string) \<times> string option)
     \<times> (string \<Rightarrow> json option) \<times> (string \<Rightarrow> themes_value option)" where
  "surroundings w = (files w, fault w, shell w, json_parse w, json_themes w)"

text \<open>The configuration that \<open>askQuestions\<close> returns, when it returns one.\<close>

definition configured :: "SetupConfig result option \<Rightarrow> SetupConfig option" where
  "configured returned = (case returned of Some (Ok config w) \<Rightarrow> Some config | _ \<Rightarrow> None)"

section \<open>Properties\<close>

subsection \<open>The journal\<close>

lemma journal_record_event [simp]: "journal (record_event e w) = journal w @ [e]"
  and stdin_record_event [simp]: "stdin (record_event e w) = stdin w"
  and files_record_event [simp]: "files (record_event e w) = files w"
  and fault_record_event [simp]: "fault (record_event e w) = fault w"
  and shell_record_event [simp]: "shell (record_event e w) = shell w"
  and json_parse_record_event [simp]: "json_parse (record_event e w) = json_parse w"
  and json_themes_record_event [simp]: "json_themes (record_event e w) = json_themes w"
  by (simp_all add: record_event_def)

lemma journal_console_log [simp]: "journal (console_log s w) = journal w @ [Print s]"
  and stdin_console_log [simp]: "stdin (console_log s w) = stdin w"
  and files_console_log [simp]: "files (console_log s w) = files w"
  and fault_console_log [simp]: "fault (console_log s w) = fault w"
  and shell_console_log [simp]: "shell (console_log s w) = shell w"
  and json_parse_console_log [simp]: "json_parse (console_log s w) = json_parse w"
  and json_themes_console_log [simp]: "json_themes (console_log s w) = json_themes w"
  by (simp_all add: console_log_def)

lemma journal_console_error [simp]: "journal (console_error e w) = journal w @ [PrintError e]"
  and stdin_console_error [simp]: "stdin (console_error e w) = stdin w"
  and files_console_error [simp]: "files (console_error e w) = files w"
  and fault_console_error [simp]: "fault (console_error e w) = fault w"
  and shell_console_error [simp]: "shell (console_error e w) = shell w"
  and json_parse_console_error [simp]: "json_parse (console_error e w) = json_parse w"
  and json_themes_console_error [simp]: "json_themes (console_error e w) = json_themes w"
  by (simp_all add: console_error_def)

lemma journal_log [simp]: "journal (log m c w) = journal w @ [Print (c @ m @ reset)]"
  and stdin_log [simp]: "stdin (log m c w) = stdin w"
  and files_log [simp]: "files (log m c w) = files w"
  and fault_log [simp]: "fault (log m c w) = fault w"
  and shell_log [simp]: "shell (log m c w) = shell w"
  and json_parse_log [simp]: "json_parse (log m c w) = json_parse w"
  and json_themes_log [simp]: "json_themes (log m c w) = json_themes w"
  by (simp_all add: log_def)

lemma journal_header [simp]:
  "journal (header m w) =
     journal w @ [Print (nl @ repeat ''='' 60), Print ((bright @ cyan) @ m @ reset), Print (repeat ''='' 60 @ nl)]"
  and stdin_header [simp]: "stdin (header m w) = stdin w"
  and files_header [simp]: "files (header m w) = files w"
  and fault_header [simp]: "fault (header m w) = fault w"
  and shell_header [simp]: "shell (header m w) = shell w"
  and json_parse_header [simp]: "json_parse (header m w) = json_parse w"
  and json_themes_header [simp]: "json_themes (header m w) = json_themes w"
  by (simp_all add: header_def)

subsection \<open>prompt and select\<close>

lemma show_options_from:
  "journal (foldl (\<lambda>w (index, option). log (''  '' @ digits_of (index + 1) @ ''. '' @ option) cyan w) w (enumerate n options))
     = journal w @ map (\<lambda>(index, option). Print (cyan @ ''  '' @ digits_of (index + 1) @ ''. '' @ option @ reset)) (enumerate n options)
   \<and> stdin (foldl (\<lambda>w (index, option). log (''  '' @ digits_of (index + 1) @ ''. '' @ option) cyan w) w (enumerate n options)) = stdin w"
  by (induction options arbitrary: w n) simp_all

lemma journal_show_options [simp]:
  "journal (show_options options w) = journal w @ map (\<lambda>(index, option). Print (cyan @ ''  '' @ digits_of (index + 1) @ ''. '' @ option @ reset)) (enumerate 0 options)"
  and stdin_show_options [simp]: "stdin (show_options options w) = stdin w"
  unfolding show_options_def
  by (rule show_options_from[THEN conjunct1], rule show_options_from[THEN conjunct2])

lemma prompt_answer [simp]: "fst (prompt q w) = trim (fst (read_line (stdin w) []))"
  and prompt_journal [simp]: "journal (snd (prompt q w)) = journal w @ [Print (yellow @ q @ reset), Answered (trim (fst (read_line (stdin w) [])))]"
  and prompt_stdin [simp]: "stdin (snd (prompt q w)) = snd (read_line (stdin w) [])"
  by (simp_all add: prompt_def Let_def split: prod.splits)

lemma select_prompt_fst: "fst (select_prompt question options w) = answer_at (stdin w) 0"
  and select_prompt_journal: "journal (snd (select_prompt question options w)) = journal w @ asking question options (answer_at (stdin w) 0)"
  and select_prompt_stdin: "stdin (snd (select_prompt question options w)) = snd (read_line (stdin w) [])"
  by (simp_all add: select_prompt_def asking_def)

lemma select_unfold:
  "select question options w =
     (case parseInt (fst (select_prompt question options w)) of
        Some choice \<Rightarrow>
          if choice \<ge> 1 \<and> choice \<le> int (length options)
          then Some (nat (choice - 1), snd (select_prompt question options w))
          else select question options (log ''Invalid choice. Please try again.'' red (snd (select_prompt question options w)))
      | None \<Rightarrow> select question options (log ''Invalid choice. Please try again.'' red (snd (select_prompt question options w))))"
  unfolding select_prompt_def
  by (subst select.simps) (simp only: Let_def case_prod_beta)

text \<open>One round of \<open>select\<close>, for any function \<open>sel\<close> in place of the recursive call.\<close>

lemma select_round:
  fixes sel :: "string \<Rightarrow> string list \<Rightarrow> world \<Rightarrow> (nat \<times> world) option"
  assumes "(let w1 = log question yellow w;
          w2 = show_options options w1;
          (answer, w3) = prompt (''Enter your choice (1-'' @ digits_of (length options) @ ''):'') w2
      in case parseInt answer of
           Some choice \<Rightarrow>
             if choice \<ge> 1 \<and> choice \<le> int (length options) then Some (nat (choice - 1), w3)
             else sel question options (log ''Invalid choice. Please try again.'' red w3)
         | None \<Rightarrow> sel question options (log ''Invalid choice. Please try again.'' red w3)) = Some r"
  shows "(valid_choice options (answer_at (stdin w) 0)
          \<and> parseInt (answer_at (stdin w) 0) = Some (int (fst r) + 1)
          \<and> fst r < length options
          \<and> snd r = snd (select_prompt question options w))
       \<or> (\<not> valid_choice options (answer_at (stdin w) 0)
          \<and> sel question options (log ''Invalid choice. Please try again.'' red (snd (select_prompt question options w))) = Some r)"
proof -
  define p where "p = select_prompt question options w"
  have a: "answer_at (stdin w) 0 = fst p"
    by (simp only: p_def select_prompt_fst)
  have body: "(case parseInt (fst p) of
           Some choice \<Rightarrow>
             if choice \<ge> 1 \<and> choice \<le> int (length options) then Some (nat (choice - 1), snd p)
             else sel question options (log ''Invalid choice. Please try again.'' red (snd p))
         | None \<Rightarrow> sel question options (log ''Invalid choice. Please try again.'' red (snd p))) = Some r"
    using assms unfolding Let_def case_prod_beta p_def select_prompt_def .
  show ?thesis
  proof (cases "parseInt (fst p)")
    case None
    with body show ?thesis
      unfolding a p_def[symmetric] by (simp add: valid_choice_def)
  next
    case (Some c)
    show ?thesis
    proof (cases "c \<ge> 1 \<and> c \<le> int (length options)")
      case True
      with body Some have r: "r = (nat (c - 1), snd p)" by simp
      have v: "valid_choice options (fst p)"
        using True Some by (simp add: valid_choice_def)
      have lt: "fst r < length options"
        using True r by auto
      have "int (fst r) + 1 = c"
        using True r by auto
      with Some have "parseInt (fst p) = Some (int (fst r) + 1)" by simp
      moreover have "snd r = snd p" using r by simp
      ultimately show ?thesis
        unfolding a p_def[symmetric] using v lt by blast
    next
      case False
      with body Some have "sel question options (log ''Invalid choice. Please try again.'' red (snd p)) = Some r"
        by simp
      with False Some show ?thesis
        unfolding a p_def[symmetric] by (simp add: valid_choice_def)
    qed
  qed
qed

lemma select_answers_raw:
  assumes "select question0 options0 w0 = Some r0"
  shows "\<exists>rejected answer.
       journal (snd r0) = journal w0 @ concat (map (rejecting question0 options0) rejected) @ asking question0 options0 answer
       \<and> (\<forall>a \<in> set rejected. \<not> valid_choice options0 a)
       \<and> parseInt answer = Some (int (fst r0) + 1)
       \<and> fst r0 < length options0"
proof (rule select.raw_induct[OF _ assms])
  fix sel :: "string \<Rightarrow> string list \<Rightarrow> world \<Rightarrow> (nat \<times> world) option"
    and question options and w :: world and r :: "nat \<times> world"
  assume ih: "\<And>question options (w :: world) (r :: nat \<times> world). sel question options w = Some r \<Longrightarrow>
     \<exists>rejected answer.
       journal (snd r) = journal w @ concat (map (rejecting question options) rejected) @ asking question options answer
       \<and> (\<forall>a \<in> set rejected. \<not> valid_choice options a)
       \<and> parseInt answer = Some (int (fst r) + 1)
       \<and> fst r < length options"
  assume step: "(let w1 = log question yellow w;
          w2 = show_options options w1;
          (answer, w3) = prompt (''Enter your choice (1-'' @ digits_of (length options) @ ''):'') w2
      in case parseInt answer of
           Some choice \<Rightarrow>
             if choice \<ge> 1 \<and> choice \<le> int (length options) then Some (nat (choice - 1), w3)
             else sel question options (log ''Invalid choice. Please try again.'' red w3)
         | None \<Rightarrow> sel question options (log ''Invalid choice. Please try again.'' red w3)) = Some r"
  let ?a = "answer_at (stdin w) 0"
  let ?w = "log ''Invalid choice. Please try again.'' red (snd (select_prompt question options w))"
  from select_round[where sel=sel and question=question and options=options and w=w and r=r, OF step] show "\<exists>rejected answer.
       journal (snd r) = journal w @ concat (map (rejecting question options) rejected) @ asking question options answer
       \<and> (\<forall>a \<in> set rejected. \<not> valid_choice options a)
       \<and> parseInt answer = Some (int (fst r) + 1)
       \<and> fst r < length options"
  proof (elim disjE conjE)
    assume v: "parseInt ?a = Some (int (fst r) + 1)" "fst r < length options"
      and w': "snd r = snd (select_prompt question options w)"
    have "journal (snd r) = journal w @ concat (map (rejecting question options) []) @ asking question options ?a"
      by (simp add: w' select_prompt_journal)
    with v show ?thesis
      by (intro exI[of _ "[]"] exI[of _ ?a]) simp
  next
    assume inv: "\<not> valid_choice options ?a" and "sel question options ?w = Some r"
    from ih[OF this(2)] obtain rejected answer where
      r: "journal (snd r) = journal ?w @ concat (map (rejecting question options) rejected) @ asking question options answer"
         "\<forall>a \<in> set rejected. \<not> valid_choice options a"
         "parseInt answer = Some (int (fst r) + 1)" "fst r < length options"
      by blast
    have "journal (snd r) = journal w @ concat (map (rejecting question options) (?a # rejected)) @ asking question options answer"
      using r(1) by (simp add: rejecting_def select_prompt_journal)
    moreover have "\<forall>a \<in> set (?a # rejected). \<not> valid_choice options a"
      using r(2) inv by simp
    ultimately show ?thesis
      using r(3-4) by blast
  qed
qed

lemma select_some_valid:
  assumes "select question0 options0 w0 = Some r0"
  shows "\<exists>k. valid_choice options0 (answer_at (stdin w0) k)"
proof (rule select.raw_induct[OF _ assms])
  fix sel :: "string \<Rightarrow> string list \<Rightarrow> world \<Rightarrow> (nat \<times> world) option"
    and question options and w :: world and r :: "nat \<times> world"
  assume ih: "\<And>question options (w :: world) (r :: nat \<times> world). sel question options w = Some r \<Longrightarrow>
     \<exists>k. valid_choice options (answer_at (stdin w) k)"
  assume step: "(let w1 = log question yellow w;
          w2 = show_options options w1;
          (answer, w3) = prompt (''Enter your choice (1-'' @ digits_of (length options) @ ''):'') w2
      in case parseInt answer of
           Some choice \<Rightarrow>
             if choice \<ge> 1 \<and> choice \<le> int (length options) then Some (nat (choice - 1), w3)
             else sel question options (log ''Invalid choice. Please try again.'' red w3)
         | None \<Rightarrow> sel question options (log ''Invalid choice. Please try again.'' red w3)) = Some r"
  let ?w = "log ''Invalid choice. Please try again.'' red (snd (select_prompt question options w))"
  from select_round[where sel=sel and question=question and options=options and w=w and r=r, OF step]
  show "\<exists>k. valid_choice options (answer_at (stdin w) k)"
  proof (elim disjE conjE)
    assume "valid_choice options (answer_at (stdin w) 0)"
    then show ?thesis by blast
  next
    assume "sel question options ?w = Some r"
    from ih[OF this] obtain k where k: "valid_choice options (answer_at (stdin ?w) k)"
      by blast
    have "stdin ?w = snd (read_line (stdin w) [])"
      by (simp add: select_prompt_stdin)
    then have "answer_at (stdin ?w) k = answer_at (stdin w) (Suc k)" by simp
    with k show ?thesis by metis
  qed
qed

lemma select_diverges:
  "\<forall>k. \<not> valid_choice options (answer_at (stdin w) k) \<Longrightarrow> select question options w = None"
  using select_some_valid[of question options w] by (cases "select question options w") auto

lemma asked_append:
  "journal w' = journal w @ es \<Longrightarrow>
   asked w' = asked w + length (filter (\<lambda>e. case e of Answered a \<Rightarrow> True | _ \<Rightarrow> False) es)"
  by (simp add: asked_def)

lemma asked_asking:
  "length (filter (\<lambda>e. case e of Answered a \<Rightarrow> True | _ \<Rightarrow> False) (asking question options answer)) = 1"
  by (simp add: asking_def filter_map comp_def case_prod_beta)

lemma select_resolves:
  "valid_choice options (answer_at (stdin w) n) \<Longrightarrow>
   (\<forall>k<n. \<not> valid_choice options (answer_at (stdin w) k)) \<Longrightarrow>
   \<exists>c w'. parseInt (answer_at (stdin w) n) = Some c
         \<and> select question options w = Some (nat (c - 1), w')
         \<and> asked w' = asked w + Suc n"
proof (induction n arbitrary: w)
  case 0
  define p where "p = select_prompt question options w"
  have a: "answer_at (stdin w) 0 = fst p" by (simp only: p_def select_prompt_fst)
  from 0(1) obtain c where c: "parseInt (fst p) = Some c" "1 \<le> c" "c \<le> int (length options)"
    unfolding valid_choice_def a by (cases "parseInt (fst p)") simp_all
  have "select question options w = Some (nat (c - 1), snd p)"
    by (subst select_unfold) (simp add: c p_def[symmetric])
  moreover have "asked (snd p) = asked w + Suc 0"
    using asked_append[OF select_prompt_journal[of question options w]] by (simp add: asked_asking p_def)
  ultimately show ?case using c unfolding a by blast
next
  case (Suc n)
  define p where "p = select_prompt question options w"
  have a0: "answer_at (stdin w) 0 = fst p" by (simp only: p_def select_prompt_fst)
  let ?w = "log ''Invalid choice. Please try again.'' red (snd p)"
  have inv: "\<not> valid_choice options (fst p)"
    using Suc.prems(2) a0 by (metis zero_less_Suc)
  have sel: "select question options w = select question options ?w"
  proof (cases "parseInt (fst p)")
    case None
    then show ?thesis by (subst select_unfold) (simp add: p_def[symmetric])
  next
    case (Some c)
    with inv have "\<not> (c \<ge> 1 \<and> c \<le> int (length options))" by (simp add: valid_choice_def)
    with Some show ?thesis by (subst select_unfold) (auto simp add: p_def[symmetric])
  qed
  have st: "stdin ?w = snd (read_line (stdin w) [])"
    by (simp add: p_def select_prompt_stdin)
  have a: "\<And>k. answer_at (stdin ?w) k = answer_at (stdin w) (Suc k)"
    using st by simp
  have "valid_choice options (answer_at (stdin ?w) n)"
    using Suc.prems(1) by (simp only: a)
  moreover have "\<forall>k<n. \<not> valid_choice options (answer_at (stdin ?w) k)"
    using Suc.prems(2) by (simp only: a) auto
  ultimately obtain c w' where c: "parseInt (answer_at (stdin ?w) n) = Some c"
      "select question options ?w = Some (nat (c - 1), w')" "asked w' = asked ?w + Suc n"
    using Suc.IH[of ?w] by blast
  have "journal ?w = journal w @ rejecting question options (answer_at (stdin w) 0)"
    by (simp add: p_def select_prompt_journal rejecting_def)
  from asked_append[OF this] have "asked ?w = asked w + 1"
    by (simp add: rejecting_def asked_asking)
  with c sel show ?case
    by (simp only: a) simp
qed

subsection \<open>Calls that can fail\<close>

lemma readFile_ok:
  "files w p = Some c \<Longrightarrow> \<not> fault w (length (journal w)) \<Longrightarrow>
   readFile p w = Ok c (record_event (ReadFile p True) w)"
  by (simp add: readFile_def)

lemma writeFile_ok:
  "\<not> fault w (length (journal w)) \<Longrightarrow>
   writeFile p c w = Ok () (record_event (WriteFile p c True) (w\<lparr>files := (files w)(p \<mapsto> c)\<rparr>))"
  by (simp add: writeFile_def)

lemma and_then_Ok [simp]: "and_then (Ok x w) f = f x w"
  and and_then_Throw [simp]: "and_then (Throw e w) f = Throw e w"
  and and_then_Exit [simp]: "and_then (Exit n w) f = Exit n w"
  by (simp_all add: and_then_def)

lemma try_catch_Ok [simp]: "try_catch (Ok x w) h = Ok x w"
  and try_catch_Throw [simp]: "try_catch (Throw e w) h = h e w"
  and try_catch_Exit [simp]: "try_catch (Exit n w) h = Exit n w"
  by (simp_all add: try_catch_def)

subsection \<open>select\<close>

lemma stdin_bare_world [simp]: "stdin (bare_world input) = input"
  and journal_bare_world [simp]: "journal (bare_world input) = []"
  and files_bare_world [simp]: "files (bare_world input) = Map.empty"
  and fault_bare_world [simp]: "fault (bare_world input) k = False"
  and shell_bare_world [simp]: "shell (bare_world input) k argv fs = (fs, None)"
  by (simp_all add: bare_world_def)

lemma stdin_calm_world [simp]: "stdin (calm_world input) = input"
  and journal_calm_world [simp]: "journal (calm_world input) = []"
  and files_calm_world [simp]: "files (calm_world input) = Map.empty"
  and fault_calm_world [simp]: "fault (calm_world input) k = False"
  and shell_calm_world [simp]: "shell (calm_world input) k argv fs = (fs, Some [])"
  by (simp_all add: calm_world_def)

lemma select_retry:
  assumes "\<not> valid_choice options (answer_at (stdin w) 0)"
  shows "select question options w =
           select question options
             (log ''Invalid choice. Please try again.'' red (snd (select_prompt question options w)))"
proof -
  define p where "p = select_prompt question options w"
  have a: "answer_at (stdin w) 0 = fst p" by (simp only: p_def select_prompt_fst)
  show ?thesis
  proof (cases "parseInt (fst p)")
    case None
    then show ?thesis by (subst select_unfold) (simp add: p_def[symmetric])
  next
    case (Some c)
    with assms[unfolded a] have "\<not> (c \<ge> 1 \<and> c \<le> int (length options))"
      by (simp add: valid_choice_def)
    with Some show ?thesis by (subst select_unfold) (auto simp add: p_def[symmetric])
  qed
qed

lemma rejected_world:
  "journal (log ''Invalid choice. Please try again.'' red (snd (select_prompt question options w)))
     = journal w @ rejecting question options (answer_at (stdin w) 0)"
  "stdin (log ''Invalid choice. Please try again.'' red (snd (select_prompt question options w)))
     = snd (read_line (stdin w) [])"
  by (simp_all add: select_prompt_journal select_prompt_stdin rejecting_def)

lemma upt_Suc_shift: "map f [0..<Suc n] = f 0 # map (\<lambda>k. f (Suc k)) [0..<n]"
proof -
  have "[0..<Suc n] = 0 # map Suc [0..<n]"
    by (simp only: map_Suc_upt upt_conv_Cons[of 0 "Suc n"] zero_less_Suc)
  then show ?thesis by (simp add: comp_def)
qed

lemma select_trace:
  "valid_choice options (answer_at (stdin w) n) \<Longrightarrow>
   (\<forall>k<n. \<not> valid_choice options (answer_at (stdin w) k)) \<Longrightarrow>
   \<exists>c w'. parseInt (answer_at (stdin w) n) = Some c \<and> 1 \<le> c \<and> c \<le> int (length options)
         \<and> select question options w = Some (nat (c - 1), w')
         \<and> journal w' = journal w
              @ concat (map (\<lambda>k. rejecting question options (answer_at (stdin w) k)) [0..<n])
              @ asking question options (answer_at (stdin w) n)
         \<and> (\<forall>k. answer_at (stdin w') k = answer_at (stdin w) (Suc n + k))"
proof (induction n arbitrary: w)
  case 0
  define p where "p = select_prompt question options w"
  have a: "answer_at (stdin w) 0 = fst p" by (simp only: p_def select_prompt_fst)
  from 0(1) obtain c where c: "parseInt (fst p) = Some c" "1 \<le> c" "c \<le> int (length options)"
    unfolding valid_choice_def a by (cases "parseInt (fst p)") simp_all
  have "select question options w = Some (nat (c - 1), snd p)"
    by (subst select_unfold) (simp add: c p_def[symmetric])
  moreover have "journal (snd p) = journal w @ asking question options (answer_at (stdin w) 0)"
    by (simp only: p_def select_prompt_journal)
  moreover have "\<forall>k. answer_at (stdin (snd p)) k = answer_at (stdin w) (Suc 0 + k)"
    unfolding p_def select_prompt_stdin by simp
  ultimately show ?case using c unfolding a by simp
next
  case (Suc n)
  let ?w = "log ''Invalid choice. Please try again.'' red (snd (select_prompt question options w))"
  have inv: "\<not> valid_choice options (answer_at (stdin w) 0)"
    using Suc.prems(2) by (metis zero_less_Suc)
  have sel: "select question options w = select question options ?w"
    using inv by (rule select_retry)
  have a: "\<And>k. answer_at (stdin ?w) k = answer_at (stdin w) (Suc k)"
    by (simp add: select_prompt_stdin)
  have "valid_choice options (answer_at (stdin ?w) n)"
    using Suc.prems(1) by (simp only: a)
  moreover have "\<forall>k<n. \<not> valid_choice options (answer_at (stdin ?w) k)"
    using Suc.prems(2) by (simp only: a) auto
  ultimately obtain c w' where c: "parseInt (answer_at (stdin ?w) n) = Some c"
      "1 \<le> c" "c \<le> int (length options)"
      "select question options ?w = Some (nat (c - 1), w')"
      "journal w' = journal ?w
              @ concat (map (\<lambda>k. rejecting question options (answer_at (stdin ?w) k)) [0..<n])
              @ asking question options (answer_at (stdin ?w) n)"
      "\<forall>k. answer_at (stdin w') k = answer_at (stdin ?w) (Suc n + k)"
    using Suc.IH[of ?w] by blast
  have j: "journal w' = journal w
              @ concat (map (\<lambda>k. rejecting question options (answer_at (stdin w) k)) [0..<Suc n])
              @ asking question options (answer_at (stdin w) (Suc n))"
    unfolding c(5) a rejected_world(1)
      upt_Suc_shift[of "\<lambda>k. rejecting question options (answer_at (stdin w) k)" n]
    by simp
  have r: "\<forall>k. answer_at (stdin w') k = answer_at (stdin w) (Suc (Suc n) + k)"
  proof
    fix k
    from c(6) have "answer_at (stdin w') k = answer_at (stdin ?w) (Suc n + k)" by (rule spec)
    also have "\<dots> = answer_at (stdin w) (Suc (Suc n + k))" by (rule a)
    finally show "answer_at (stdin w') k = answer_at (stdin w) (Suc (Suc n) + k)"
      by (simp only: add_Suc)
  qed
  from c(1) have "parseInt (answer_at (stdin w) (Suc n)) = Some c" by (simp only: a)
  with c(2,3,4) sel j r show ?case by simp
qed

lemma first_valid:
  assumes "valid_choice options (answer_at input k)"
  shows "\<exists>n. valid_choice options (answer_at input n)
            \<and> (\<forall>k<n. \<not> valid_choice options (answer_at input k))"
  using assms exists_least_iff[of "\<lambda>n. valid_choice options (answer_at input n)"] by blast

lemma select_result:
  assumes "select question options w = Some (i, w')"
  shows "i < length options
       \<and> (\<exists>n. parseInt (answer_at (stdin w) n) = Some (int i + 1)
              \<and> (\<forall>k<n. \<not> valid_choice options (answer_at (stdin w) k))
              \<and> journal w' = journal w
                   @ concat (map (\<lambda>k. rejecting question options (answer_at (stdin w) k)) [0..<n])
                   @ asking question options (answer_at (stdin w) n))"
proof -
  from select_some_valid[OF assms] obtain k where "valid_choice options (answer_at (stdin w) k)"
    by blast
  from first_valid[OF this] obtain n where n: "valid_choice options (answer_at (stdin w) n)"
      "\<forall>k<n. \<not> valid_choice options (answer_at (stdin w) k)"
    by blast
  from select_trace[OF n, of question] obtain c w'' where c:
      "parseInt (answer_at (stdin w) n) = Some c" "1 \<le> c" "c \<le> int (length options)"
      "select question options w = Some (nat (c - 1), w'')"
      "journal w'' = journal w
              @ concat (map (\<lambda>k. rejecting question options (answer_at (stdin w) k)) [0..<n])
              @ asking question options (answer_at (stdin w) n)"
    by blast
  from c(4) assms have i: "i = nat (c - 1)" and w: "w' = w''" by simp_all
  from i c(2,3) have "i < length options" "int i + 1 = c" by simp_all
  with c(1,5) n(2) w show ?thesis by blast
qed

text \<open>
  C3. \<open>select\<close> reads the answers of the input one by one, each parsed by \<open>parseInt\<close>.
  An answer that does not parse to an integer from 1 to the number of options is rejected,
  whatever the rest of the input is: after the question, the options and the answer, the
  message of rejection is printed and \<open>select\<close> goes on as \<open>select\<close> with the same
  question and options on the rest of the input. When the answer number \<open>n\<close> (from 0)
  is the first that parses to such an integer \<open>c\<close>, \<open>select\<close> resolves with \<open>c - 1\<close>,
  having rejected the \<open>n\<close> answers before it and asked again each time, and leaves the
  input after that answer. So whenever \<open>select\<close> resolves with \<open>i\<close>, then \<open>i\<close> is an
  index of the options and \<open>i + 1\<close> is what the first valid answer of the input parses to.
\<close>

theorem select_returns_valid_choice:
  "(\<not> valid_choice options (answer_at (stdin w) 0) \<longrightarrow>
      select question options w =
        select question options
          (log ''Invalid choice. Please try again.'' red (snd (select_prompt question options w)))
      \<and> journal (log ''Invalid choice. Please try again.'' red (snd (select_prompt question options w)))
          = journal w @ rejecting question options (answer_at (stdin w) 0)
      \<and> stdin (log ''Invalid choice. Please try again.'' red (snd (select_prompt question options w)))
          = snd (read_line (stdin w) []))
   \<and> (valid_choice options (answer_at (stdin w) n)
        \<and> (\<forall>k<n. \<not> valid_choice options (answer_at (stdin w) k)) \<longrightarrow>
        (\<exists>c w'. parseInt (answer_at (stdin w) n) = Some c \<and> 1 \<le> c \<and> c \<le> int (length options)
           \<and> select question options w = Some (nat (c - 1), w')
           \<and> journal w' = journal w
                @ concat (map (\<lambda>k. rejecting question options (answer_at (stdin w) k)) [0..<n])
                @ asking question options (answer_at (stdin w) n)
           \<and> (\<forall>k. answer_at (stdin w') k = answer_at (stdin w) (Suc n + k))))
   \<and> (\<forall>i w'. select question options w = Some (i, w') \<longrightarrow>
        i < length options \<and> 0 \<le> int i \<and> int i \<le> int (length options) - 1
        \<and> (\<exists>n. parseInt (answer_at (stdin w) n) = Some (int i + 1)
               \<and> (\<forall>k<n. \<not> valid_choice options (answer_at (stdin w) k))
               \<and> journal w' = journal w
                    @ concat (map (\<lambda>k. rejecting question options (answer_at (stdin w) k)) [0..<n])
                    @ asking question options (answer_at (stdin w) n)))"
proof (intro conjI impI allI)
  assume "\<not> valid_choice options (answer_at (stdin w) 0)"
  then show "select question options w =
        select question options
          (log ''Invalid choice. Please try again.'' red (snd (select_prompt question options w)))"
    by (rule select_retry)
next
  show "journal (log ''Invalid choice. Please try again.'' red (snd (select_prompt question options w)))
          = journal w @ rejecting question options (answer_at (stdin w) 0)"
    by (rule rejected_world(1))
next
  show "stdin (log ''Invalid choice. Please try again.'' red (snd (select_prompt question options w)))
          = snd (read_line (stdin w) [])"
    by (rule rejected_world(2))
next
  assume "valid_choice options (answer_at (stdin w) n)
        \<and> (\<forall>k<n. \<not> valid_choice options (answer_at (stdin w) k))"
  then have "valid_choice options (answer_at (stdin w) n)"
    "\<forall>k<n. \<not> valid_choice options (answer_at (stdin w) k)"
    by blast+
  then show "\<exists>c w'. parseInt (answer_at (stdin w) n) = Some c \<and> 1 \<le> c \<and> c \<le> int (length options)
           \<and> select question options w = Some (nat (c - 1), w')
           \<and> journal w' = journal w
                @ concat (map (\<lambda>k. rejecting question options (answer_at (stdin w) k)) [0..<n])
                @ asking question options (answer_at (stdin w) n)
           \<and> (\<forall>k. answer_at (stdin w') k = answer_at (stdin w) (Suc n + k))"
    by (rule select_trace)
next
  fix i w' assume s: "select question options w = Some (i, w')"
  from select_result[OF s] show "i < length options" by blast
  then show "0 \<le> int i" "int i \<le> int (length options) - 1" by simp_all
  from select_result[OF s]
  show "\<exists>n. parseInt (answer_at (stdin w) n) = Some (int i + 1)
               \<and> (\<forall>k<n. \<not> valid_choice options (answer_at (stdin w) k))
               \<and> journal w' = journal w
                    @ concat (map (\<lambda>k. rejecting question options (answer_at (stdin w) k)) [0..<n])
                    @ asking question options (answer_at (stdin w) n)"
    by blast
qed

lemma example_answers:
  "\<not> valid_choice [''a'', ''b'', ''c''] (answer_at [''x'' @ nl, ''7'', ''1'' @ cr @ nl, ''2'' @ nl] 0)"
  "\<not> valid_choice [''a'', ''b'', ''c''] (answer_at [''x'' @ nl, ''7'', ''1'' @ cr @ nl, ''2'' @ nl] 1)"
  "valid_choice [''a'', ''b'', ''c''] (answer_at [''x'' @ nl, ''7'', ''1'' @ cr @ nl, ''2'' @ nl] 2)"
  "parseInt (answer_at [''x'' @ nl, ''7'', ''1'' @ cr @ nl, ''2'' @ nl] 2) = Some 2"
  by code_simp+

lemma example_answers_read:
  "answer_at [''x'' @ nl, ''7'', ''1'' @ cr @ nl, ''2'' @ nl] 0 = ''x''"
  "answer_at [''x'' @ nl, ''7'', ''1'' @ cr @ nl, ''2'' @ nl] (Suc 0) = ''71''"
  "answer_at [''x'' @ nl, ''7'', ''1'' @ cr @ nl, ''2'' @ nl] 2 = ''2''"
  "snd (read_line [''x'' @ nl, ''7'', ''1'' @ cr @ nl, ''2'' @ nl] []) = [''7'', ''1'' @ cr @ nl, ''2'' @ nl]"
  by code_simp+

theorem select_returns_valid_choice_witness:
  "select ''Q?'' [''a'', ''b'', ''c''] (bare_world [''x'' @ nl, ''7'', ''1'' @ cr @ nl, ''2'' @ nl])
     = select ''Q?'' [''a'', ''b'', ''c'']
         (log ''Invalid choice. Please try again.'' red
            (snd (select_prompt ''Q?'' [''a'', ''b'', ''c''] (bare_world [''x'' @ nl, ''7'', ''1'' @ cr @ nl, ''2'' @ nl]))))
   \<and> stdin (log ''Invalid choice. Please try again.'' red
              (snd (select_prompt ''Q?'' [''a'', ''b'', ''c''] (bare_world [''x'' @ nl, ''7'', ''1'' @ cr @ nl, ''2'' @ nl]))))
        = [''7'', ''1'' @ cr @ nl, ''2'' @ nl]
   \<and> (\<exists>w'. select ''Q?'' [''a'', ''b'', ''c''] (bare_world [''x'' @ nl, ''7'', ''1'' @ cr @ nl, ''2'' @ nl]) = Some (1, w')
          \<and> journal w' = rejecting ''Q?'' [''a'', ''b'', ''c''] ''x''
                           @ rejecting ''Q?'' [''a'', ''b'', ''c''] ''71''
                           @ asking ''Q?'' [''a'', ''b'', ''c''] ''2''
          \<and> (1::nat) < length [''a'', ''b'', ''c''])"
proof -
  let ?w = "bare_world [''x'' @ nl, ''7'', ''1'' @ cr @ nl, ''2'' @ nl]"
  let ?o = "[''a'', ''b'', ''c'']"
  have i0: "\<not> valid_choice ?o (answer_at (stdin ?w) 0)"
    using example_answers(1) by simp
  have v: "valid_choice ?o (answer_at (stdin ?w) 2)"
    using example_answers(3) by simp
  have nv: "\<forall>k<2. \<not> valid_choice ?o (answer_at (stdin ?w) k)"
    using example_answers(1,2) by (auto simp: less_Suc_eq numeral_2_eq_2)
  have p: "parseInt (answer_at (stdin ?w) 2) = Some 2"
    using example_answers(4) by simp
  note t = select_returns_valid_choice[where options = ?o and w = ?w and n = 2 and question = "''Q?''"]
  from t i0 have 1: "select ''Q?'' ?o ?w
     = select ''Q?'' ?o (log ''Invalid choice. Please try again.'' red (snd (select_prompt ''Q?'' ?o ?w)))"
    and 2: "stdin (log ''Invalid choice. Please try again.'' red (snd (select_prompt ''Q?'' ?o ?w)))
        = snd (read_line (stdin ?w) [])"
    by blast+
  from t v nv obtain c w' where c: "parseInt (answer_at (stdin ?w) 2) = Some c"
    "select ''Q?'' ?o ?w = Some (nat (c - 1), w')"
    "journal w' = journal ?w
       @ concat (map (\<lambda>k. rejecting ''Q?'' ?o (answer_at (stdin ?w) k)) [0..<2])
       @ asking ''Q?'' ?o (answer_at (stdin ?w) 2)"
    by blast
  from c(1) p have c2: "c = 2" by simp
  have st: "stdin ?w = [''x'' @ nl, ''7'', ''1'' @ cr @ nl, ''2'' @ nl]"
    by (rule stdin_bare_world)
  have u: "[0..<2] = [0, Suc 0]" by (simp add: numeral_2_eq_2)
  from c(3) have "journal w' = []
       @ concat (map (\<lambda>k. rejecting ''Q?'' ?o (answer_at [''x'' @ nl, ''7'', ''1'' @ cr @ nl, ''2'' @ nl] k)) [0, Suc 0])
       @ asking ''Q?'' ?o (answer_at [''x'' @ nl, ''7'', ''1'' @ cr @ nl, ''2'' @ nl] 2)"
    by (simp only: st u journal_bare_world)
  then have j: "journal w' = rejecting ''Q?'' ?o ''x'' @ rejecting ''Q?'' ?o ''71'' @ asking ''Q?'' ?o ''2''"
    by (simp only: list.map concat.simps append_Nil append_Nil2 append_assoc example_answers_read)
  from 2 have 2: "stdin (log ''Invalid choice. Please try again.'' red (snd (select_prompt ''Q?'' ?o ?w)))
        = [''7'', ''1'' @ cr @ nl, ''2'' @ nl]"
    by (simp only: st example_answers_read(4))
  from c(2) c2 have s: "select ''Q?'' ?o ?w = Some (1, w')" by simp
  from t s have "(1::nat) < length ?o" by blast
  with 1 2 s j show ?thesis by blast
qed

text \<open>
  C8. If the answer number \<open>n\<close> (counted from 0) is the first that parses to an integer
  from 1 to the number of options, \<open>select\<close> resolves with that integer less one, after
  reading exactly \<open>n + 1\<close> answers; if no answer ever does, \<open>select\<close> never resolves.
\<close>

theorem select_resolves_at_first_valid_answer:
  "(valid_choice options (answer_at (stdin w) n)
      \<and> (\<forall>k<n. \<not> valid_choice options (answer_at (stdin w) k))
    \<longrightarrow> (\<exists>c w'. parseInt (answer_at (stdin w) n) = Some c
                \<and> select question options w = Some (nat (c - 1), w')
                \<and> asked w' = asked w + Suc n))
   \<and> ((\<forall>k. \<not> valid_choice options (answer_at (stdin w) k))
        \<longrightarrow> select question options w = None)"
  using select_resolves[of options w n question] select_diverges[of options w question]
  by blast

lemma answer_at_end: "answer_at [] k = []"
proof (induction k)
  case 0
  show ?case by code_simp
next
  case (Suc k)
  then show ?case by simp
qed

lemma invalid_empty_answer: "\<not> valid_choice options []"
proof -
  have "parseInt [] = None" by code_simp
  then show ?thesis by (simp add: valid_choice_def)
qed

theorem select_resolves_at_first_valid_answer_witness:
  "(\<exists>w'. select ''Q?'' [''a'', ''b'', ''c''] (bare_world [''x'' @ nl, ''7'', ''1'' @ cr @ nl, ''2'' @ nl]) = Some (1, w')
         \<and> asked w' = asked (bare_world [''x'' @ nl, ''7'', ''1'' @ cr @ nl, ''2'' @ nl]) + 3)
   \<and> select ''Q?'' [''a'', ''b'', ''c''] (bare_world []) = None"
proof -
  let ?w = "bare_world [''x'' @ nl, ''7'', ''1'' @ cr @ nl, ''2'' @ nl]"
  have v: "valid_choice [''a'', ''b'', ''c''] (answer_at (stdin ?w) 2)"
    using example_answers(3) by simp
  have nv: "\<forall>k<2. \<not> valid_choice [''a'', ''b'', ''c''] (answer_at (stdin ?w) k)"
    using example_answers(1,2) by (auto simp: less_Suc_eq numeral_2_eq_2)
  have p: "parseInt (answer_at (stdin ?w) 2) = Some 2"
    using example_answers(4) by simp
  have never: "\<forall>k. \<not> valid_choice [''a'', ''b'', ''c''] (answer_at (stdin (bare_world [])) k)"
    by (simp add: answer_at_end invalid_empty_answer)
  from select_resolves_at_first_valid_answer[of "[''a'', ''b'', ''c'']" ?w 2 "''Q?''"] v nv p
  have "\<exists>w'. select ''Q?'' [''a'', ''b'', ''c''] ?w = Some (1, w') \<and> asked w' = asked ?w + 3"
    by auto
  moreover from select_resolves_at_first_valid_answer[of "[''a'', ''b'', ''c'']" "bare_world []" 0 "''Q?''"] never
  have "select ''Q?'' [''a'', ''b'', ''c''] (bare_world []) = None"
    by blast
  ultimately show ?thesis by blast
qed

subsection \<open>addTomlToGitignore\<close>

lemma replace_absent: "\<not> str_includes s p \<Longrightarrow> replace s p r = s"
  by (induction s) auto

lemma gitignore_no_toml: "\<not> str_includes gitignore ''shopify.theme.toml''"
  by code_simp

lemma gitignore_sections:
  "gitignore = unlines (gitignore_before @ [''# Shopify theme files'', ''config/settings_data.json''] @ gitignore_after)"
  unfolding gitignore_def gitignore_before_def gitignore_after_def by simp

lemma gitignore_secured:
  "replace gitignore (''# Shopify theme files'' @ nl @ ''config/settings_data.json'')
       (''# Shopify theme files'' @ nl @ ''config/settings_data.json'' @ nl @ ''shopify.theme.toml'')
   = unlines (gitignore_before @ [''# Shopify theme files'', ''config/settings_data.json'', ''shopify.theme.toml'']
              @ gitignore_after)"
  by code_simp

lemma gitignore_secured_has_toml:
  "str_includes (unlines (gitignore_before @ [''# Shopify theme files'', ''config/settings_data.json'', ''shopify.theme.toml'']
              @ gitignore_after)) ''shopify.theme.toml''"
  by code_simp


lemma addTomlToGitignore_run:
  assumes nf: "\<forall>k. \<not> fault w k" and c: "files w ''.gitignore'' = Some content"
  shows "\<exists>w1. addTomlToGitignore w = Ok () w1 \<and> fault w1 = fault w
           \<and> (if str_includes content ''shopify.theme.toml''
               then files w1 = files w
               else files w1 = (files w)(''.gitignore'' \<mapsto>
                                  replace content (''# Shopify theme files'' @ nl @ ''config/settings_data.json'')
                                    (''# Shopify theme files'' @ nl @ ''config/settings_data.json'' @ nl @ ''shopify.theme.toml''))
                    \<and> WriteFile ''.gitignore''
                         (replace content (''# Shopify theme files'' @ nl @ ''config/settings_data.json'')
                            (''# Shopify theme files'' @ nl @ ''config/settings_data.json'' @ nl @ ''shopify.theme.toml''))
                         True \<in> set (journal w1))"
proof -
  define w0 where "w0 = header ''Securing shopify.theme.toml'' w"
  have f0: "fault w0 = fault w" and c0: "files w0 ''.gitignore'' = Some content" and fs0: "files w0 = files w"
    by (simp_all add: w0_def c)
  have r: "readFile ''.gitignore'' w0 = Ok content (record_event (ReadFile ''.gitignore'' True) w0)"
    using readFile_ok[OF c0] nf f0 by simp
  define w1 where "w1 = record_event (ReadFile ''.gitignore'' True) w0"
  have f1: "fault w1 = fault w" and fs1: "files w1 = files w"
    by (simp_all add: w1_def f0 fs0)
  show ?thesis
  proof (cases "str_includes content ''shopify.theme.toml''")
    case True
    then show ?thesis
      unfolding addTomlToGitignore_def Let_def w0_def[symmetric] r
      by (simp add: w1_def[symmetric] f1 fs1)
  next
    case False
    have wr: "\<And>x. writeFile ''.gitignore'' x w1
        = Ok () (record_event (WriteFile ''.gitignore'' x True) (w1\<lparr>files := (files w1)(''.gitignore'' \<mapsto> x)\<rparr>))"
      using writeFile_ok[of w1] nf f1 by simp
    from False show ?thesis
      unfolding addTomlToGitignore_def Let_def w0_def[symmetric] r
      by (simp add: w1_def[symmetric] wr f1 fs1)
  qed
qed

lemma createGitIgnore_run:
  assumes "\<forall>k. \<not> fault w k"
  shows "\<exists>w0. createGitIgnore w = Ok () w0 \<and> fault w0 = fault w
           \<and> files w0 = (files w)(''.gitignore'' \<mapsto> gitignore)"
  using assms by (simp add: createGitIgnore_def Let_def writeFile_def)

text \<open>
  C10. In an environment where the file system calls do not fail: \<open>createGitIgnore\<close>
  writes the text \<open>gitignore\<close>, whose Shopify section is the two lines
  \<^verbatim>\<open># Shopify theme files\<close> and \<^verbatim>\<open>config/settings_data.json\<close>; run on the files it has left,
  \<open>addTomlToGitignore\<close> writes the same text with the line \<^verbatim>\<open>shopify.theme.toml\<close> right
  after \<^verbatim>\<open>config/settings_data.json\<close>, and run again on its own result it leaves the files
  as they are; on a \<^verbatim>\<open>.gitignore\<close> that has neither the two lines of the section nor
  \<^verbatim>\<open>shopify.theme.toml\<close>, it writes the file back with the content it had.
\<close>

theorem addTomlToGitignore_after_createGitIgnore:
  assumes "\<forall>k. \<not> fault w k"
  shows "(\<exists>w0. createGitIgnore w = Ok () w0
            \<and> files w0 = (files w)(''.gitignore'' \<mapsto> gitignore)
            \<and> (\<exists>w1. addTomlToGitignore w0 = Ok () w1
                  \<and> files w1 = (files w)(''.gitignore'' \<mapsto>
                       unlines (gitignore_before
                                @ [''# Shopify theme files'', ''config/settings_data.json'', ''shopify.theme.toml'']
                                @ gitignore_after))
                  \<and> (\<exists>w2. addTomlToGitignore w1 = Ok () w2 \<and> files w2 = files w1)))
    \<and> gitignore = unlines (gitignore_before @ [''# Shopify theme files'', ''config/settings_data.json'']
                            @ gitignore_after)
    \<and> (\<forall>content.
          files w ''.gitignore'' = Some content
          \<and> \<not> str_includes content (''# Shopify theme files'' @ nl @ ''config/settings_data.json'')
          \<and> \<not> str_includes content ''shopify.theme.toml'' \<longrightarrow>
          (\<exists>w1. addTomlToGitignore w = Ok () w1
             \<and> WriteFile ''.gitignore'' content True \<in> set (journal w1)
             \<and> files w1 = (files w)(''.gitignore'' \<mapsto> content)))"
proof (intro conjI allI impI)
  let ?secured = "unlines (gitignore_before
                 @ [''# Shopify theme files'', ''config/settings_data.json'', ''shopify.theme.toml'']
                 @ gitignore_after)"
  from createGitIgnore_run[OF assms] obtain w0 where
    w0: "createGitIgnore w = Ok () w0" "fault w0 = fault w"
        "files w0 = (files w)(''.gitignore'' \<mapsto> gitignore)"
    by blast
  have nf0: "\<forall>k. \<not> fault w0 k" using assms w0(2) by simp
  have g: "files w0 ''.gitignore'' = Some gitignore" using w0(3) by simp
  from addTomlToGitignore_run[OF nf0 g] gitignore_no_toml obtain w1 where
    w1: "addTomlToGitignore w0 = Ok () w1" "fault w1 = fault w0"
        "files w1 = (files w0)(''.gitignore'' \<mapsto> ?secured)"
    by (auto simp only: gitignore_secured if_False)
  have nf1: "\<forall>k. \<not> fault w1 k" using nf0 w1(2) by simp
  have g1: "files w1 ''.gitignore'' = Some ?secured" using w1(3) by simp
  have fs1: "files w1 = (files w)(''.gitignore'' \<mapsto> ?secured)"
    unfolding w1(3) w0(3) by (rule fun_upd_upd)
  from addTomlToGitignore_run[OF nf1 g1] gitignore_secured_has_toml obtain w2 where
    "addTomlToGitignore w1 = Ok () w2" "files w2 = files w1"
    by (auto simp only: if_True)
  with w0 w1 fs1 show "\<exists>w0. createGitIgnore w = Ok () w0
            \<and> files w0 = (files w)(''.gitignore'' \<mapsto> gitignore)
            \<and> (\<exists>w1. addTomlToGitignore w0 = Ok () w1
                  \<and> files w1 = (files w)(''.gitignore'' \<mapsto> ?secured)
                  \<and> (\<exists>w2. addTomlToGitignore w1 = Ok () w2 \<and> files w2 = files w1))"
    by blast
next
  show "gitignore = unlines (gitignore_before @ [''# Shopify theme files'', ''config/settings_data.json'']
                            @ gitignore_after)"
    by (rule gitignore_sections)
next
  fix content
  assume a: "files w ''.gitignore'' = Some content
          \<and> \<not> str_includes content (''# Shopify theme files'' @ nl @ ''config/settings_data.json'')
          \<and> \<not> str_includes content ''shopify.theme.toml''"
  then have c: "files w ''.gitignore'' = Some content"
    and nb: "\<not> str_includes content (''# Shopify theme files'' @ nl @ ''config/settings_data.json'')"
    and nt: "\<not> str_includes content ''shopify.theme.toml''"
    by blast+
  from addTomlToGitignore_run[OF assms c] nt obtain w1 where
    "addTomlToGitignore w = Ok () w1"
    "files w1 = (files w)(''.gitignore'' \<mapsto>
                   replace content (''# Shopify theme files'' @ nl @ ''config/settings_data.json'')
                     (''# Shopify theme files'' @ nl @ ''config/settings_data.json'' @ nl @ ''shopify.theme.toml''))"
    "WriteFile ''.gitignore''
        (replace content (''# Shopify theme files'' @ nl @ ''config/settings_data.json'')
           (''# Shopify theme files'' @ nl @ ''config/settings_data.json'' @ nl @ ''shopify.theme.toml''))
        True \<in> set (journal w1)"
    by (auto simp only: if_False)
  then show "\<exists>w1. addTomlToGitignore w = Ok () w1
             \<and> WriteFile ''.gitignore'' content True \<in> set (journal w1)
             \<and> files w1 = (files w)(''.gitignore'' \<mapsto> content)"
    by (auto simp only: replace_absent[OF nb])
qed

theorem addTomlToGitignore_after_createGitIgnore_witness:
  "(\<exists>w0. createGitIgnore (bare_world []) = Ok () w0
        \<and> files w0 ''.gitignore'' = Some gitignore
        \<and> (\<exists>w1. addTomlToGitignore w0 = Ok () w1
              \<and> files w1 ''.gitignore'' =
                  Some (unlines (gitignore_before
                         @ [''# Shopify theme files'', ''config/settings_data.json'', ''shopify.theme.toml'']
                         @ gitignore_after))
              \<and> (\<exists>w2. addTomlToGitignore w1 = Ok () w2 \<and> files w2 = files w1)))
   \<and> (\<exists>w1. addTomlToGitignore ((bare_world [])\<lparr>files := [''.gitignore'' \<mapsto> ''node_modules/'' @ nl]\<rparr>) = Ok () w1
        \<and> files w1 ''.gitignore'' = Some (''node_modules/'' @ nl))"
proof -
  let ?w = "bare_world []"
  let ?v = "(bare_world [])\<lparr>files := [''.gitignore'' \<mapsto> ''node_modules/'' @ nl]\<rparr>"
  let ?secured = "unlines (gitignore_before
                 @ [''# Shopify theme files'', ''config/settings_data.json'', ''shopify.theme.toml'']
                 @ gitignore_after)"
  have nfw: "\<forall>k. \<not> fault ?w k" and nfv: "\<forall>k. \<not> fault ?v k"
    by (simp_all add: bare_world_def)
  have gv: "files ?v ''.gitignore'' = Some (''node_modules/'' @ nl)" by simp
  have nb: "\<not> str_includes (''node_modules/'' @ nl) (''# Shopify theme files'' @ nl @ ''config/settings_data.json'')"
    and nt: "\<not> str_includes (''node_modules/'' @ nl) ''shopify.theme.toml''"
    by code_simp+
  from addTomlToGitignore_after_createGitIgnore[OF nfw]
  obtain w0 w1 w2 where
    a: "createGitIgnore ?w = Ok () w0" "files w0 = (files ?w)(''.gitignore'' \<mapsto> gitignore)"
       "addTomlToGitignore w0 = Ok () w1" "files w1 = (files ?w)(''.gitignore'' \<mapsto> ?secured)"
       "addTomlToGitignore w1 = Ok () w2" "files w2 = files w1"
    by blast
  have "files w0 ''.gitignore'' = Some gitignore" "files w1 ''.gitignore'' = Some ?secured"
    unfolding a(2) a(4) by (rule fun_upd_same)+
  with a have 1: "\<exists>w0. createGitIgnore ?w = Ok () w0
        \<and> files w0 ''.gitignore'' = Some gitignore
        \<and> (\<exists>w1. addTomlToGitignore w0 = Ok () w1
              \<and> files w1 ''.gitignore'' = Some ?secured
              \<and> (\<exists>w2. addTomlToGitignore w1 = Ok () w2 \<and> files w2 = files w1))"
    by blast
  from addTomlToGitignore_after_createGitIgnore[OF nfv] gv nb nt
  have "\<exists>w1. addTomlToGitignore ?v = Ok () w1
             \<and> WriteFile ''.gitignore'' (''node_modules/'' @ nl) True \<in> set (journal w1)
             \<and> files w1 = (files ?v)(''.gitignore'' \<mapsto> ''node_modules/'' @ nl)"
    by blast
  then have 2: "\<exists>w1. addTomlToGitignore ?v = Ok () w1 \<and> files w1 ''.gitignore'' = Some (''node_modules/'' @ nl)"
    by (metis fun_upd_same)
  from 1 2 show ?thesis by blast
qed

subsection \<open>Searching and trimming\<close>

lemma str_includes_sublist: "str_includes s p \<longleftrightarrow> sublist p s"
  by (induction s) (simp_all add: sublist_Cons_right)

lemma ws_len_zero:
  assumes "[] \<notin> set pats"
  shows "ws_len pats s = 0 \<longleftrightarrow> (\<forall>p \<in> set pats. \<not> prefix p s)"
proof (cases "find (\<lambda>p. prefix p s) pats")
  case None
  then have "\<forall>p \<in> set pats. \<not> prefix p s" by (simp add: find_None_iff)
  then show ?thesis by (simp add: ws_len_def None)
next
  case (Some q)
  then have q: "q \<in> set pats" "prefix q s" by (auto simp: find_Some_iff)
  with assms have "q \<noteq> []" by auto
  with Some q show ?thesis by (auto simp: ws_len_def)
qed

lemma ws_len_pos:
  assumes "ws_len pats s \<noteq> 0"
  obtains p where "p \<in> set pats" "s = p @ drop (ws_len pats s) s"
proof -
  from assms obtain p where f: "find (\<lambda>p. prefix p s) pats = Some p" and l: "length p = ws_len pats s"
    by (auto simp: ws_len_def split: option.splits)
  from f have "p \<in> set pats" "prefix p s"
    by (auto simp: find_Some_iff)
  then have "s = p @ drop (length p) s"
    by (auto simp: prefix_def)
  with \<open>p \<in> set pats\<close> l that show ?thesis by simp
qed

lemma strip_fixed: "ws_len pats s = 0 \<Longrightarrow> strip pats s = s"
  by (simp add: strip.simps)

lemma ws_len_strip: "ws_len pats (strip pats s) = 0"
proof (induction pats s rule: strip.induct)
  case (1 pats s)
  show ?case
  proof (cases "ws_len pats s = 0")
    case True
    then show ?thesis by (simp add: strip_fixed)
  next
    case False
    with 1 show ?thesis by (subst strip.simps) simp
  qed
qed

lemma strip_idem: "strip pats (strip pats s) = strip pats s"
  by (rule strip_fixed) (rule ws_len_strip)

lemma suffix_strip: "suffix (strip pats s) s"
proof (induction pats s rule: strip.induct)
  case (1 pats s)
  show ?case
  proof (cases "ws_len pats s = 0")
    case True
    then show ?thesis by (simp add: strip_fixed)
  next
    case False
    with 1 have "suffix (strip pats (drop (ws_len pats s) s)) (drop (ws_len pats s) s)"
      by simp
    then have "suffix (strip pats (drop (ws_len pats s) s)) s"
      by (meson suffix_drop suffix_order.trans)
    with False show ?thesis by (subst strip.simps) simp
  qed
qed

lemma sublist_skip:
  "sublist p (a @ b) \<Longrightarrow> p \<noteq> [] \<Longrightarrow> hd p \<notin> set a \<Longrightarrow> sublist p b"
proof (induction a)
  case Nil
  then show ?case by simp
next
  case (Cons x a)
  from Cons.prems(1) have "prefix p (x # a @ b) \<or> sublist p (a @ b)"
    by (simp add: sublist_Cons_right)
  then show ?case
  proof
    assume "prefix p (x # a @ b)"
    with Cons.prems(2) have "hd p = x" by (cases p) auto
    with Cons.prems(3) show ?thesis by simp
  next
    assume "sublist p (a @ b)"
    with Cons show ?thesis by simp
  qed
qed

lemma sublist_strip:
  "p \<noteq> [] \<Longrightarrow> \<forall>q \<in> set pats. hd p \<notin> set q \<Longrightarrow> sublist p s \<Longrightarrow> sublist p (strip pats s)"
proof (induction pats s rule: strip.induct)
  case (1 pats s)
  show ?case
  proof (cases "ws_len pats s = 0")
    case True
    with 1 show ?thesis by (simp add: strip_fixed)
  next
    case False
    then obtain q where q: "q \<in> set pats" "s = q @ drop (ws_len pats s) s"
      by (rule ws_len_pos)
    from 1(3) q(1) have "hd p \<notin> set q" by blast
    moreover from 1(4) q(2) have "sublist p (q @ drop (ws_len pats s) s)" by simp
    ultimately have "sublist p (drop (ws_len pats s) s)"
      using sublist_skip 1(2) by blast
    with 1(1)[OF False 1(2) 1(3)] have "sublist p (strip pats (drop (ws_len pats s) s))"
      by simp
    with False show ?thesis by (subst strip.simps) simp
  qed
qed

lemma no_empty_white_space: "[] \<notin> set white_space" "[] \<notin> set (map rev white_space)"
  by (simp_all add: white_space_def)

lemma trimStart_fixed: "ws_len white_space s = 0 \<Longrightarrow> trimStart s = s"
  by (simp add: trimStart_def strip_fixed)

lemma ws_len_trimStart: "ws_len white_space (trimStart s) = 0"
  by (simp add: trimStart_def ws_len_strip)

lemma prefix_trimEnd: "prefix (trimEnd s) s"
proof -
  have "suffix (strip (map rev white_space) (rev s)) (rev s)" by (rule suffix_strip)
  then show ?thesis
    unfolding trimEnd_def by (simp add: suffix_to_prefix)
qed

lemma trimEnd_idem: "trimEnd (trimEnd s) = trimEnd s"
  by (simp add: trimEnd_def strip_idem)

lemma ws_len_trim: "ws_len white_space (trim s) = 0"
proof -
  have "\<forall>p \<in> set white_space. \<not> prefix p (trimStart s)"
    using ws_len_trimStart[of s] by (simp add: ws_len_zero[OF no_empty_white_space(1)])
  then have "\<forall>p \<in> set white_space. \<not> prefix p (trimEnd (trimStart s))"
    using prefix_trimEnd[of "trimStart s"] by (meson prefix_order.trans)
  then show ?thesis
    by (simp add: trim_def ws_len_zero[OF no_empty_white_space(1)])
qed

lemma trim_idem: "trim (trim s) = trim s"
proof -
  have "trimStart (trim s) = trim s"
    by (rule trimStart_fixed) (rule ws_len_trim)
  then show ?thesis
    by (simp add: trim_def[of "trim s"]) (simp add: trim_def trimEnd_idem)
qed

lemma trim_empty: "trim [] = []"
  by code_simp

text \<open>A text without white space at its ends is what \<open>trim\<close> leaves of it.\<close>

lemma trim_fixed:
  assumes "ws_len white_space s = 0" and "ws_len (map rev white_space) (rev s) = 0"
  shows "trim s = s"
  using assms by (simp add: trim_def trimStart_fixed trimEnd_def strip_fixed)

lemma ws_len_rev_trim: "ws_len (map rev white_space) (rev (trim s)) = 0"
  by (simp add: trim_def trimEnd_def ws_len_strip)

text \<open>
  Appending a text that starts and ends with a character that is in no white space to a
  trimmed text that is not empty gives a trimmed text.
\<close>

lemma trim_append_solid:
  assumes a: "trim a = a" "a \<noteq> []"
    and q: "q \<noteq> []" "\<forall>p \<in> set white_space. hd q \<notin> set p \<and> last q \<notin> set p"
  shows "trim (a @ q) = a @ q"
proof (rule trim_fixed)
  have a0: "\<forall>p \<in> set white_space. \<not> prefix p a"
    using ws_len_trim[of a] a(1) by (simp add: ws_len_zero[OF no_empty_white_space(1)])
  have "\<forall>p \<in> set white_space. \<not> prefix p (a @ q)"
  proof (intro ballI notI)
    fix p assume p: "p \<in> set white_space" "prefix p (a @ q)"
    from p(2) have "prefix p a \<or> (\<exists>r. r \<noteq> [] \<and> prefix r q \<and> p = a @ r)"
      by (auto simp: prefix_append)
    then show False
    proof
      assume "prefix p a" with a0 p(1) show False by blast
    next
      assume "\<exists>r. r \<noteq> [] \<and> prefix r q \<and> p = a @ r"
      then obtain r where r: "r \<noteq> []" "prefix r q" "p = a @ r" by blast
      then have "hd r = hd q" by (cases r; cases q) auto
      with r have "hd q \<in> set p" by (cases r) auto
      with q(2) p(1) show False by blast
    qed
  qed
  then show "ws_len white_space (a @ q) = 0"
    by (simp add: ws_len_zero[OF no_empty_white_space(1)])
next
  have "\<forall>p \<in> set (map rev white_space). \<not> prefix p (rev (a @ q))"
  proof (intro ballI notI)
    fix p assume p: "p \<in> set (map rev white_space)" "prefix p (rev (a @ q))"
    then obtain p' where p': "p' \<in> set white_space" "p = rev p'" by auto
    with no_empty_white_space(1) have "p \<noteq> []" by auto
    from q(1) obtain q' x where qx: "q = q' @ [x]" by (cases q rule: rev_cases) auto
    then have lx: "last q = x" by simp
    from qx have "rev (a @ q) = x # rev q' @ rev a" by simp
    with p(2) obtain p'' where "p = x # p''"
      using \<open>p \<noteq> []\<close> by (cases p) auto
    with lx have "last q \<in> set p" by simp
    with p' q(2) show False by auto
  qed
  then show "ws_len (map rev white_space) (rev (a @ q)) = 0"
    by (simp add: ws_len_zero[OF no_empty_white_space(2)])
qed

lemma myshopify_solid:
  "\<forall>p \<in> set white_space. hd ''.myshopify.com'' \<notin> set p \<and> last ''.myshopify.com'' \<notin> set p"
  by (simp add: white_space_def)

lemma normalize_store_url_trimmed:
  assumes "trim entered = entered"
  shows "or_default (trim (normalize_store_url entered)) [] =
           (if entered = [] then []
            else if str_includes entered ''.myshopify.com'' then entered
            else entered @ ''.myshopify.com'')"
proof (cases "entered = []")
  case True
  then show ?thesis by (simp add: normalize_store_url_def or_default_def trim_empty)
next
  case ne: False
  show ?thesis
  proof (cases "str_includes entered ''.myshopify.com''")
    case True
    with ne assms show ?thesis by (simp add: normalize_store_url_def or_default_def)
  next
    case False
    then have "\<not> suffix ''.myshopify.com'' entered"
      by (auto simp: str_includes_sublist)
    then have n: "normalize_store_url entered = entered @ ''.myshopify.com''"
      using ne False by (simp add: normalize_store_url_def remove_suffix_def)
    have "trim (entered @ ''.myshopify.com'') = entered @ ''.myshopify.com''"
      by (rule trim_append_solid[OF assms ne _ myshopify_solid]) simp
    with ne False n show ?thesis by (simp add: or_default_def)
  qed
qed

subsection \<open>Going forward through the input\<close>

lemma answers_simps [simp]:
  "answers [] = []"
  "answers (Answered a # es) = a # answers es"
  "answers (Print s # es) = answers es"
  "answers (PrintError e # es) = answers es"
  "answers (ReadFile p b # es) = answers es"
  "answers (WriteFile p c b # es) = answers es"
  "answers (Mkdir p b # es) = answers es"
  "answers (Run argv b # es) = answers es"
  "answers (Enter n # es) = answers es"
  "answers (Leave n # es) = answers es"
  "answers (es @ es') = answers es @ answers es'"
  by (simp_all add: answers_def)

lemma forward_by_refl: "forward_by w [] w"
  by (simp add: forward_by_def)

lemma map_upt_shift: "map (\<lambda>k. f (n + k)) [0..<m] = map f [n..<n + m]"
  by (induction m) simp_all

lemma forward_by_trans:
  assumes "forward_by w es w1" "forward_by w1 es' w2"
  shows "forward_by w (es @ es') w2"
proof -
  let ?n = "length (answers es)" and ?m = "length (answers es')"
  from assms have j: "journal w2 = journal w @ es @ es'"
    by (simp add: forward_by_def)
  from assms(1) have a1: "answers es = map (answer_at (stdin w)) [0..<?n]"
    and s1: "\<And>k. answer_at (stdin w1) k = answer_at (stdin w) (?n + k)"
    by (simp_all add: forward_by_def)
  from assms(2) have a2: "answers es' = map (answer_at (stdin w1)) [0..<?m]"
    and s2: "\<And>k. answer_at (stdin w2) k = answer_at (stdin w1) (?m + k)"
    by (simp_all add: forward_by_def)
  have "map (answer_at (stdin w1)) [0..<?m] = map (\<lambda>k. answer_at (stdin w) (?n + k)) [0..<?m]"
    by (intro map_ext allI impI s1)
  also have "\<dots> = map (answer_at (stdin w)) [?n..<?n + ?m]"
    by (rule map_upt_shift)
  finally have a2': "answers es' = map (answer_at (stdin w)) [?n..<?n + ?m]"
    using a2 by simp
  have "map (answer_at (stdin w)) [0..<?n + ?m]
      = map (answer_at (stdin w)) [0..<?n] @ map (answer_at (stdin w)) [?n..<?n + ?m]"
    by (simp only: upt_add_eq_append[OF le0] map_append)
  with a1 a2' have a: "answers (es @ es') = map (answer_at (stdin w)) [0..<length (answers (es @ es'))]"
    by simp
  have s: "\<forall>k. answer_at (stdin w2) k = answer_at (stdin w) (length (answers (es @ es')) + k)"
    by (simp add: s2 s1 add.assoc)
  from j a s show ?thesis unfolding forward_by_def by blast
qed

lemma forward_refl [simp]: "forward w w"
  unfolding forward_def using forward_by_refl by blast

lemma forward_trans: "forward w w1 \<Longrightarrow> forward w1 w2 \<Longrightarrow> forward w w2"
  unfolding forward_def using forward_by_trans by blast

lemma forward_silent:
  assumes "journal w' = journal w @ es" "answers es = []" "stdin w' = stdin w"
  shows "forward w w'"
  unfolding forward_def forward_by_def using assms by (intro exI[of _ es]) simp

lemma forward_by_prompt:
  "forward_by w [Print (yellow @ q @ reset), Answered (fst (prompt q w))] (snd (prompt q w))"
  unfolding forward_by_def by simp

lemma forward_prompt: "forward w (snd (prompt q w))"
  unfolding forward_def using forward_by_prompt by blast

lemma answers_asking [simp]: "answers (asking question options a) = [a]"
  by (simp add: asking_def answers_def comp_def case_prod_beta)

lemma answers_rejecting [simp]: "answers (rejecting question options a) = [a]"
  by (simp add: rejecting_def)

lemma answers_rejected:
  "answers (concat (map (\<lambda>k. rejecting question options (f k)) ks)) = map f ks"
  by (induction ks) simp_all

lemma forward_select:
  assumes "select question options w = Some (i, w')"
  shows "forward w w'"
proof -
  from select_some_valid[OF assms] obtain k where "valid_choice options (answer_at (stdin w) k)"
    by blast
  from first_valid[OF this] obtain n where n: "valid_choice options (answer_at (stdin w) n)"
      "\<forall>k<n. \<not> valid_choice options (answer_at (stdin w) k)"
    by blast
  from select_trace[OF n, of question] assms obtain c where
      j: "journal w' = journal w
              @ concat (map (\<lambda>k. rejecting question options (answer_at (stdin w) k)) [0..<n])
              @ asking question options (answer_at (stdin w) n)"
      and s: "\<forall>k. answer_at (stdin w') k = answer_at (stdin w) (Suc n + k)"
    by auto
  let ?es = "concat (map (\<lambda>k. rejecting question options (answer_at (stdin w) k)) [0..<n])
              @ asking question options (answer_at (stdin w) n)"
  have a: "answers ?es = map (answer_at (stdin w)) [0..<Suc n]"
    by (simp add: answers_rejected)
  then have l: "length (answers ?es) = Suc n" by simp
  have "forward_by w ?es w'"
    unfolding forward_by_def l using j a s by simp
  then show ?thesis unfolding forward_def by blast
qed

lemma forward_log: "forward w w1 \<Longrightarrow> forward w (log m c w1)"
  by (erule forward_trans) (rule forward_silent[where es = "[Print (c @ m @ reset)]"], simp_all)

lemma forward_header: "forward w w1 \<Longrightarrow> forward w (header m w1)"
  by (erule forward_trans) (rule forward_silent, rule journal_header, simp_all)

lemma forward_console_error: "forward w w1 \<Longrightarrow> forward w (console_error e w1)"
  by (erule forward_trans) (rule forward_silent, rule journal_console_error, simp_all)

lemma forward_after_prompt: "forward w w1 \<Longrightarrow> forward w (snd (prompt q w1))"
  by (erule forward_trans) (rule forward_prompt)

lemma forward_after_select:
  "select question options w1 = Some (i, w2) \<Longrightarrow> forward w w1 \<Longrightarrow> forward w w2"
  using forward_select forward_trans by blast

lemmas forward_intros = forward_log forward_header forward_console_error forward_after_prompt

lemma forward_after_prompt_eq:
  "prompt q w1 = (a, w2) \<Longrightarrow> forward w w1 \<Longrightarrow> forward w w2"
  using forward_after_prompt[of w w1 q] by simp

lemmas forward_elims = forward_after_select forward_after_prompt_eq
lemma ask_styling_forward: "ask_styling w = Some (r, w') \<Longrightarrow> forward w w'"
  unfolding ask_styling_def Let_def
  by (auto split: Option.bind_splits prod.splits if_splits
           intro!: forward_intros elim!: forward_elims)

lemma ask_js_forward: "ask_js w = Some (r, w') \<Longrightarrow> forward w w'"
  unfolding ask_js_def Let_def
  by (auto split: Option.bind_splits prod.splits if_splits
           intro!: forward_intros elim!: forward_elims)

lemma ask_package_manager_forward: "ask_package_manager w = Some (r, w') \<Longrightarrow> forward w w'"
  unfolding ask_package_manager_def Let_def
  by (auto split: Option.bind_splits prod.splits if_splits
           intro!: forward_intros elim!: forward_elims)

lemma ask_tunnel_forward: "ask_tunnel w = Some (r, w') \<Longrightarrow> forward w w'"
  unfolding ask_tunnel_def Let_def
  by (auto split: Option.bind_splits prod.splits if_splits
           intro!: forward_intros elim!: forward_elims)

lemma ask_toml_forward: "ask_toml w = Some (r, w') \<Longrightarrow> forward w w'"
  unfolding ask_toml_def Let_def
  by (auto split: Option.bind_splits prod.splits if_splits
           intro!: forward_intros elim!: forward_elims)

lemma ask_linting_forward: "ask_linting w = Some (r, w') \<Longrightarrow> forward w w'"
  unfolding ask_linting_def Let_def
  by (auto split: Option.bind_splits prod.splits if_splits
           intro!: forward_intros elim!: forward_elims)

lemma ask_git_hooks_forward: "ask_git_hooks w = Some (r, w') \<Longrightarrow> forward w w'"
  unfolding ask_git_hooks_def Let_def
  by (auto split: Option.bind_splits prod.splits if_splits
           intro!: forward_intros elim!: forward_elims)

lemma ask_project_context_forward: "ask_project_context w = Some (r, w') \<Longrightarrow> forward w w'"
  unfolding ask_project_context_def Let_def
  by (auto split: Option.bind_splits prod.splits if_splits
           intro!: forward_intros elim!: forward_elims)

lemma forward_sh_world: "forward w (world_of (sh argv w))"
proof (cases "shell w (length (journal w)) argv (files w)")
  case (Pair fs out)
  show ?thesis
  proof (cases out)
    case None
    with Pair have "world_of (sh argv w) = record_event (Run argv False) (w\<lparr>files := fs\<rparr>)"
      by (simp add: sh_def world_of_def)
    then show ?thesis
      by (intro forward_silent[where es = "[Run argv False]"]) simp_all
  next
    case (Some printed)
    with Pair have "world_of (sh argv w) = record_event (Run argv True) (w\<lparr>files := fs\<rparr>)"
      by (simp add: sh_def world_of_def)
    then show ?thesis
      by (intro forward_silent[where es = "[Run argv True]"]) simp_all
  qed
qed

lemma forward_sh:
  "sh argv w = Ok out w1 \<Longrightarrow> forward w w1"
  "sh argv w = Throw e w1 \<Longrightarrow> forward w w1"
  "sh argv w \<noteq> Exit n w1"
  using forward_sh_world[of w argv]
  by (auto simp: world_of_def sh_def split: prod.splits option.splits)

lemma forward_getShopifyThemes: "forward w (snd (getShopifyThemes w))"
proof (cases "sh [''shopify'', ''theme'', ''list'', ''--json''] w")
  case (Ok out w1)
  then have "forward w w1" by (rule forward_sh(1))
  then have "forward w (log ''Error fetching Shopify themes. Make sure you're authenticated with Shopify CLI.'' red w1)"
    by (rule forward_log)
  with Ok \<open>forward w w1\<close> show ?thesis
    by (simp add: getShopifyThemes_def split: option.splits)
next
  case (Throw e w1)
  then have "forward w w1" by (rule forward_sh(2))
  then have "forward w (log ''Error fetching Shopify themes. Make sure you're authenticated with Shopify CLI.'' red w1)"
    by (rule forward_log)
  with Throw show ?thesis by (simp add: getShopifyThemes_def)
next
  case (Exit n w1)
  with forward_sh(3) show ?thesis by blast
qed

lemma forward_after_themes:
  "getShopifyThemes w1 = (themes, w2) \<Longrightarrow> forward w w1 \<Longrightarrow> forward w w2"
  using forward_getShopifyThemes[of w1] forward_trans by fastforce

lemma ask_theme_forward:
  "ask_theme w = Some r \<Longrightarrow>
     forward w (world_of r) \<and> (\<forall>n w'. r \<noteq> Exit n w') \<and> (\<forall>e w'. r = Throw e w' \<longrightarrow> e = TypeError)"
  unfolding ask_theme_def Let_def no_themes_found_def world_of_def
  by (auto split: Option.bind_splits prod.splits if_splits themes_value.splits
           intro!: forward_intros elim!: forward_elims forward_after_themes)

lemma at_index_toml:
  "at_index [TomlFile, TomlCli, TomlSkip] i = Some TomlFile \<longleftrightarrow> i = 0"
  by (cases i rule: nat.exhaust; simp add: at_index_def; cases "i - 1"; simp; cases "i - 2"; simp)

lemma prompt_eq:
  assumes "prompt q w1 = (a, w2)"
  shows "a = answer_at (stdin w1) 0"
    and "journal w2 = journal w1 @ [Print (yellow @ q @ reset), Answered a]"
    and "stdin w2 = snd (read_line (stdin w1) [])"
proof -
  from assms have a: "a = fst (prompt q w1)" and w: "w2 = snd (prompt q w1)" by simp_all
  show "a = answer_at (stdin w1) 0" unfolding a by simp
  show "journal w2 = journal w1 @ [Print (yellow @ q @ reset), Answered a]" unfolding a w by simp
  show "stdin w2 = snd (read_line (stdin w1) [])" unfolding w by simp
qed

lemma ask_toml_file:
  assumes "ask_toml w = Some ((Some TomlFile, url), w')"
  shows "\<exists>w1 entered. forward w w1 \<and> entered = answer_at (stdin w1) 0
           \<and> journal w' = journal w1 @ [Print store_url_question, Answered entered,
                Print (green @ ([CHR 0xE2, CHR 0x9C, CHR 0x93] @ '' Store URL: '' @ or_default url ''(will be configured later)'') @ reset)]
           \<and> url = normalize_store_url entered"
  using assms unfolding ask_toml_def Let_def store_url_question_def
  apply (auto split: Option.bind_splits prod.splits if_splits)
  subgoal for i w1 entered w2
    apply (frule prompt_eq(1))
    apply (frule prompt_eq(2))
    apply (rule exI[of _ w1])
    apply (auto intro!: forward_intros elim!: forward_after_select)
    done
  done

lemma askQuestions_inversion:
  assumes "askQuestions w = Some r"
  shows "(answer_at (stdin w) 0 = [] \<and> (\<exists>w1. r = Exit 1 w1 \<and> forward w w1)) \<or>
   (answer_at (stdin w) 0 \<noteq> [] \<and> (\<exists>wp s w1 j w2 pm w3 t w4 ta url w5 l w6 g w7 store.
       forward w wp \<and> ask_styling wp = Some (s, w1) \<and> ask_js w1 = Some (j, w2)
       \<and> ask_package_manager w2 = Some (pm, w3) \<and> ask_tunnel w3 = Some (t, w4)
       \<and> ask_toml w4 = Some ((ta, url), w5) \<and> ask_linting w5 = Some (l, w6)
       \<and> ask_git_hooks w6 = Some (g, w7) \<and> ask_theme w7 = Some store
       \<and> (case store of
             Throw e w8 \<Rightarrow> r = Throw e w8
           | Exit n w8 \<Rightarrow> r = Exit n w8
           | Ok (env, tid) w8 \<Rightarrow>
               (\<exists>pt desc w9. ask_project_context w8 = Some ((pt, desc), w9)
                  \<and> r = Ok \<lparr>projectName = answer_at (stdin w) 0, stylingApproach = s,
                       jsApproach = j, packageManager = pm, shopifyEnvironment = env,
                       themeId = tid, enableTunnel = t, projectType = pt,
                       projectDescription = or_default (trim desc) [], tomlApproach = ta,
                       storeUrl = or_default (trim url) [], lintingSetup = l,
                       gitHooks = g\<rparr> w9))))"
proof -
  let ?w0 = "log (''Let's start with some basic information about your project.'' @ nl) cyan
      (log (''This setup includes Vite for fast development, Bun for package management, and CI/CD workflows.'' @ nl) green
        (log ''Welcome! This script will help you set up a modern Shopify theme development environment.'' green
          (header ''Shopify Theme Development Environment Setup'' w)))"
  let ?q = "[CHR 0xF0, CHR 0x9F, CHR 0x93, CHR 0xA6] @ '' What is your project/store name? (e.g., 'acme-store', 'my-boutique'):''"
  obtain name wp where p: "prompt ?q ?w0 = (name, wp)" by (cases "prompt ?q ?w0")
  from prompt_eq(1)[OF p] have name: "name = answer_at (stdin w) 0" by simp
  have t: "trim name = name" unfolding name by (simp add: trim_idem)
  have f: "forward w wp"
    by (rule forward_after_prompt_eq[OF p]) (intro forward_intros forward_refl)
  show ?thesis
  proof (cases "name = []")
    case True
    with assms p t have "r = Exit 1 (log ([CHR 0xE2, CHR 0x9A, CHR 0xA0, CHR 0xEF, CHR 0xB8, CHR 0x8F] @ ''  Project name is required. Please try again.'') red wp)"
      by (simp add: askQuestions_def Let_def)
    with True f show ?thesis unfolding name by (auto intro!: forward_intros)
  next
    case False
    with assms p t f show ?thesis
      unfolding name[symmetric]
      apply (clarsimp simp: askQuestions_def Let_def bind_eq_Some_conv)
      apply (rule exI[of _ wp])
      apply (auto simp: bind_eq_Some_conv split: result.splits)
      done
  qed
qed

subsection \<open>Answers that are accepted at once\<close>

lemma surroundings_simps [simp]:
  "surroundings (log m c w) = surroundings w"
  "surroundings (header m w) = surroundings w"
  "surroundings (console_log s w) = surroundings w"
  "surroundings (console_error e w) = surroundings w"
  "surroundings (record_event ev w) = surroundings w"
  "surroundings (w\<lparr>stdin := input\<rparr>) = surroundings w"
  "surroundings (w\<lparr>journal := es\<rparr>) = surroundings w"
  by (simp_all add: surroundings_def)

lemma surroundings_show_options [simp]: "surroundings (show_options options w) = surroundings w"
proof -
  have "surroundings (foldl (\<lambda>w (index, option). log (''  '' @ digits_of (index + 1) @ ''. '' @ option) cyan w) w xs)
          = surroundings w" for xs :: "(nat \<times> string) list"
    by (induction xs arbitrary: w) (simp_all add: case_prod_beta)
  then show ?thesis by (simp add: show_options_def)
qed

lemma surroundings_prompt [simp]: "surroundings (snd (prompt q w)) = surroundings w"
  by (simp add: prompt_def Let_def case_prod_beta)

lemma surroundings_select_prompt [simp]:
  "surroundings (snd (select_prompt question options w)) = surroundings w"
  by (simp add: select_prompt_def)

lemma parseInt_one: "parseInt ''1'' = Some 1"
  by code_simp

lemma trim_one: "trim ''1'' = ''1''"
  by code_simp

lemma select_one:
  assumes "read_line (stdin w) [] = (''1'', rest)" "options \<noteq> []"
  shows "select question options w = Some (0, snd (select_prompt question options w))"
    and "stdin (snd (select_prompt question options w)) = rest"
proof -
  have a: "answer_at (stdin w) 0 = ''1''" using assms(1) by (simp add: trim_one)
  have p: "fst (select_prompt question options w) = ''1''"
    unfolding select_prompt_fst by (rule a)
  from assms(2) have "1 \<le> int (length options)" by (cases options) simp_all
  then show "select question options w = Some (0, snd (select_prompt question options w))"
    by (subst select_unfold) (simp add: p parseInt_one)
  show "stdin (snd (select_prompt question options w)) = rest"
    unfolding select_prompt_stdin using assms(1) by simp
qed

lemma prompt_line:
  assumes "read_line (stdin w) [] = (a, rest)"
  shows "fst (prompt q w) = trim a" and "stdin (snd (prompt q w)) = rest"
  using assms by simp_all

lemma ask_styling_first:
  assumes "read_line (stdin w) [] = (''1'', rest)"
  shows "\<exists>w'. ask_styling w = Some (Some Css, w') \<and> stdin w' = rest \<and> surroundings w' = surroundings w"
  using assms by (simp add: ask_styling_def Let_def select_one[where rest = rest] at_index_def)

lemma ask_js_first:
  assumes "read_line (stdin w) [] = (''1'', rest)"
  shows "\<exists>w'. ask_js w = Some (Vanilla, w') \<and> stdin w' = rest \<and> surroundings w' = surroundings w"
  using assms by (simp add: ask_js_def Let_def select_one[where rest = rest] at_index_def)

lemma ask_package_manager_first:
  assumes "read_line (stdin w) [] = (''1'', rest)"
  shows "\<exists>w'. ask_package_manager w = Some (Some Bun, w') \<and> stdin w' = rest \<and> surroundings w' = surroundings w"
  using assms by (simp add: ask_package_manager_def Let_def select_one[where rest = rest] at_index_def)

lemma ask_tunnel_first:
  assumes "read_line (stdin w) [] = (''1'', rest)"
  shows "\<exists>w'. ask_tunnel w = Some (True, w') \<and> stdin w' = rest \<and> surroundings w' = surroundings w"
  using assms by (simp add: ask_tunnel_def Let_def select_one[where rest = rest] at_index_def)

lemma ask_toml_first:
  assumes "read_line (stdin w) [] = (''1'', rest)" "read_line rest [] = (url, rest')"
  shows "\<exists>w'. ask_toml w = Some ((Some TomlFile, normalize_store_url (trim url)), w') \<and> stdin w' = rest'
           \<and> surroundings w' = surroundings w"
  using assms
  by (simp add: ask_toml_def Let_def select_one[where rest = rest] at_index_def case_prod_beta)

lemma ask_linting_first:
  assumes "read_line (stdin w) [] = (''1'', rest)"
  shows "\<exists>w'. ask_linting w = Some (Some EslintPrettier, w') \<and> stdin w' = rest \<and> surroundings w' = surroundings w"
  using assms by (simp add: ask_linting_def Let_def select_one[where rest = rest] at_index_def)

lemma ask_git_hooks_first:
  assumes "read_line (stdin w) [] = (''1'', rest)"
  shows "\<exists>w'. ask_git_hooks w = Some (True, w') \<and> stdin w' = rest \<and> surroundings w' = surroundings w"
  using assms by (simp add: ask_git_hooks_def Let_def select_one[where rest = rest] at_index_def)

lemma ask_project_context_first:
  assumes "read_line (stdin w) [] = (''1'', rest)" "read_line rest [] = (description, rest')"
  shows "\<exists>w'. ask_project_context w = Some ((Some ''e-commerce'', trim description), w') \<and> stdin w' = rest'
           \<and> surroundings w' = surroundings w"
  using assms
  by (simp add: ask_project_context_def Let_def select_one[where rest = rest] at_index_def case_prod_beta)

lemma shell_surroundings: "surroundings w' = surroundings w \<Longrightarrow> shell w' = shell w"
  and files_surroundings: "surroundings w' = surroundings w \<Longrightarrow> files w' = files w"
  and fault_surroundings: "surroundings w' = surroundings w \<Longrightarrow> fault w' = fault w"
  by (simp_all add: surroundings_def)

lemma ask_theme_no_cli:
  assumes "\<forall>k argv fs. shell w k argv fs = (fs, None)"
  shows "\<exists>w'. ask_theme w = Some (Ok (''development'', None) w') \<and> stdin w' = stdin w
           \<and> surroundings w' = surroundings w"
  using assms
  by (simp add: ask_theme_def Let_def getShopifyThemes_def sh_def no_themes_found_def surroundings_def)

lemma askQuestions_example:
  assumes input: "stdin w = i0"
    "read_line i0 [] = (name, i1)" "read_line i1 [] = (''1'', i2)" "read_line i2 [] = (''1'', i3)"
    "read_line i3 [] = (''1'', i4)" "read_line i4 [] = (''1'', i5)" "read_line i5 [] = (''1'', i6)"
    "read_line i6 [] = (url, i7)" "read_line i7 [] = (''1'', i8)" "read_line i8 [] = (''1'', i9)"
    "read_line i9 [] = (''1'', i10)" "read_line i10 [] = ([], i11)"
    and name: "trim name \<noteq> []"
    and cli: "\<forall>k argv fs. shell w k argv fs = (fs, None)"
  shows "\<exists>w'. askQuestions w =
           Some (Ok \<lparr>projectName = trim name, stylingApproach = Some Css, jsApproach = Vanilla,
                     packageManager = Some Bun, shopifyEnvironment = ''development'',
                     themeId = None, enableTunnel = True, projectType = Some ''e-commerce'',
                     projectDescription = [], tomlApproach = Some TomlFile,
                     storeUrl = or_default (trim (normalize_store_url (trim url))) [],
                     lintingSetup = Some EslintPrettier, gitHooks = True\<rparr> w')
         \<and> stdin w' = i11 \<and> surroundings w' = surroundings w"
proof -
  let ?w0 = "log (''Let's start with some basic information about your project.'' @ nl) cyan
      (log (''This setup includes Vite for fast development, Bun for package management, and CI/CD workflows.'' @ nl) green
        (log ''Welcome! This script will help you set up a modern Shopify theme development environment.'' green
          (header ''Shopify Theme Development Environment Setup'' w)))"
  let ?q = "[CHR 0xF0, CHR 0x9F, CHR 0x93, CHR 0xA6] @ '' What is your project/store name? (e.g., 'acme-store', 'my-boutique'):''"
  define wp where "wp = snd (prompt ?q ?w0)"
  have p: "prompt ?q ?w0 = (trim name, wp)"
    using input(1,2) by (simp add: wp_def prod_eq_iff)
  have sp: "stdin wp = i1" and ep: "surroundings wp = surroundings w"
    using input(1,2) by (simp_all add: wp_def)
  from ask_styling_first[of wp i2] input(3) sp obtain w1 where
    1: "ask_styling wp = Some (Some Css, w1)" "stdin w1 = i2" "surroundings w1 = surroundings wp" by auto
  from ask_js_first[of w1 i3] input(4) 1(2) obtain w2 where
    2: "ask_js w1 = Some (Vanilla, w2)" "stdin w2 = i3" "surroundings w2 = surroundings w1" by auto
  from ask_package_manager_first[of w2 i4] input(5) 2(2) obtain w3 where
    3: "ask_package_manager w2 = Some (Some Bun, w3)" "stdin w3 = i4" "surroundings w3 = surroundings w2" by auto
  from ask_tunnel_first[of w3 i5] input(6) 3(2) obtain w4 where
    4: "ask_tunnel w3 = Some (True, w4)" "stdin w4 = i5" "surroundings w4 = surroundings w3" by auto
  from ask_toml_first[of w4 i6 url i7] input(7,8) 4(2) obtain w5 where
    5: "ask_toml w4 = Some ((Some TomlFile, normalize_store_url (trim url)), w5)" "stdin w5 = i7"
       "surroundings w5 = surroundings w4" by auto
  from ask_linting_first[of w5 i8] input(9) 5(2) obtain w6 where
    6: "ask_linting w5 = Some (Some EslintPrettier, w6)" "stdin w6 = i8" "surroundings w6 = surroundings w5" by auto
  from ask_git_hooks_first[of w6 i9] input(10) 6(2) obtain w7 where
    7: "ask_git_hooks w6 = Some (True, w7)" "stdin w7 = i9" "surroundings w7 = surroundings w6" by auto
  have e7: "surroundings w7 = surroundings w"
    by (simp only: ep 1(3) 2(3) 3(3) 4(3) 5(3) 6(3) 7(3))
  then have "shell w7 = shell w" by (rule shell_surroundings)
  with cli have "\<forall>k argv fs. shell w7 k argv fs = (fs, None)" by simp
  from ask_theme_no_cli[OF this] obtain w8 where
    8: "ask_theme w7 = Some (Ok (''development'', None) w8)" "stdin w8 = stdin w7"
       "surroundings w8 = surroundings w7" by auto
  from ask_project_context_first[of w8 i10 "[]" i11] input(11,12) 8(2) 7(2) obtain w9 where
    9: "ask_project_context w8 = Some ((Some ''e-commerce'', trim []), w9)" "stdin w9 = i11"
       "surroundings w9 = surroundings w8" by auto
  have te: "trim [] = []" by (rule trim_empty)
  have "askQuestions w =
           Some (Ok \<lparr>projectName = trim name, stylingApproach = Some Css, jsApproach = Vanilla,
                     packageManager = Some Bun, shopifyEnvironment = ''development'',
                     themeId = None, enableTunnel = True, projectType = Some ''e-commerce'',
                     projectDescription = [], tomlApproach = Some TomlFile,
                     storeUrl = or_default (trim (normalize_store_url (trim url))) [],
                     lintingSetup = Some EslintPrettier, gitHooks = True\<rparr> w9)"
    using name
    by (simp only: askQuestions_def Let_def p prod.case trim_idem simp_thms if_False if_True
          1(1) 2(1) 3(1) 4(1) 5(1) 6(1) 7(1) 8(1) 9(1) Option.bind.simps result.case te
          or_default_def[of "[]"])
  moreover have "surroundings w9 = surroundings w" by (simp only: 9(3) 8(3) e7)
  ultimately show ?thesis using 9(2) by blast
qed

subsection \<open>An example run of the questions\<close>

lemma example_lines:
  "read_line ((''acme-store'' @ nl) # rest) [] = (''acme-store'', rest)"
  "read_line ((''1'' @ nl) # rest) [] = (''1'', rest)"
  "read_line ((''shop.myshopify.com/admin'' @ nl) # rest) [] = (''shop.myshopify.com/admin'', rest)"
  "read_line ((''my-shop'' @ nl) # rest) [] = (''my-shop'', rest)"
  "read_line (nl # rest) [] = ([], rest)"
  "read_line ((''n'' @ nl) # rest) [] = (''n'', rest)"
  "read_line ((''y'' @ nl) # rest) [] = (''y'', rest)"
  by code_simp+

lemma example_texts:
  "trim ''acme-store'' = ''acme-store''"
  "trim ''shop.myshopify.com/admin'' = ''shop.myshopify.com/admin''"
  "trim ''my-shop'' = ''my-shop''"
  "trim ''n'' = ''n''"
  "trim ''y'' = ''y''"
  "normalize_store_url ''shop.myshopify.com/admin'' = ''shop.myshopify.com/admin''"
  "normalize_store_url ''my-shop'' = ''my-shop.myshopify.com''"
  "trim ''my-shop.myshopify.com'' = ''my-shop.myshopify.com''"
  "\<not> suffix ''.myshopify.com'' ''shop.myshopify.com/admin''"
  "str_includes ''shop.myshopify.com/admin'' ''.myshopify.com''"
  "\<not> str_includes ''my-shop'' ''.myshopify.com''"
  by code_simp+

subsection \<open>The store URL\<close>

lemma askQuestions_config:
  assumes "askQuestions w = Some (Ok config w')"
  shows "\<exists>w4 url w5. forward w w4 \<and> ask_toml w4 = Some ((tomlApproach config, url), w5)
           \<and> forward w5 w' \<and> storeUrl config = or_default (trim url) []
           \<and> projectName config = answer_at (stdin w) 0 \<and> projectName config \<noteq> []"
proof -
  from askQuestions_inversion[OF assms] obtain wp s w1 j w2 pm w3 t w4 ta url w5 l w6 g w7 store where
    ne: "answer_at (stdin w) 0 \<noteq> []" and f0: "forward w wp"
    and 1: "ask_styling wp = Some (s, w1)" and 2: "ask_js w1 = Some (j, w2)"
    and 3: "ask_package_manager w2 = Some (pm, w3)" and 4: "ask_tunnel w3 = Some (t, w4)"
    and 5: "ask_toml w4 = Some ((ta, url), w5)" and 6: "ask_linting w5 = Some (l, w6)"
    and 7: "ask_git_hooks w6 = Some (g, w7)" and 8: "ask_theme w7 = Some store"
    and 9: "case store of
             Throw e w8 \<Rightarrow> Ok config w' = Throw e w8
           | Exit n w8 \<Rightarrow> Ok config w' = Exit n w8
           | Ok (env, tid) w8 \<Rightarrow>
               (\<exists>pt desc w9. ask_project_context w8 = Some ((pt, desc), w9)
                  \<and> Ok config w' = Ok \<lparr>projectName = answer_at (stdin w) 0, stylingApproach = s,
                       jsApproach = j, packageManager = pm, shopifyEnvironment = env,
                       themeId = tid, enableTunnel = t, projectType = pt,
                       projectDescription = or_default (trim desc) [], tomlApproach = ta,
                       storeUrl = or_default (trim url) [], lintingSetup = l,
                       gitHooks = g\<rparr> w9)"
    by auto
  from 9 obtain env tid w8 pt desc where st: "store = Ok (env, tid) w8"
    and 10: "ask_project_context w8 = Some ((pt, desc), w')"
    and c: "config = \<lparr>projectName = answer_at (stdin w) 0, stylingApproach = s,
                       jsApproach = j, packageManager = pm, shopifyEnvironment = env,
                       themeId = tid, enableTunnel = t, projectType = pt,
                       projectDescription = or_default (trim desc) [], tomlApproach = ta,
                       storeUrl = or_default (trim url) [], lintingSetup = l,
                       gitHooks = g\<rparr>"
    by (cases store) auto
  from f0 ask_styling_forward[OF 1] have "forward w w1" by (rule forward_trans)
  from this ask_js_forward[OF 2] have "forward w w2" by (rule forward_trans)
  from this ask_package_manager_forward[OF 3] have "forward w w3" by (rule forward_trans)
  from this ask_tunnel_forward[OF 4] have f4: "forward w w4" by (rule forward_trans)
  from ask_theme_forward[OF 8] st have "forward w7 w8" by (simp add: world_of_def)
  from this ask_project_context_forward[OF 10] have "forward w7 w'" by (rule forward_trans)
  from ask_git_hooks_forward[OF 7] this have "forward w6 w'" by (rule forward_trans)
  from ask_linting_forward[OF 6] this have f5: "forward w5 w'" by (rule forward_trans)
  from c 5 have "ask_toml w4 = Some ((tomlApproach config, url), w5)" by simp
  with f4 f5 c ne show ?thesis by auto
qed

text \<open>
  C9, as the code has it. When \<open>askQuestions\<close> returns a configuration with the
  \<^verbatim>\<open>file\<close> approach, the question about the store URL has been asked and answered in
  the journal; the answer \<open>entered\<close> is the next answer of the input after those read
  before it; and the store URL of the configuration is empty when \<open>entered\<close> is empty,
  \<open>entered\<close> unchanged when it contains \<^verbatim>\<open>.myshopify.com\<close>, and \<open>entered\<close> followed by
  \<^verbatim>\<open>.myshopify.com\<close> otherwise. So for a non-empty answer the stored URL contains
  \<^verbatim>\<open>.myshopify.com\<close>, and it ends with it when the answer did not contain it.
\<close>

theorem store_url_normalised:
  assumes "askQuestions w = Some (Ok config w')" and "tomlApproach config = Some TomlFile"
  shows "\<exists>before after entered.
           journal w' = journal w @ before @ [Print store_url_question, Answered entered] @ after
         \<and> entered = answer_at (stdin w) (length (answers before))
         \<and> storeUrl config =
              (if entered = [] then []
               else if str_includes entered ''.myshopify.com'' then entered
               else entered @ ''.myshopify.com'')
         \<and> (entered \<noteq> [] \<longrightarrow> str_includes (storeUrl config) ''.myshopify.com'')
         \<and> (entered \<noteq> [] \<and> \<not> str_includes entered ''.myshopify.com''
              \<longrightarrow> suffix ''.myshopify.com'' (storeUrl config))"
proof -
  from askQuestions_config[OF assms(1)] assms(2) obtain w4 url w5 where
    f4: "forward w w4" and t: "ask_toml w4 = Some ((Some TomlFile, url), w5)"
    and f5: "forward w5 w'" and s: "storeUrl config = or_default (trim url) []"
    by auto
  from ask_toml_file[OF t] obtain w1 entered where
    f1: "forward w4 w1" and e: "entered = answer_at (stdin w1) 0"
    and j5: "journal w5 = journal w1 @ [Print store_url_question, Answered entered,
                Print (green @ ([CHR 0xE2, CHR 0x9C, CHR 0x93] @ '' Store URL: '' @ or_default url ''(will be configured later)'') @ reset)]"
    and u: "url = normalize_store_url entered"
    by blast
  from forward_trans[OF f4 f1] obtain before where b: "forward_by w before w1"
    unfolding forward_def by blast
  from f5 obtain es where a: "journal w' = journal w5 @ es"
    unfolding forward_def forward_by_def by blast
  let ?after = "Print (green @ ([CHR 0xE2, CHR 0x9C, CHR 0x93] @ '' Store URL: '' @ or_default url ''(will be configured later)'') @ reset) # es"
  from b have jb: "journal w1 = journal w @ before"
    and sb: "answer_at (stdin w1) 0 = answer_at (stdin w) (length (answers before) + 0)"
    unfolding forward_by_def by blast+
  have j: "journal w' = journal w @ before @ [Print store_url_question, Answered entered] @ ?after"
    unfolding a j5 jb by simp
  have en: "entered = answer_at (stdin w) (length (answers before))"
    unfolding e sb by simp
  have "trim entered = entered" unfolding e by (simp add: trim_idem)
  from normalize_store_url_trimmed[OF this] s u
  have v: "storeUrl config =
              (if entered = [] then []
               else if str_includes entered ''.myshopify.com'' then entered
               else entered @ ''.myshopify.com'')"
    by simp
  have c1: "entered \<noteq> [] \<longrightarrow> str_includes (storeUrl config) ''.myshopify.com''"
    unfolding v by (simp add: str_includes_sublist)
  have c2: "entered \<noteq> [] \<and> \<not> str_includes entered ''.myshopify.com''
              \<longrightarrow> suffix ''.myshopify.com'' (storeUrl config)"
    unfolding v by (simp add: suffix_def)
  from j en v c1 c2 show ?thesis by blast
qed

lemma example_run:
  assumes "trim name = name" "name \<noteq> []" "read_line ((name @ nl) # rest) [] = (name, rest)"
    "read_line ((url @ nl) # rest') [] = (url, rest')" "trim url = url"
    and i: "i = (name @ nl) # (''1'' @ nl) # (''1'' @ nl) # (''1'' @ nl) # (''1'' @ nl) # (''1'' @ nl)
                # (url @ nl) # rest'"
    and r: "rest = (''1'' @ nl) # (''1'' @ nl) # (''1'' @ nl) # (''1'' @ nl) # (''1'' @ nl) # (url @ nl) # rest'"
    and r': "rest' = (''1'' @ nl) # (''1'' @ nl) # (''1'' @ nl) # nl # after"
  shows "\<exists>w'. askQuestions (bare_world i) =
           Some (Ok \<lparr>projectName = name, stylingApproach = Some Css, jsApproach = Vanilla,
                     packageManager = Some Bun, shopifyEnvironment = ''development'',
                     themeId = None, enableTunnel = True, projectType = Some ''e-commerce'',
                     projectDescription = [], tomlApproach = Some TomlFile,
                     storeUrl = or_default (trim (normalize_store_url url)) [],
                     lintingSetup = Some EslintPrettier, gitHooks = True\<rparr> w')
         \<and> stdin w' = after \<and> surroundings w' = surroundings (bare_world i)"
proof -
  have n: "trim name \<noteq> []" using assms(1,2) by simp
  have s: "stdin (bare_world i) = i" by simp
  have c: "\<forall>k argv fs. shell (bare_world i) k argv fs = (fs, None)" by simp
  from askQuestions_example[OF s _ _ _ _ _ _ _ _ _ _ _ n c,
      of "(''1'' @ nl) # (''1'' @ nl) # (''1'' @ nl) # (''1'' @ nl) # (''1'' @ nl) # (url @ nl) # rest'"
         "(''1'' @ nl) # (''1'' @ nl) # (''1'' @ nl) # (''1'' @ nl) # (url @ nl) # rest'"
         "(''1'' @ nl) # (''1'' @ nl) # (''1'' @ nl) # (url @ nl) # rest'"
         "(''1'' @ nl) # (''1'' @ nl) # (url @ nl) # rest'"
         "(''1'' @ nl) # (url @ nl) # rest'"
         "(url @ nl) # rest'"
         url rest'
         "(''1'' @ nl) # (''1'' @ nl) # nl # after"
         "(''1'' @ nl) # nl # after"
         "nl # after"
         after]
  show ?thesis
    unfolding i r r' assms(1) assms(5)
    using assms(3)[unfolded r r'] assms(4)[unfolded r']
    by (simp only: example_lines(2) example_lines(5) simp_thms)
qed

text \<open>
  C9 as it is stated fails. With the \<^verbatim>\<open>file\<close> approach chosen and the store URL
  \<^verbatim>\<open>shop.myshopify.com/admin\<close> entered, the configuration holds this URL as it was entered,
  and it does not end with \<^verbatim>\<open>.myshopify.com\<close>.
\<close>

theorem store_url_kept_as_entered:
  "configured (askQuestions (bare_world
       [''acme-store'' @ nl, ''1'' @ nl, ''1'' @ nl, ''1'' @ nl, ''1'' @ nl, ''1'' @ nl,
        ''shop.myshopify.com/admin'' @ nl, ''1'' @ nl, ''1'' @ nl, ''1'' @ nl, nl]))
     = Some \<lparr>projectName = ''acme-store'', stylingApproach = Some Css, jsApproach = Vanilla,
              packageManager = Some Bun, shopifyEnvironment = ''development'',
              themeId = None, enableTunnel = True, projectType = Some ''e-commerce'',
              projectDescription = [], tomlApproach = Some TomlFile,
              storeUrl = ''shop.myshopify.com/admin'',
              lintingSetup = Some EslintPrettier, gitHooks = True\<rparr>
   \<and> \<not> suffix ''.myshopify.com'' ''shop.myshopify.com/admin''"
proof -
  have u: "or_default (trim (normalize_store_url ''shop.myshopify.com/admin'')) [] = ''shop.myshopify.com/admin''"
    by (simp only: example_texts or_default_def) simp
  from example_run[OF example_texts(1) _ example_lines(1) example_lines(3) example_texts(2) refl refl refl,
      of "[]"]
  obtain w' where "askQuestions (bare_world
       [''acme-store'' @ nl, ''1'' @ nl, ''1'' @ nl, ''1'' @ nl, ''1'' @ nl, ''1'' @ nl,
        ''shop.myshopify.com/admin'' @ nl, ''1'' @ nl, ''1'' @ nl, ''1'' @ nl, nl])
     = Some (Ok \<lparr>projectName = ''acme-store'', stylingApproach = Some Css, jsApproach = Vanilla,
              packageManager = Some Bun, shopifyEnvironment = ''development'',
              themeId = None, enableTunnel = True, projectType = Some ''e-commerce'',
              projectDescription = [], tomlApproach = Some TomlFile,
              storeUrl = or_default (trim (normalize_store_url ''shop.myshopify.com/admin'')) [],
              lintingSetup = Some EslintPrettier, gitHooks = True\<rparr> w')"
    by auto
  then show ?thesis
    unfolding u by (simp only: configured_def option.case result.case example_texts(9) simp_thms)
qed

theorem store_url_normalised_witness:
  "\<exists>config w' before after entered.
     askQuestions (bare_world
       [''acme-store'' @ nl, ''1'' @ nl, ''1'' @ nl, ''1'' @ nl, ''1'' @ nl, ''1'' @ nl,
        ''my-shop'' @ nl, ''1'' @ nl, ''1'' @ nl, ''1'' @ nl, nl]) = Some (Ok config w')
   \<and> tomlApproach config = Some TomlFile
   \<and> storeUrl config = ''my-shop.myshopify.com''
   \<and> journal w' = before @ [Print store_url_question, Answered entered] @ after
   \<and> entered = answer_at
       [''acme-store'' @ nl, ''1'' @ nl, ''1'' @ nl, ''1'' @ nl, ''1'' @ nl, ''1'' @ nl,
        ''my-shop'' @ nl, ''1'' @ nl, ''1'' @ nl, ''1'' @ nl, nl] (length (answers before))
   \<and> storeUrl config =
        (if entered = [] then []
         else if str_includes entered ''.myshopify.com'' then entered
         else entered @ ''.myshopify.com'')"
proof -
  let ?i = "[''acme-store'' @ nl, ''1'' @ nl, ''1'' @ nl, ''1'' @ nl, ''1'' @ nl, ''1'' @ nl,
        ''my-shop'' @ nl, ''1'' @ nl, ''1'' @ nl, ''1'' @ nl, nl]"
  let ?c = "\<lparr>projectName = ''acme-store'', stylingApproach = Some Css, jsApproach = Vanilla,
              packageManager = Some Bun, shopifyEnvironment = ''development'',
              themeId = None, enableTunnel = True, projectType = Some ''e-commerce'',
              projectDescription = [], tomlApproach = Some TomlFile,
              storeUrl = or_default (trim (normalize_store_url ''my-shop'')) [],
              lintingSetup = Some EslintPrettier, gitHooks = True\<rparr>"
  have u: "or_default (trim (normalize_store_url ''my-shop'')) [] = ''my-shop.myshopify.com''"
    by (simp only: example_texts or_default_def) simp
  from example_run[OF example_texts(1) _ example_lines(1) example_lines(4) example_texts(3) refl refl refl,
      of "[]"]
  obtain w' where a: "askQuestions (bare_world ?i) = Some (Ok ?c w')"
    by auto
  have t: "tomlApproach ?c = Some TomlFile" by simp
  from store_url_normalised[OF a t] obtain before after entered where
    "journal w' = journal (bare_world ?i) @ before @ [Print store_url_question, Answered entered] @ after"
    "entered = answer_at (stdin (bare_world ?i)) (length (answers before))"
    "storeUrl ?c =
        (if entered = [] then []
         else if str_includes entered ''.myshopify.com'' then entered
         else entered @ ''.myshopify.com'')"
    by blast
  then have
    "journal w' = before @ [Print store_url_question, Answered entered] @ after"
    "entered = answer_at ?i (length (answers before))"
    "storeUrl ?c =
        (if entered = [] then []
         else if str_includes entered ''.myshopify.com'' then entered
         else entered @ ''.myshopify.com'')"
    by (simp_all only: journal_bare_world stdin_bare_world append_Nil)
  moreover have "storeUrl ?c = ''my-shop.myshopify.com''" using u by simp
  ultimately show ?thesis using a t by blast
qed

end
